theory Spec2Isabelle
  imports Main "HOL-Library.Multiset"
begin

section \<open>Strings and paths\<close>

text \<open>
  Python strings are sequences of code points. A \<^typ>\<open>char\<close> stands for the code point
  of the same number, so the model covers text in the range 0 to 255 (Latin-1).
  Paths follow the POSIX flavour of \<^verbatim>\<open>os.path\<close>: the separator \<^verbatim>\<open>os.sep\<close> is the slash.
\<close>

definition startswith :: "string \<Rightarrow> string \<Rightarrow> bool" where
  "startswith s p = (take (length p) s = p)"

definition endswith :: "string \<Rightarrow> string \<Rightarrow> bool" where
  "endswith s suf = (length suf \<le> length s \<and> drop (length s - length suf) s = suf)"

definition removeprefix :: "string \<Rightarrow> string \<Rightarrow> string" where
  "removeprefix s p = (if startswith s p then drop (length p) s else s)"

text \<open>\<^verbatim>\<open>os.path.join(a, b)\<close>: an absolute second component replaces the first.\<close>

definition path_join :: "string \<Rightarrow> string \<Rightarrow> string" where
  "path_join a b =
     (if startswith b ''/'' then b
      else if a = [] \<or> endswith a ''/'' then a @ b
      else a @ ''/'' @ b)"

text \<open>\<^verbatim>\<open>os.path.basename(p)\<close>: what follows the last slash.\<close>

definition basename :: "string \<Rightarrow> string" where
  "basename p = rev (takeWhile (\<lambda>c. c \<noteq> CHR ''/'') (rev p))"

text \<open>\<^verbatim>\<open>s.replace(".", os.sep)\<close>: both strings are one character long.\<close>

definition replace_dots :: "string \<Rightarrow> string" where
  "replace_dots s = map (\<lambda>c. if c = CHR ''.'' then CHR ''/'' else c) s"

text \<open>
  \<^verbatim>\<open>str.isspace\<close> on the range of the model: tab to carriage return, the four
  separators 0x1C to 0x1F, space, NEL and the no-break space.
\<close>

definition py_isspace :: "char \<Rightarrow> bool" where
  "py_isspace c =
     (let n = of_char c :: nat
      in (9 \<le> n \<and> n \<le> 13) \<or> (28 \<le> n \<and> n \<le> 32) \<or> n = 133 \<or> n = 160)"

definition py_strip :: "string \<Rightarrow> string" where
  "py_strip s = rev (dropWhile py_isspace (rev (dropWhile py_isspace s)))"

text \<open>\<^verbatim>\<open>s.split(",")\<close>: the empty string gives one empty token.\<close>

fun split_on :: "char \<Rightarrow> string \<Rightarrow> string list" where
  "split_on c [] = [[]]"
| "split_on c (x # xs) =
     (if x = c then [] # split_on c xs
      else (case split_on c xs of
              [] \<Rightarrow> [[x]]
            | t # ts \<Rightarrow> (x # t) # ts))"

text \<open>
  \<^verbatim>\<open>str.isdigit\<close> accepts every character whose Unicode numeric type is Digit or
  Decimal: in the range of the model, the ten ASCII digits and the superscripts
  two, three and one (0xB2, 0xB3, 0xB9). \<^verbatim>\<open>int\<close> parses decimal digits only, and
  raises \<^verbatim>\<open>ValueError\<close> on a superscript.
\<close>

definition is_decimal_char :: "char \<Rightarrow> bool" where
  "is_decimal_char c = (let n = of_char c :: nat in 48 \<le> n \<and> n \<le> 57)"

definition is_digit_char :: "char \<Rightarrow> bool" where
  "is_digit_char c =
     (let n = of_char c :: nat in (48 \<le> n \<and> n \<le> 57) \<or> n = 178 \<or> n = 179 \<or> n = 185)"

definition py_isdigit :: "string \<Rightarrow> bool" where
  "py_isdigit s = (s \<noteq> [] \<and> list_all is_digit_char s)"

definition digit_value :: "char \<Rightarrow> int" where
  "digit_value c = int (of_char c) - 48"

definition decimal_value :: "string \<Rightarrow> int" where
  "decimal_value s = foldl (\<lambda>acc c. 10 * acc + digit_value c) 0 s"

datatype exn = CompilationError | ValueError | EOFError | KeyError | TypeError | FileNotFoundError

text \<open>
  \<^verbatim>\<open>int(s)\<close> for a string without sign, blanks or underscores, as every string
  is that \<^verbatim>\<open>isdigit\<close> accepts. The bound that recent interpreters put on the number
  of digits (4300 by default) is outside the model.
\<close>

definition py_int :: "string \<Rightarrow> exn + int" where
  "py_int s =
     (if s \<noteq> [] \<and> list_all is_decimal_char s then Inr (decimal_value s)
      else Inl ValueError)"

text \<open>\<^verbatim>\<open>str.lower\<close> on the range of the model.\<close>

definition py_lower_char :: "char \<Rightarrow> char" where
  "py_lower_char c =
     (let n = of_char c :: nat
      in if (65 \<le> n \<and> n \<le> 90) \<or> (192 \<le> n \<and> n \<le> 222 \<and> n \<noteq> 215)
         then char_of (n + 32) else c)"

definition py_lower :: "string \<Rightarrow> string" where
  "py_lower s = map py_lower_char s"

section \<open>The file tree scanner\<close>

text \<open>
  A directory is the list of its entries in the order \<^verbatim>\<open>os.listdir\<close> returns them;
  an entry for which \<^verbatim>\<open>os.path.isdir\<close> holds carries its own listing. Trees are finite,
  so a cycle of symbolic links is outside the model.
\<close>

datatype entry = File string | Dir string "entry list"

text \<open>
  The loop of \<^verbatim>\<open>_posorder_traversal\<close> (jacs.py, lines 52 to 61), with the list
  \<^verbatim>\<open>list_of_files\<close> as accumulator.
\<close>

fun posorder_loop :: "string \<Rightarrow> (string \<Rightarrow> bool) \<Rightarrow> entry list \<Rightarrow> string list \<Rightarrow> string list" where
  "posorder_loop folder condition [] list_of_files = list_of_files"
| "posorder_loop folder condition (File name # files) list_of_files =
     (let file = path_join folder name
      in if condition file
         then posorder_loop folder condition files (list_of_files @ [file])
         else posorder_loop folder condition files list_of_files)"
| "posorder_loop folder condition (Dir name sub # files) list_of_files =
     (let file = path_join folder name
      in posorder_loop folder condition files
           (list_of_files @ posorder_loop file condition sub []))"

definition posorder_traversal :: "string \<Rightarrow> entry list \<Rightarrow> (string \<Rightarrow> bool) \<Rightarrow> string list" where
  "posorder_traversal folder files condition = posorder_loop folder condition files []"

text \<open>The files of a tree, one occurrence for each file entry, whatever its depth.\<close>

fun all_files :: "string \<Rightarrow> entry list \<Rightarrow> string multiset" where
  "all_files folder [] = {#}"
| "all_files folder (File name # files) = add_mset (path_join folder name) (all_files folder files)"
| "all_files folder (Dir name sub # files) =
     all_files (path_join folder name) sub + all_files folder files"

inductive file_at :: "string \<Rightarrow> entry list \<Rightarrow> string \<Rightarrow> bool" where
  here: "file_at folder (File name # files) (path_join folder name)"
| below: "file_at (path_join folder name) sub p \<Longrightarrow> file_at folder (Dir name sub # files) p"
| later: "file_at folder files p \<Longrightarrow> file_at folder (e # files) p"

text \<open>What one entry of a listing contributes to the result.\<close>

definition entry_results :: "string \<Rightarrow> (string \<Rightarrow> bool) \<Rightarrow> entry \<Rightarrow> string list" where
  "entry_results folder condition e =
     (case e of
        File name \<Rightarrow> (if condition (path_join folder name) then [path_join folder name] else [])
      | Dir name sub \<Rightarrow> posorder_traversal (path_join folder name) sub condition)"

definition example_tree :: "entry list" where
  "example_tree =
     [File ''A.java'',
      Dir ''sub'' [File ''B.class'', File ''B.java'', Dir ''deep'' [File ''C.java'']],
      File ''A.class'',
      Dir ''empty'' []]"

section \<open>The options record and the machine\<close>

text \<open>The class \<^verbatim>\<open>CompilationOptions\<close> (compilation_options.py, lines 11 to 16).\<close>

record compilation_options =
  src_folder :: string
  main_class_path :: string
  class_path :: string
  verbose :: bool
  encoding :: string
  compiler :: string

text \<open>
  The persisted file holds what \<^verbatim>\<open>json.dump\<close> writes for a dictionary of strings and
  booleans, and \<^verbatim>\<open>json.load\<close> reads that dictionary back: the file is modelled by
  the dictionary, keys in insertion order.
\<close>

datatype json_value = JString string | JBool bool

type_synonym json_object = "(string \<times> json_value) list"

text \<open>What \<^verbatim>\<open>subprocess.run(..., capture_output=True, text=True)\<close> returns.\<close>

record proc_result =
  returncode :: int
  stdout :: string
  stderr :: string

text \<open>
  One constructor for each \<^verbatim>\<open>print\<close> of the program, colours left out. In jacs.py:
  \<open>MenuShown\<close> lines 19 to 31, \<open>NoteClassPath\<close> 84, \<open>CouldNotCompile\<close> 87,
  \<open>CompilationAborted\<close> 88, \<open>Diagnostics\<close> 89 and 242, \<open>FilesToCompile\<close> 151,
  \<open>Listed\<close> 153, \<open>Compiling\<close> 158 and 195, \<open>CouldNotCompileAll\<close> 161 and 198,
  \<open>CompilationFinished\<close> 164 and 201, \<open>TotalCompiled\<close> 165 and 202,
  \<open>FilesAvailable\<close> 177, \<open>Numbered\<close> 179, \<open>NoFilesSelected\<close> 187,
  \<open>CleaningBuild\<close> 214, \<open>Blank\<close> 215, \<open>Deleted\<close> 219, \<open>BuildCleaned\<close> 221,
  \<open>CouldNotRun\<close> 241, \<open>ProgramOutput\<close> 245, \<open>CurrentOptions\<close> 256,
  \<open>SettingsMenu\<close> 259 to 266, \<open>InvalidChoice\<close> 300, \<open>OptionsUpdated\<close> 305,
  \<open>Exiting\<close> 355, \<open>InvalidOption\<close> 358; in compilation_options.py:
  \<open>FolderDoesNotExist\<close> line 58.
\<close>

datatype message =
    MenuShown string string string
  | NoteClassPath
  | CouldNotCompile string
  | CompilationAborted
  | Diagnostics string
  | FilesToCompile
  | Listed string
  | Compiling string
  | CouldNotCompileAll
  | CompilationFinished
  | TotalCompiled nat
  | FilesAvailable
  | Numbered nat string
  | NoFilesSelected
  | CleaningBuild
  | Blank
  | Deleted string
  | BuildCleaned
  | CouldNotRun
  | ProgramOutput string
  | CurrentOptions compilation_options
  | SettingsMenu
  | InvalidChoice
  | OptionsUpdated
  | Exiting
  | InvalidOption
  | FolderDoesNotExist string

text \<open>
  What the program does to its surroundings, in program order: a line on standard
  output or on standard error, a call of \<^verbatim>\<open>input\<close> with its prompt, of
  \<^verbatim>\<open>subprocess.run\<close> with its command, of \<^verbatim>\<open>os.remove\<close>, a write of the options
  file, a call of \<^verbatim>\<open>os.system\<close>.
\<close>

datatype event =
    Out message
  | Err message
  | Prompt string
  | Run "string list"
  | Remove string
  | Write json_object
  | System string

text \<open>
  The operating system and the external programs, over a state \<open>'w\<close> of the file
  system that the model leaves open. The working directory never changes, so
  \<^verbatim>\<open>os.path.abspath\<close> is a function of the path alone. \<open>os_tree w folder\<close> is the tree
  that \<^verbatim>\<open>os.listdir\<close> and \<^verbatim>\<open>os.path.isdir\<close> show below \<open>folder\<close>. Calls of
  \<^verbatim>\<open>os.remove\<close> and \<^verbatim>\<open>subprocess.run\<close> return: a missing executable and a
  failed deletion are outside the model.
\<close>

record 'w system =
  os_abspath :: "string \<Rightarrow> string"
  os_exists :: "'w \<Rightarrow> string \<Rightarrow> bool"
  os_isdir :: "'w \<Rightarrow> string \<Rightarrow> bool"
  os_tree :: "'w \<Rightarrow> string \<Rightarrow> entry list"
  os_remove :: "string \<Rightarrow> 'w \<Rightarrow> 'w"
  os_run :: "string list \<Rightarrow> 'w \<Rightarrow> proc_result \<times> 'w"

text \<open>
  The state the program runs in: the file system, the options file (which the
  external programs leave alone), the lines still to be read from standard input,
  and the events so far.
\<close>

record 'w machine =
  world :: 'w
  options_file :: "json_object option"
  stdin :: "string list"
  trace :: "event list"

text \<open>
  How a piece of the program ends: it returns a value, an exception leaves it, or
  \<^verbatim>\<open>exit\<close> ends the process with a status.
\<close>

datatype ('a, 'w) res =
    Normal 'a "'w machine"
  | Raise exn "'w machine"
  | Exit int "'w machine"

definition then_do :: "('a, 'w) res \<Rightarrow> ('a \<Rightarrow> 'w machine \<Rightarrow> ('b, 'w) res) \<Rightarrow> ('b, 'w) res" where
  "then_do r f = (case r of Normal a s \<Rightarrow> f a s | Raise e s \<Rightarrow> Raise e s | Exit n s \<Rightarrow> Exit n s)"

definition emit :: "event \<Rightarrow> 'w machine \<Rightarrow> 'w machine" where
  "emit e s = s\<lparr>trace := trace s @ [e]\<rparr>"

definition emits :: "event list \<Rightarrow> 'w machine \<Rightarrow> 'w machine" where
  "emits es s = s\<lparr>trace := trace s @ es\<rparr>"

text \<open>\<^verbatim>\<open>input(prompt)\<close>: at the end of standard input it raises \<^verbatim>\<open>EOFError\<close>.\<close>

definition input_line :: "string \<Rightarrow> 'w machine \<Rightarrow> (string, 'w) res" where
  "input_line prompt s =
     (case stdin s of
        [] \<Rightarrow> Raise EOFError (emit (Prompt prompt) s)
      | l # ls \<Rightarrow> Normal l (emit (Prompt prompt) (s\<lparr>stdin := ls\<rparr>)))"

definition clear_command :: string where
  "clear_command = ''clear''"

section \<open>CompilationOptions\<close>

text \<open>\<^verbatim>\<open>_validate_folder\<close> (compilation_options.py, lines 41 to 61).\<close>

definition validate_folder :: "'w system \<Rightarrow> string \<Rightarrow> 'w machine \<Rightarrow> (string, 'w) res" where
  "validate_folder env folder_path s =
     (let absolute_path = os_abspath env folder_path
      in if \<not> os_exists env (world s) absolute_path \<or> \<not> os_isdir env (world s) absolute_path
         then Exit 1 (emit (Err (FolderDoesNotExist (basename absolute_path))) s)
         else Normal absolute_path s)"

definition set_verbose :: "bool \<Rightarrow> compilation_options \<Rightarrow> compilation_options" where
  "set_verbose v opts = opts\<lparr>verbose := v\<rparr>"

definition set_encoding :: "string \<Rightarrow> compilation_options \<Rightarrow> compilation_options" where
  "set_encoding v opts = opts\<lparr>encoding := v\<rparr>"

definition set_compiler :: "string \<Rightarrow> compilation_options \<Rightarrow> compilation_options" where
  "set_compiler v opts = opts\<lparr>compiler := v\<rparr>"

definition set_main_class_path :: "string \<Rightarrow> compilation_options \<Rightarrow> compilation_options" where
  "set_main_class_path v opts = opts\<lparr>main_class_path := v\<rparr>"

definition set_src_folder ::
  "'w system \<Rightarrow> string \<Rightarrow> compilation_options \<Rightarrow> 'w machine \<Rightarrow> (compilation_options, 'w) res" where
  "set_src_folder env v opts s =
     then_do (validate_folder env v s) (\<lambda>a s'. Normal (opts\<lparr>src_folder := a\<rparr>) s')"

definition set_class_path ::
  "'w system \<Rightarrow> string \<Rightarrow> compilation_options \<Rightarrow> 'w machine \<Rightarrow> (compilation_options, 'w) res" where
  "set_class_path env v opts s =
     then_do (validate_folder env v s) (\<lambda>a s'. Normal (opts\<lparr>class_path := a\<rparr>) s')"

text \<open>
  \<^verbatim>\<open>__init__\<close> (lines 18 to 36) without arguments and with three. A field not yet
  assigned holds the empty string.
\<close>

definition default_options :: compilation_options where
  "default_options =
     \<lparr>src_folder = [], main_class_path = [], class_path = [],
      verbose = False, encoding = ''UTF-8'', compiler = ''javac''\<rparr>"

definition new_options ::
  "'w system \<Rightarrow> string \<Rightarrow> string \<Rightarrow> string \<Rightarrow> 'w machine \<Rightarrow> (compilation_options, 'w) res" where
  "new_options env a0 a1 a2 s =
     then_do (set_src_folder env a0 default_options s) (\<lambda>o1 s1.
       set_class_path env a2 (o1\<lparr>main_class_path := a1\<rparr>) s1)"

text \<open>\<^verbatim>\<open>create_compilation_options_file\<close> (lines 156 to 180).\<close>

definition options_dict :: "compilation_options \<Rightarrow> json_object" where
  "options_dict opts =
     [(''src_folder'', JString (src_folder opts)),
      (''main_class_path'', JString (main_class_path opts)),
      (''class_path'', JString (class_path opts)),
      (''verbose'', JBool (verbose opts)),
      (''encoding'', JString (encoding opts)),
      (''compiler'', JString (compiler opts))]"

definition create_compilation_options_file :: "compilation_options \<Rightarrow> 'w machine \<Rightarrow> 'w machine" where
  "create_compilation_options_file opts s =
     emit (Write (options_dict opts)) (s\<lparr>options_file := Some (options_dict opts)\<rparr>)"

text \<open>
  \<^verbatim>\<open>load_compilation_options_file\<close> (lines 127 to 154). A key that is missing raises
  \<^verbatim>\<open>KeyError\<close>. The record is typed, so a value of the other JSON type ends the load
  with \<^verbatim>\<open>TypeError\<close>.
\<close>

definition get_string :: "json_object \<Rightarrow> string \<Rightarrow> 'w machine \<Rightarrow> (string, 'w) res" where
  "get_string d k s =
     (case map_of d k of
        None \<Rightarrow> Raise KeyError s
      | Some (JString v) \<Rightarrow> Normal v s
      | Some (JBool b) \<Rightarrow> Raise TypeError s)"

definition get_bool :: "json_object \<Rightarrow> string \<Rightarrow> 'w machine \<Rightarrow> (bool, 'w) res" where
  "get_bool d k s =
     (case map_of d k of
        None \<Rightarrow> Raise KeyError s
      | Some (JString v) \<Rightarrow> Raise TypeError s
      | Some (JBool b) \<Rightarrow> Normal b s)"

definition load_compilation_options_file :: "'w system \<Rightarrow> 'w machine \<Rightarrow> (compilation_options, 'w) res" where
  "load_compilation_options_file env s =
     (case options_file s of
        None \<Rightarrow> Raise FileNotFoundError s
      | Some d \<Rightarrow>
          then_do (get_string d ''src_folder'' s) (\<lambda>v1 s1.
          then_do (set_src_folder env v1 default_options s1) (\<lambda>o1 s2.
          then_do (get_string d ''main_class_path'' s2) (\<lambda>v2 s3.
          then_do (get_string d ''class_path'' s3) (\<lambda>v3 s4.
          then_do (set_class_path env v3 (set_main_class_path v2 o1) s4) (\<lambda>o3 s5.
          then_do (get_bool d ''verbose'' s5) (\<lambda>v4 s6.
          then_do (get_string d ''encoding'' s6) (\<lambda>v5 s7.
          then_do (get_string d ''compiler'' s7) (\<lambda>v6 s8.
            Normal (set_compiler v6 (set_encoding v5 (set_verbose v4 o3))) s8)))))))))"

section \<open>Compiling, cleaning, running\<close>

text \<open>\<^verbatim>\<open>_compile_file\<close> (jacs.py, lines 66 to 91).\<close>

definition compile_command :: "compilation_options \<Rightarrow> string list" where
  "compile_command opts =
     [compiler opts, ''-cp'', class_path opts, ''-encoding'', encoding opts]
     @ (if verbose opts then [''-verbose''] else [])"

definition compile_file :: "'w system \<Rightarrow> string \<Rightarrow> compilation_options \<Rightarrow> 'w machine \<Rightarrow> (unit, 'w) res" where
  "compile_file env path_to_file opts s =
     (let command = compile_command opts;
          result = fst (os_run env (command @ [path_to_file]) (world s));
          s1 = emit (Run (command @ [path_to_file]))
                 (s\<lparr>world := snd (os_run env (command @ [path_to_file]) (world s))\<rparr>);
          s2 = (if class_path opts = src_folder opts then emit (Out NoteClassPath) s1 else s1)
      in if returncode result \<noteq> 0
         then Raise CompilationError
                (emits [Err (CouldNotCompile path_to_file), Err CompilationAborted,
                        Err (Diagnostics (stderr result))] s2)
         else Normal () s2)"

text \<open>
  The \<^verbatim>\<open>for\<close> loop inside \<^verbatim>\<open>try\<close> (lines 157 to 159, and again 194 to 196): the
  exception of \<^verbatim>\<open>_compile_file\<close> leaves the loop.
\<close>

fun compile_loop :: "'w system \<Rightarrow> compilation_options \<Rightarrow> string list \<Rightarrow> 'w machine \<Rightarrow> (unit, 'w) res" where
  "compile_loop env opts [] s = Normal () s"
| "compile_loop env opts (file # files) s =
     (case compile_file env file opts (emit (Out (Compiling file)) s) of
        Normal u s' \<Rightarrow> compile_loop env opts files s'
      | Raise e s' \<Rightarrow> Raise e s'
      | Exit n s' \<Rightarrow> Exit n s')"

text \<open>
  The \<^verbatim>\<open>try\<close> statement with its \<^verbatim>\<open>except CompilationError\<close> and the two lines after
  it (lines 155 to 165 of \<^verbatim>\<open>compile_all_files\<close>; lines 193 to 202 of
  \<^verbatim>\<open>compile_specific_files\<close> are the same text).
\<close>

definition compile_batch :: "'w system \<Rightarrow> compilation_options \<Rightarrow> string list \<Rightarrow> 'w machine \<Rightarrow> (unit, 'w) res" where
  "compile_batch env opts files_to_compile s =
     (case compile_loop env opts files_to_compile s of
        Raise e s' \<Rightarrow>
          (if e = CompilationError then Normal () (emit (Err CouldNotCompileAll) s')
           else Raise e s')
      | Exit n s' \<Rightarrow> Exit n s'
      | Normal u s' \<Rightarrow>
          Normal () (emits [Out CompilationFinished,
                            Out (TotalCompiled (length files_to_compile))] s'))"

definition java_files :: "'w system \<Rightarrow> compilation_options \<Rightarrow> 'w machine \<Rightarrow> string list" where
  "java_files env opts s =
     posorder_traversal (src_folder opts) (os_tree env (world s) (src_folder opts))
       (\<lambda>file. endswith file ''.java'')"

text \<open>\<^verbatim>\<open>compile_all_files\<close> (lines 140 to 165).\<close>

definition compile_all_files :: "'w system \<Rightarrow> compilation_options \<Rightarrow> 'w machine \<Rightarrow> (unit, 'w) res" where
  "compile_all_files env opts s =
     (let files_to_compile = java_files env opts s;
          s1 = emits (Out FilesToCompile # map (\<lambda>file. Out (Listed file)) files_to_compile) s
      in compile_batch env opts files_to_compile s1)"

text \<open>
  \<^verbatim>\<open>compile_specific_files\<close> (lines 167 to 202). The condition of the filter of line
  184 calls \<^verbatim>\<open>int\<close> on every token that \<^verbatim>\<open>isdigit\<close> accepts.
\<close>

definition valid_index :: "nat \<Rightarrow> string \<Rightarrow> exn + bool" where
  "valid_index n file_index =
     (if py_isdigit file_index
      then (case py_int file_index of
              Inl e \<Rightarrow> Inl e
            | Inr k \<Rightarrow> Inr (1 \<le> k \<and> k \<le> int n))
      else Inr False)"

fun filter_indices :: "nat \<Rightarrow> string list \<Rightarrow> exn + string list" where
  "filter_indices n [] = Inr []"
| "filter_indices n (t # ts) =
     (case valid_index n t of
        Inl e \<Rightarrow> Inl e
      | Inr b \<Rightarrow>
          (case filter_indices n ts of
             Inl e \<Rightarrow> Inl e
           | Inr r \<Rightarrow> Inr (if b then t # r else r)))"

definition selected_file :: "string list \<Rightarrow> string \<Rightarrow> string" where
  "selected_file files_available file_index =
     files_available ! nat (decimal_value file_index - 1)"

definition compile_specific_files :: "'w system \<Rightarrow> compilation_options \<Rightarrow> 'w machine \<Rightarrow> (unit, 'w) res" where
  "compile_specific_files env opts s =
     (let files_available = java_files env opts s;
          s1 = emits (Out FilesAvailable #
                 map (\<lambda>(i, file). Out (Numbered (i + 1) (removeprefix file (src_folder opts @ ''/''))))
                   (enumerate 0 files_available)) s
      in then_do (input_line (CHR 0x0A # ''Choose the files to compile (separated by commas): '') s1)
           (\<lambda>line s2.
              case filter_indices (length files_available) (map py_strip (split_on CHR '','' line)) of
                Inl e \<Rightarrow> Raise e s2
              | Inr files_to_compile \<Rightarrow>
                  if length files_to_compile = 0
                  then Normal () (emit (Err NoFilesSelected) s2)
                  else compile_batch env opts
                         (map (selected_file files_available) files_to_compile) s2))"

text \<open>\<^verbatim>\<open>clear_build\<close> (lines 204 to 221).\<close>

fun remove_loop :: "'w system \<Rightarrow> string list \<Rightarrow> 'w machine \<Rightarrow> 'w machine" where
  "remove_loop env [] s = s"
| "remove_loop env (file # files) s =
     remove_loop env files
       (emit (Out (Deleted file)) (emit (Remove file) (s\<lparr>world := os_remove env file (world s)\<rparr>)))"

definition class_files :: "'w system \<Rightarrow> compilation_options \<Rightarrow> 'w machine \<Rightarrow> string list" where
  "class_files env opts s =
     posorder_traversal (src_folder opts) (os_tree env (world s) (src_folder opts))
       (\<lambda>file. endswith file ''.class'')"

definition clear_build :: "'w system \<Rightarrow> compilation_options \<Rightarrow> 'w machine \<Rightarrow> (unit, 'w) res" where
  "clear_build env opts s =
     (let files_to_delete = class_files env opts s;
          s1 = emits [Out CleaningBuild, Out Blank] s;
          s2 = remove_loop env files_to_delete s1
      in Normal () (emit (Out BuildCleaned) s2))"

text \<open>\<^verbatim>\<open>compile_and_run_project\<close> (lines 223 to 245).\<close>

definition main_file :: "compilation_options \<Rightarrow> string" where
  "main_file opts = path_join (src_folder opts) (replace_dots (main_class_path opts) @ ''.java'')"

definition run_command :: "compilation_options \<Rightarrow> string list" where
  "run_command opts = [''java'', ''-cp'', class_path opts, main_class_path opts]"

definition compile_and_run_project :: "'w system \<Rightarrow> compilation_options \<Rightarrow> 'w machine \<Rightarrow> (unit, 'w) res" where
  "compile_and_run_project env opts s =
     then_do (compile_file env (main_file opts) opts s) (\<lambda>u s1.
       let command = run_command opts;
           result = fst (os_run env command (world s1));
           s2 = emit (Run command) (s1\<lparr>world := snd (os_run env command (world s1))\<rparr>)
       in if returncode result \<noteq> 0
          then Normal () (emits [Err CouldNotRun, Err (Diagnostics (stderr result))] s2)
          else Normal () (emit (Out (ProgramOutput (stdout result))) s2))"

section \<open>The settings submenu and the main menu\<close>

text \<open>Where a result leaves the machine.\<close>

fun state_of :: "('a, 'w) res \<Rightarrow> 'w machine" where
  "state_of (Normal a s) = s"
| "state_of (Raise e s) = s"
| "state_of (Exit n s) = s"

text \<open>
  One turn of the \<^verbatim>\<open>while True\<close> loop of \<^verbatim>\<open>setup_compilation_options\<close> (jacs.py,
  lines 254 to 302): \<open>Break\<close> for \<^verbatim>\<open>break\<close>, \<open>Continue\<close> for the next turn.
\<close>

datatype ctl = Continue | Break

definition setup_iteration ::
  "'w system \<Rightarrow> compilation_options \<Rightarrow> 'w machine \<Rightarrow> (ctl \<times> compilation_options, 'w) res" where
  "setup_iteration env opts s =
     then_do (input_line [] (emits [Out (CurrentOptions opts), Out SettingsMenu] s)) (\<lambda>line s1.
       let choice = py_strip line
       in if choice = ''1'' then
            then_do (input_line ''New source folder: '' s1) (\<lambda>l s2.
            then_do (set_src_folder env (py_strip l) opts s2) (\<lambda>opts' s3.
              Normal (Continue, opts') s3))
          else if choice = ''2'' then
            then_do (input_line ''New main class path: '' s1) (\<lambda>l s2.
              Normal (Continue, set_main_class_path (py_strip l) opts) s2)
          else if choice = ''3'' then
            then_do (input_line ''New class path: '' s1) (\<lambda>l s2.
            then_do (set_class_path env (py_strip l) opts s2) (\<lambda>opts' s3.
              Normal (Continue, opts') s3))
          else if choice = ''4'' then
            then_do (input_line ''Verbose (y/n): '' s1) (\<lambda>l s2.
              if py_lower (py_strip l) = ''y''
              then Normal (Continue, set_verbose True opts) s2
              else Normal (Continue, set_verbose False opts) s2)
          else if choice = ''5'' then
            then_do (input_line ''New encoding: '' s1) (\<lambda>l s2.
              Normal (Continue, set_encoding (py_strip l) opts) s2)
          else if choice = ''6'' then
            then_do (input_line ''New compiler: '' s1) (\<lambda>l s2.
              Normal (Continue, set_compiler (py_strip l) opts) s2)
          else if choice = ''0'' then Normal (Break, opts) s1
          else Normal (Continue, opts) (emits [Err InvalidChoice, System clear_command] s1))"

lemma input_line_consumes:
  "input_line prompt s = Normal l s' \<Longrightarrow> length (stdin s') < length (stdin s)"
  by (auto simp: input_line_def emit_def split: list.splits)

lemma validate_folder_stdin:
  "validate_folder env p s = Normal a s' \<Longrightarrow> s' = s"
  by (auto simp: validate_folder_def Let_def split: if_splits)

lemma set_src_folder_stdin:
  "set_src_folder env p opts s = Normal opts' s' \<Longrightarrow> s' = s"
  by (auto simp: set_src_folder_def then_do_def dest: validate_folder_stdin split: res.splits)

lemma set_class_path_stdin:
  "set_class_path env p opts s = Normal opts' s' \<Longrightarrow> s' = s"
  by (auto simp: set_class_path_def then_do_def dest: validate_folder_stdin split: res.splits)

lemma then_do_Normal:
  "then_do r f = Normal b s' \<longleftrightarrow> (\<exists>a s1. r = Normal a s1 \<and> f a s1 = Normal b s')"
  by (cases r) (simp_all add: then_do_def)

lemma setup_iteration_consumes:
  assumes "setup_iteration env opts s = Normal (c, opts') s'"
  shows "length (stdin s') < length (stdin s)"
proof -
  let ?s0 = "emits [Out (CurrentOptions opts), Out SettingsMenu] s"
  have s0: "stdin ?s0 = stdin s" by (simp add: emits_def)
  from assms obtain line s1 where
    r: "input_line [] ?s0 = Normal line s1" and
    k: "(let choice = py_strip line
       in if choice = ''1'' then
            then_do (input_line ''New source folder: '' s1) (\<lambda>l s2.
            then_do (set_src_folder env (py_strip l) opts s2) (\<lambda>opts' s3.
              Normal (Continue, opts') s3))
          else if choice = ''2'' then
            then_do (input_line ''New main class path: '' s1) (\<lambda>l s2.
              Normal (Continue, set_main_class_path (py_strip l) opts) s2)
          else if choice = ''3'' then
            then_do (input_line ''New class path: '' s1) (\<lambda>l s2.
            then_do (set_class_path env (py_strip l) opts s2) (\<lambda>opts' s3.
              Normal (Continue, opts') s3))
          else if choice = ''4'' then
            then_do (input_line ''Verbose (y/n): '' s1) (\<lambda>l s2.
              if py_lower (py_strip l) = ''y''
              then Normal (Continue, set_verbose True opts) s2
              else Normal (Continue, set_verbose False opts) s2)
          else if choice = ''5'' then
            then_do (input_line ''New encoding: '' s1) (\<lambda>l s2.
              Normal (Continue, set_encoding (py_strip l) opts) s2)
          else if choice = ''6'' then
            then_do (input_line ''New compiler: '' s1) (\<lambda>l s2.
              Normal (Continue, set_compiler (py_strip l) opts) s2)
          else if choice = ''0'' then Normal (Break, opts) s1
          else Normal (Continue, opts) (emits [Err InvalidChoice, System clear_command] s1))
        = Normal (c, opts') s'"
    unfolding setup_iteration_def then_do_Normal by blast
  have l1: "length (stdin s1) < length (stdin s)"
    using input_line_consumes [OF r] s0 by simp
  have "length (stdin s') \<le> length (stdin s1)"
    using k
    by (auto simp: Let_def then_do_Normal emits_def split: if_splits
        dest!: input_line_consumes set_src_folder_stdin set_class_path_stdin)
  then show ?thesis using l1 by simp
qed

function setup_loop ::
  "'w system \<Rightarrow> compilation_options \<Rightarrow> 'w machine \<Rightarrow> (compilation_options, 'w) res" where
  "setup_loop env opts s =
     (case setup_iteration env opts s of
        Normal r s' \<Rightarrow>
          (if fst r = Continue then setup_loop env (snd r) s' else Normal (snd r) s')
      | Raise e s' \<Rightarrow> Raise e s'
      | Exit n s' \<Rightarrow> Exit n s')"
  by pat_completeness auto
termination
  by (relation "measure (\<lambda>(env, opts, s). length (stdin s))")
     (auto dest: setup_iteration_consumes)

declare setup_loop.simps [simp del]

text \<open>
  \<^verbatim>\<open>setup_compilation_options\<close> (lines 247 to 305): the file is written by line 304,
  after the loop.
\<close>

definition setup_compilation_options ::
  "'w system \<Rightarrow> compilation_options \<Rightarrow> 'w machine \<Rightarrow> (compilation_options, 'w) res" where
  "setup_compilation_options env opts s =
     then_do (setup_loop env opts s) (\<lambda>opts' s'.
       Normal opts' (emit (Out OptionsUpdated) (create_compilation_options_file opts' s')))"

text \<open>\<^verbatim>\<open>show_menu\<close> (lines 9 to 34).\<close>

definition show_menu :: "compilation_options \<Rightarrow> 'w machine \<Rightarrow> (string, 'w) res" where
  "show_menu opts s =
     then_do (input_line []
                (emit (Out (MenuShown (src_folder opts) (class_path opts) (main_class_path opts))) s))
       (\<lambda>line s'. Normal (py_strip line) s')"

text \<open>Lines 361 and 362, which end a turn of the program loop.\<close>

definition press_enter :: "compilation_options \<Rightarrow> 'w machine \<Rightarrow> (compilation_options, 'w) res" where
  "press_enter opts s =
     then_do (input_line (CHR 0x0A # ''Press Enter to continue...'') s) (\<lambda>l s'.
       Normal opts (emit (System clear_command) s'))"

text \<open>
  One turn of the program loop (lines 330 to 362). No \<^verbatim>\<open>try\<close> surrounds the calls,
  so an exception that leaves an operation leaves the loop and ends the program.
\<close>

definition menu_iteration ::
  "'w system \<Rightarrow> compilation_options \<Rightarrow> 'w machine \<Rightarrow> (compilation_options, 'w) res" where
  "menu_iteration env opts s =
     then_do (show_menu opts s) (\<lambda>choice s1.
       if choice = ''1'' then
         then_do (compile_all_files env opts (emit (System clear_command) s1)) (\<lambda>u s2.
           press_enter opts s2)
       else if choice = ''2'' then
         then_do (compile_specific_files env opts (emit (System clear_command) s1)) (\<lambda>u s2.
           press_enter opts s2)
       else if choice = ''3'' then
         then_do (clear_build env opts (emit (System clear_command) s1)) (\<lambda>u s2.
           press_enter opts s2)
       else if choice = ''4'' then
         then_do (compile_and_run_project env opts (emit (System clear_command) s1)) (\<lambda>u s2.
           press_enter opts s2)
       else if choice = ''5'' then
         then_do (setup_compilation_options env opts (emit (System clear_command) s1)) (\<lambda>opts' s2.
           press_enter opts' s2)
       else if choice = ''0'' then Exit 0 (emit (Out Exiting) s1)
       else Normal opts (emit (Err InvalidOption) s1))"

section \<open>An example system\<close>

text \<open>
  A project folder holding \<open>example_tree\<close>. The state of this file system is the list
  of the paths removed so far. The compiler rejects \<^verbatim>\<open>sub/B.java\<close>, the runtime
  fails on the class \<^verbatim>\<open>pkg.Broken\<close>, and neither changes the file system.
\<close>

fun prune :: "string list \<Rightarrow> string \<Rightarrow> entry list \<Rightarrow> entry list" where
  "prune removed folder [] = []"
| "prune removed folder (File name # files) =
     (if path_join folder name \<in> set removed then prune removed folder files
      else File name # prune removed folder files)"
| "prune removed folder (Dir name sub # files) =
     Dir name (prune removed (path_join folder name) sub) # prune removed folder files"

definition example_run :: "string list \<Rightarrow> proc_result" where
  "example_run command =
     (if command = [] then \<lparr>returncode = 2, stdout = [], stderr = []\<rparr>
      else if hd command = ''java'' then
        (if last command = ''pkg.Broken''
         then \<lparr>returncode = 1, stdout = [], stderr = ''Exception in thread main''\<rparr>
         else \<lparr>returncode = 0, stdout = ''hello'', stderr = []\<rparr>)
      else if last command = ''/home/u/proj/sub/B.java''
        then \<lparr>returncode = 1, stdout = [], stderr = ''B.java:1: error''\<rparr>
      else \<lparr>returncode = 0, stdout = [], stderr = []\<rparr>)"

definition example_system :: "string list system" where
  "example_system =
     \<lparr>os_abspath = (\<lambda>p. if startswith p ''/'' then p else ''/home/u/'' @ p),
      os_exists = (\<lambda>w p. p = ''/home/u/proj'' \<or> p = ''/home/u/lib''),
      os_isdir = (\<lambda>w p. p = ''/home/u/proj'' \<or> p = ''/home/u/lib''),
      os_tree = (\<lambda>w p. if p = ''/home/u/proj'' then prune w p example_tree else []),
      os_remove = (\<lambda>p w. w @ [p]),
      os_run = (\<lambda>command w. (example_run command, w))\<rparr>"

definition example_options :: compilation_options where
  "example_options =
     \<lparr>src_folder = ''/home/u/proj'', main_class_path = ''pkg.Main'',
      class_path = ''/home/u/proj'', verbose = False, encoding = ''UTF-8'',
      compiler = ''javac''\<rparr>"

definition example_machine :: "string list \<Rightarrow> string list machine" where
  "example_machine inputs =
     \<lparr>world = [], options_file = Some (options_dict example_options),
      stdin = inputs, trace = []\<rparr>"

text \<open>The commands of the calls of \<^verbatim>\<open>subprocess.run\<close> in a trace, and the paths removed.\<close>

definition runs :: "event list \<Rightarrow> string list list" where
  "runs tr = concat (map (\<lambda>e. case e of Run c \<Rightarrow> [c] | _ \<Rightarrow> []) tr)"

definition removals :: "event list \<Rightarrow> string list" where
  "removals tr = concat (map (\<lambda>e. case e of Remove f \<Rightarrow> [f] | _ \<Rightarrow> []) tr)"

text \<open>
  The file system after the compiler has run on each file of a list in turn, and
  whether each of these runs returns 0.
\<close>

fun world_after :: "'w system \<Rightarrow> compilation_options \<Rightarrow> string list \<Rightarrow> 'w \<Rightarrow> 'w" where
  "world_after env opts [] w = w"
| "world_after env opts (file # files) w =
     world_after env opts files (snd (os_run env (compile_command opts @ [file]) w))"

fun all_compile :: "'w system \<Rightarrow> compilation_options \<Rightarrow> string list \<Rightarrow> 'w \<Rightarrow> bool" where
  "all_compile env opts [] w = True"
| "all_compile env opts (file # files) w =
     (returncode (fst (os_run env (compile_command opts @ [file]) w)) = 0
      \<and> all_compile env opts files (snd (os_run env (compile_command opts @ [file]) w)))"

text \<open>
  What a batch that stops at the file \<open>f\<close>, after the files \<open>before\<close>, leaves behind:
  it returns to its caller; the compiler has run on \<open>before\<close> and on \<open>f\<close>, in this
  order, and on nothing else; nothing was removed; the file system is the one the
  last of these runs left; the diagnostics of \<open>f\<close> are on standard error, and the
  last line is the one of line 161.
\<close>

definition stops_at_first_failure ::
  "'w system \<Rightarrow> compilation_options \<Rightarrow> string list \<Rightarrow> string \<Rightarrow> 'w machine \<Rightarrow> (unit, 'w) res \<Rightarrow> bool" where
  "stops_at_first_failure env opts before f s r =
     (let w = world_after env opts before (world s);
          failed = os_run env (compile_command opts @ [f]) w;
          s' = state_of r
      in r = Normal () s'
         \<and> runs (trace s') = runs (trace s) @ map (\<lambda>g. compile_command opts @ [g]) (before @ [f])
         \<and> removals (trace s') = removals (trace s)
         \<and> world s' = snd failed
         \<and> Err (Diagnostics (stderr (fst failed))) \<in> set (trace s')
         \<and> last (trace s') = Err CouldNotCompileAll)"

text \<open>
  The numbers a line shows, and whether some line of a trace shows a given number.
\<close>

definition message_numbers :: "message \<Rightarrow> nat list" where
  "message_numbers m = (case m of TotalCompiled n \<Rightarrow> [n] | Numbered i f \<Rightarrow> [i] | _ \<Rightarrow> [])"

definition event_numbers :: "event \<Rightarrow> nat list" where
  "event_numbers e = (case e of Out m \<Rightarrow> message_numbers m | Err m \<Rightarrow> message_numbers m | _ \<Rightarrow> [])"

definition reports_count :: "nat \<Rightarrow> event list \<Rightarrow> bool" where
  "reports_count n tr = list_ex (\<lambda>e. n \<in> set (event_numbers e)) tr"

text \<open>
  A folder field as the setters leave it: a resolved path, which resolution leaves
  unchanged, of an existing directory.
\<close>

definition valid_folder :: "'w system \<Rightarrow> 'w \<Rightarrow> string \<Rightarrow> bool" where
  "valid_folder env w p = (os_abspath env p = p \<and> os_exists env w p \<and> os_isdir env w p)"

text \<open>What a result returns, and the dictionaries written to the options file in a trace.\<close>

fun value_of :: "('a, 'w) res \<Rightarrow> 'a option" where
  "value_of (Normal a s) = Some a"
| "value_of (Raise e s) = None"
| "value_of (Exit n s) = None"

definition writes :: "event list \<Rightarrow> json_object list" where
  "writes tr = concat (map (\<lambda>e. case e of Write d \<Rightarrow> [d] | _ \<Rightarrow> []) tr)"

text \<open>The options file is as it was, and nothing was written to it.\<close>

definition file_untouched :: "'w machine \<Rightarrow> 'w machine \<Rightarrow> bool" where
  "file_untouched s s' = (options_file s' = options_file s \<and> writes (trace s') = writes (trace s))"

text \<open>The exception that leaves a piece of the program, if one does.\<close>

fun raised :: "('a, 'w) res \<Rightarrow> exn option" where
  "raised (Normal a s) = None"
| "raised (Raise e s) = Some e"
| "raised (Exit n s) = None"

text \<open>A token on which \<^verbatim>\<open>int\<close> succeeds whenever \<^verbatim>\<open>isdigit\<close> accepts it.\<close>

definition plain_token :: "string \<Rightarrow> bool" where
  "plain_token t = (py_isdigit t \<longrightarrow> list_all is_decimal_char t)"

text \<open>The condition of the filter of line 184, for such a token.\<close>

definition in_range :: "nat \<Rightarrow> string \<Rightarrow> bool" where
  "in_range n t = (py_isdigit t \<and> 1 \<le> decimal_value t \<and> decimal_value t \<le> int n)"

text \<open>The status with which \<^verbatim>\<open>exit\<close> ends the process, if it does.\<close>

fun exit_status :: "('a, 'w) res \<Rightarrow> int option" where
  "exit_status (Normal a s) = None"
| "exit_status (Raise e s) = None"
| "exit_status (Exit n s) = Some n"

section \<open>Path resolution\<close>

text \<open>
  \<^verbatim>\<open>os.path.normpath\<close> and \<^verbatim>\<open>os.path.abspath\<close> of the POSIX flavour. They work on the
  text of the path and never look at the file system: empty components and dots
  are dropped, and a double dot removes the component before it.
\<close>

fun join_slash :: "string list \<Rightarrow> string" where
  "join_slash [] = []"
| "join_slash [c] = c"
| "join_slash (c # d # cs) = c @ ''/'' @ join_slash (d # cs)"

fun normpath_loop :: "bool \<Rightarrow> string list \<Rightarrow> string list \<Rightarrow> string list" where
  "normpath_loop rooted [] new_comps = new_comps"
| "normpath_loop rooted (part # comps) new_comps =
     (if part = [] \<or> part = ''.'' then normpath_loop rooted comps new_comps
      else if part \<noteq> ''..'' \<or> (\<not> rooted \<and> new_comps = [])
              \<or> (new_comps \<noteq> [] \<and> last new_comps = ''..'')
      then normpath_loop rooted comps (new_comps @ [part])
      else if new_comps \<noteq> [] then normpath_loop rooted comps (butlast new_comps)
      else normpath_loop rooted comps new_comps)"

definition initial_slashes :: "string \<Rightarrow> nat" where
  "initial_slashes path =
     (if startswith path ''/''
      then (if startswith path ''//'' \<and> \<not> startswith path ''///'' then 2 else 1)
      else 0)"

definition normpath :: "string \<Rightarrow> string" where
  "normpath path =
     (if path = [] then ''.''
      else let comps = normpath_loop (initial_slashes path \<noteq> 0) (split_on CHR ''/'' path) [];
               path' = replicate (initial_slashes path) CHR ''/'' @ join_slash comps
           in if path' = [] then ''.'' else path')"

text \<open>A component that normalisation keeps and that the system does not skip.\<close>

definition proper :: "string \<Rightarrow> bool" where
  "proper c = (c \<noteq> [] \<and> c \<noteq> ''.'')"

text \<open>\<^verbatim>\<open>os.path.abspath\<close>, for the working directory \<open>cwd\<close> that \<^verbatim>\<open>os.getcwd\<close> returns.\<close>

definition posix_abspath :: "string \<Rightarrow> string \<Rightarrow> string" where
  "posix_abspath cwd path = normpath (if startswith path ''/'' then path else path_join cwd path)"

text \<open>
  A file system with symbolic links, to say which directory a path names. A
  directory maps names to nodes; a link holds the canonical path, as a list of
  names from the root, of the directory it leads to. \<open>walk fs cur comps\<close> follows the
  components of a path from the directory \<open>cur\<close> as the system does: a double dot
  leads to the parent of the directory reached, a link to its target. The result
  is the canonical path of the directory that is reached, if one is.
\<close>

datatype fsnode = FFile | FDir "(string \<times> fsnode) list" | FLink "string list"

fun lookup :: "fsnode \<Rightarrow> string list \<Rightarrow> fsnode option" where
  "lookup n [] = Some n"
| "lookup (FDir es) (c # cs) = (case map_of es c of None \<Rightarrow> None | Some m \<Rightarrow> lookup m cs)"
| "lookup FFile (c # cs) = None"
| "lookup (FLink t) (c # cs) = None"

fun is_dir_node :: "fsnode option \<Rightarrow> bool" where
  "is_dir_node (Some (FDir es)) = True"
| "is_dir_node n = False"

fun walk :: "fsnode \<Rightarrow> string list \<Rightarrow> string list \<Rightarrow> string list option" where
  "walk fs cur [] = Some cur"
| "walk fs cur (c # cs) =
     (if c = [] \<or> c = ''.'' then walk fs cur cs
      else if c = ''..'' then walk fs (butlast cur) cs
      else (case lookup fs (cur @ [c]) of
              Some (FDir es) \<Rightarrow> walk fs (cur @ [c]) cs
            | Some (FLink t) \<Rightarrow> (if is_dir_node (lookup fs t) then walk fs t cs else None)
            | Some FFile \<Rightarrow> None
            | None \<Rightarrow> None))"

text \<open>
  The directory that the path \<open>p\<close> names for a process whose working directory has
  the canonical path \<open>cwdc\<close>; the empty path names nothing.
\<close>

definition denotes :: "fsnode \<Rightarrow> string list \<Rightarrow> string \<Rightarrow> string list option" where
  "denotes fs cwdc p =
     (if p = [] then None
      else walk fs (if startswith p ''/'' then [] else cwdc) (split_on CHR ''/'' p))"

text \<open>
  A system whose path functions are the ones above: \<^verbatim>\<open>abspath\<close> is the lexical
  resolution for the working directory \<open>cwd\<close>, \<^verbatim>\<open>isdir\<close> holds of the paths that name
  a directory, and what \<^verbatim>\<open>isdir\<close> holds of exists.
\<close>

definition posix_paths :: "string \<Rightarrow> string list \<Rightarrow> fsnode system \<Rightarrow> bool" where
  "posix_paths cwd cwdc env =
     (os_abspath env = posix_abspath cwd
      \<and> (\<forall>w p. os_isdir env w p \<longleftrightarrow> denotes w cwdc p \<noteq> None)
      \<and> (\<forall>w p. os_isdir env w p \<longrightarrow> os_exists env w p))"

text \<open>
  The working directory as \<^verbatim>\<open>os.getcwd\<close> gives it: the canonical path of an existing
  directory, written with one separator before each name.
\<close>

definition canonical_cwd :: "fsnode \<Rightarrow> string \<Rightarrow> string list \<Rightarrow> bool" where
  "canonical_cwd fs cwd cwdc =
     (cwd = ''/'' @ join_slash cwdc
      \<and> list_all (\<lambda>c. c \<noteq> [] \<and> c \<noteq> ''.'' \<and> c \<noteq> ''..'' \<and> CHR ''/'' \<notin> set c) cwdc
      \<and> walk fs [] cwdc = Some cwdc)"

text \<open>
  An example: the home directory \<^verbatim>\<open>/home/u\<close> holds the project folder and a link to
  the directory \<^verbatim>\<open>/srv/data\<close>.
\<close>

definition link_fs :: fsnode where
  "link_fs =
     FDir [(''home'', FDir [(''u'', FDir [(''proj'', FDir []), (''link'', FLink [''srv'', ''data'']),
                                        (''notes.txt'', FFile)])]),
           (''srv'', FDir [(''data'', FDir [])])]"

definition link_system :: "fsnode system" where
  "link_system =
     \<lparr>os_abspath = posix_abspath ''/home/u'',
      os_exists = (\<lambda>w p. denotes w [''home'', ''u''] p \<noteq> None),
      os_isdir = (\<lambda>w p. denotes w [''home'', ''u''] p \<noteq> None),
      os_tree = (\<lambda>w p. []),
      os_remove = (\<lambda>p w. w),
      os_run = (\<lambda>command w. (\<lparr>returncode = 0, stdout = [], stderr = []\<rparr>, w))\<rparr>"

definition link_machine :: "fsnode machine" where
  "link_machine = \<lparr>world = link_fs, options_file = None, stdin = [], trace = []\<rparr>"

section \<open>Standard input is only consumed\<close>

lemma stdin_emit [simp]: "stdin (emit e s) = stdin s"
  by (simp add: emit_def)

lemma stdin_emits [simp]: "stdin (emits es s) = stdin s"
  by (simp add: emits_def)

lemma compile_file_stdin: "stdin (state_of (compile_file env f opts s)) = stdin s"
  by (simp add: compile_file_def Let_def)

lemma compile_loop_stdin: "stdin (state_of (compile_loop env opts files s)) = stdin s"
proof (induction files arbitrary: s)
  case Nil
  show ?case by simp
next
  case (Cons f files)
  let ?r = "compile_file env f opts (emit (Out (Compiling f)) s)"
  have h: "stdin (state_of ?r) = stdin s"
    using compile_file_stdin [of env f opts "emit (Out (Compiling f)) s"] by simp
  show ?case
  proof (cases ?r)
    case (Normal u s')
    then show ?thesis using h Cons.IH [of s'] by simp
  next
    case (Raise e s')
    then show ?thesis using h by simp
  next
    case (Exit n s')
    then show ?thesis using h by simp
  qed
qed

lemma compile_batch_stdin: "stdin (state_of (compile_batch env opts files s)) = stdin s"
  using compile_loop_stdin [of env opts files s]
  by (cases "compile_loop env opts files s") (simp_all add: compile_batch_def)

lemma compile_all_files_stdin: "stdin (state_of (compile_all_files env opts s)) = stdin s"
  by (simp add: compile_all_files_def Let_def compile_batch_stdin)

lemma remove_loop_stdin: "stdin (remove_loop env files s) = stdin s"
  by (induction files arbitrary: s) simp_all

lemma clear_build_stdin: "stdin (state_of (clear_build env opts s)) = stdin s"
  by (simp add: clear_build_def Let_def remove_loop_stdin)

lemma compile_and_run_project_stdin:
  "stdin (state_of (compile_and_run_project env opts s)) = stdin s"
  using compile_file_stdin [of env "main_file opts" opts s]
  by (cases "compile_file env (main_file opts) opts s")
     (simp_all add: compile_and_run_project_def then_do_def Let_def)

lemma input_line_stdin: "length (stdin (state_of (input_line prompt s))) \<le> length (stdin s)"
  by (simp add: input_line_def split: list.splits)

lemma compile_specific_files_stdin:
  "length (stdin (state_of (compile_specific_files env opts s))) \<le> length (stdin s)"
proof -
  let ?s1 = "emits (Out FilesAvailable #
                 map (\<lambda>(i, file). Out (Numbered (i + 1) (removeprefix file (src_folder opts @ ''/''))))
                   (enumerate 0 (java_files env opts s))) s"
  let ?r = "input_line (CHR 0x0A # ''Choose the files to compile (separated by commas): '') ?s1"
  have h: "length (stdin (state_of ?r)) \<le> length (stdin s)"
    using input_line_stdin [of _ ?s1] by simp
  show ?thesis
  proof (cases ?r)
    case (Normal line s2)
    then show ?thesis using h
      by (simp add: compile_specific_files_def Let_def then_do_def compile_batch_stdin
          split: sum.splits)
  next
    case (Raise e s2)
    then show ?thesis using h by (simp add: compile_specific_files_def Let_def then_do_def)
  next
    case (Exit n s2)
    then show ?thesis using h by (simp add: compile_specific_files_def Let_def then_do_def)
  qed
qed

lemma setup_loop_consumes:
  "setup_loop env opts s = Normal opts' s' \<Longrightarrow> length (stdin s') < length (stdin s)"
proof (induction env opts s rule: setup_loop.induct)
  case (1 env opts s)
  show ?case
  proof (cases "setup_iteration env opts s")
    case (Normal r s1)
    obtain c o1 where r: "r = (c, o1)" by (cases r)
    have l: "length (stdin s1) < length (stdin s)"
      using setup_iteration_consumes Normal r by blast
    show ?thesis
    proof (cases "c = Continue")
      case True
      have "setup_loop env o1 s1 = Normal opts' s'"
        using "1.prems" Normal r True by (simp add: setup_loop.simps [of env opts s])
      then have "length (stdin s') < length (stdin s1)"
        using "1.IH" [OF Normal] r True by simp
      then show ?thesis using l by simp
    next
      case False
      then have "s' = s1"
        using "1.prems" Normal r by (simp add: setup_loop.simps [of env opts s])
      then show ?thesis using l by simp
    qed
  next
    case (Raise e s1)
    then show ?thesis using "1.prems" by (simp add: setup_loop.simps [of env opts s])
  next
    case (Exit n s1)
    then show ?thesis using "1.prems" by (simp add: setup_loop.simps [of env opts s])
  qed
qed

lemma setup_compilation_options_consumes:
  "setup_compilation_options env opts s = Normal opts' s' \<Longrightarrow> length (stdin s') < length (stdin s)"
  by (auto simp: setup_compilation_options_def then_do_Normal create_compilation_options_file_def
      dest!: setup_loop_consumes)

lemma press_enter_consumes:
  "press_enter opts s = Normal opts' s' \<Longrightarrow> length (stdin s') < length (stdin s)"
  by (auto simp: press_enter_def then_do_Normal dest!: input_line_consumes)

lemma show_menu_consumes:
  "show_menu opts s = Normal c s' \<Longrightarrow> length (stdin s') < length (stdin s)"
  by (auto simp: show_menu_def then_do_Normal dest!: input_line_consumes)

lemma Normal_state_of: "r = Normal a s' \<Longrightarrow> state_of r = s'"
  by simp

lemma menu_iteration_consumes:
  assumes "menu_iteration env opts s = Normal opts' s'"
  shows "length (stdin s') < length (stdin s)"
proof -
  from assms obtain choice s1 where
    m: "show_menu opts s = Normal choice s1" and
    k: "(if choice = ''1'' then
         then_do (compile_all_files env opts (emit (System clear_command) s1)) (\<lambda>u s2.
           press_enter opts s2)
       else if choice = ''2'' then
         then_do (compile_specific_files env opts (emit (System clear_command) s1)) (\<lambda>u s2.
           press_enter opts s2)
       else if choice = ''3'' then
         then_do (clear_build env opts (emit (System clear_command) s1)) (\<lambda>u s2.
           press_enter opts s2)
       else if choice = ''4'' then
         then_do (compile_and_run_project env opts (emit (System clear_command) s1)) (\<lambda>u s2.
           press_enter opts s2)
       else if choice = ''5'' then
         then_do (setup_compilation_options env opts (emit (System clear_command) s1)) (\<lambda>opts' s2.
           press_enter opts' s2)
       else if choice = ''0'' then Exit 0 (emit (Out Exiting) s1)
       else Normal opts (emit (Err InvalidOption) s1)) = Normal opts' s'"
    unfolding menu_iteration_def then_do_Normal by blast
  have l1: "length (stdin s1) < length (stdin s)"
    using show_menu_consumes [OF m] .
  let ?c = "emit (System clear_command) s1"
  have "length (stdin s') \<le> length (stdin s1)"
  proof -
    consider (a) "choice = ''1''" | (b) "choice = ''2''" | (c) "choice = ''3''"
      | (d) "choice = ''4''" | (e) "choice = ''5''"
      | (f) "choice \<notin> {''1'', ''2'', ''3'', ''4'', ''5''}"
      by auto
    then show ?thesis
    proof cases
      case a
      then obtain u s2 where 1: "compile_all_files env opts ?c = Normal u s2"
        and 2: "press_enter opts s2 = Normal opts' s'"
        using k by (auto simp: then_do_Normal)
      show ?thesis
        using compile_all_files_stdin [of env opts ?c] 1 press_enter_consumes [OF 2] by simp
    next
      case b
      then obtain u s2 where 1: "compile_specific_files env opts ?c = Normal u s2"
        and 2: "press_enter opts s2 = Normal opts' s'"
        using k by (auto simp: then_do_Normal)
      show ?thesis
        using compile_specific_files_stdin [of env opts ?c] 1 press_enter_consumes [OF 2] by simp
    next
      case c
      then obtain u s2 where 1: "clear_build env opts ?c = Normal u s2"
        and 2: "press_enter opts s2 = Normal opts' s'"
        using k by (auto simp: then_do_Normal)
      show ?thesis
        using clear_build_stdin [of env opts ?c] 1 press_enter_consumes [OF 2] by simp
    next
      case d
      then obtain u s2 where 1: "compile_and_run_project env opts ?c = Normal u s2"
        and 2: "press_enter opts s2 = Normal opts' s'"
        using k by (auto simp: then_do_Normal)
      show ?thesis
        using compile_and_run_project_stdin [of env opts ?c] 1 press_enter_consumes [OF 2] by simp
    next
      case e
      then obtain o2 s2 where 1: "setup_compilation_options env opts ?c = Normal o2 s2"
        and 2: "press_enter o2 s2 = Normal opts' s'"
        using k by (auto simp: then_do_Normal)
      show ?thesis
        using setup_compilation_options_consumes [OF 1] press_enter_consumes [OF 2] by simp
    next
      case f
      then show ?thesis using k by (auto split: if_splits)
    qed
  qed
  then show ?thesis using l1 by simp
qed

text \<open>The program loop (lines 330 to 362).\<close>

function main_loop ::
  "'w system \<Rightarrow> compilation_options \<Rightarrow> 'w machine \<Rightarrow> (unit, 'w) res" where
  "main_loop env opts s =
     (case menu_iteration env opts s of
        Normal opts' s' \<Rightarrow> main_loop env opts' s'
      | Raise e s' \<Rightarrow> Raise e s'
      | Exit n s' \<Rightarrow> Exit n s')"
  by pat_completeness auto
termination
  by (relation "measure (\<lambda>(env, opts, s). length (stdin s))")
     (auto dest: menu_iteration_consumes)

declare main_loop.simps [simp del]

section \<open>Properties of the scanner\<close>

lemma posorder_loop_acc:
  "posorder_loop folder condition files acc = acc @ posorder_loop folder condition files []"
proof (induction folder files arbitrary: acc rule: all_files.induct)
  case (1 folder)
  show ?case by simp
next
  case (2 folder name files)
  show ?case
    using 2 [of "acc @ [path_join folder name]"] 2 [of "[path_join folder name]"] 2 [of acc]
    by (simp add: Let_def)
next
  case (3 folder name sub files)
  let ?r = "posorder_loop (path_join folder name) condition sub []"
  show ?case using 3(2) [of "acc @ ?r"] 3(2) [of ?r] by (simp add: Let_def)
qed

lemma posorder_traversal_Nil: "posorder_traversal folder [] condition = []"
  by (simp add: posorder_traversal_def)

lemma posorder_traversal_Cons:
  "posorder_traversal folder (e # files) condition
     = entry_results folder condition e @ posorder_traversal folder files condition"
proof (cases e)
  case (File name)
  then show ?thesis
    using posorder_loop_acc [of folder condition files "[path_join folder name]"]
    by (simp add: posorder_traversal_def entry_results_def)
next
  case (Dir name sub)
  then show ?thesis
    using posorder_loop_acc
      [of folder condition files "posorder_loop (path_join folder name) condition sub []"]
    by (simp add: posorder_traversal_def entry_results_def)
qed

lemma posorder_traversal_append:
  "posorder_traversal folder (es1 @ es2) condition
     = posorder_traversal folder es1 condition @ posorder_traversal folder es2 condition"
  by (induction es1) (simp_all add: posorder_traversal_Nil posorder_traversal_Cons)

lemma posorder_traversal_File:
  "posorder_traversal folder (File name # files) condition
     = (if condition (path_join folder name) then [path_join folder name] else [])
       @ posorder_traversal folder files condition"
  by (simp add: posorder_traversal_Cons entry_results_def)

lemma posorder_traversal_Dir:
  "posorder_traversal folder (Dir name sub # files) condition
     = posorder_traversal (path_join folder name) sub condition
       @ posorder_traversal folder files condition"
  by (simp add: posorder_traversal_Cons entry_results_def)

lemma mset_posorder_traversal:
  "mset (posorder_traversal folder files condition) = filter_mset condition (all_files folder files)"
  by (induction folder files rule: all_files.induct)
     (simp_all add: posorder_traversal_Nil posorder_traversal_File posorder_traversal_Dir)

lemma file_at_all_files: "file_at folder files p \<longleftrightarrow> p \<in># all_files folder files"
proof
  assume "file_at folder files p"
  then show "p \<in># all_files folder files"
  proof (induction rule: file_at.induct)
    case (here folder name files)
    show ?case by simp
  next
    case (below folder name sub p files)
    then show ?case by simp
  next
    case (later folder files p e)
    then show ?case by (cases e) simp_all
  qed
next
  show "p \<in># all_files folder files \<Longrightarrow> file_at folder files p"
  proof (induction folder files rule: all_files.induct)
    case (1 folder)
    then show ?case by simp
  next
    case (2 folder name files)
    then show ?case by (auto intro: file_at.intros)
  next
    case (3 folder name sub files)
    then show ?case by (auto intro: file_at.intros)
  qed
qed

lemma set_posorder_traversal:
  "set (posorder_traversal folder files condition) = {p. file_at folder files p \<and> condition p}"
proof -
  have "set (posorder_traversal folder files condition)
      = set_mset (mset (posorder_traversal folder files condition))"
    by simp
  also have "\<dots> = {p. p \<in># all_files folder files \<and> condition p}"
    by (simp only: mset_posorder_traversal set_mset_filter)
  finally show ?thesis by (simp add: file_at_all_files)
qed

section \<open>Claims about the scanner\<close>

text \<open>
  C5. For every directory tree and predicate, the traversal returns exactly the files
  of the tree that satisfy the predicate, at any depth, each as often as the tree
  holds it, and nothing else: no directory and no file the predicate rejects. The
  result is a function of the tree alone, so a second scan of the same tree gives
  the same multiset.
\<close>

theorem scan_exactly_matching_files:
  "mset (posorder_traversal folder files condition) = filter_mset condition (all_files folder files)
   \<and> set (posorder_traversal folder files condition) = {p. file_at folder files p \<and> condition p}
   \<and> length (posorder_traversal folder files condition)
       = size (filter_mset condition (all_files folder files))"
proof -
  have "length (posorder_traversal folder files condition)
      = size (mset (posorder_traversal folder files condition))"
    by simp
  then show ?thesis
    by (simp only: mset_posorder_traversal set_posorder_traversal simp_thms)
qed

theorem scan_exactly_matching_files_witness:
  "posorder_traversal ''/proj'' example_tree (\<lambda>file. endswith file ''.java'')
     = [''/proj/A.java'', ''/proj/sub/B.java'', ''/proj/sub/deep/C.java'']
   \<and> filter_mset (\<lambda>file. endswith file ''.java'') (all_files ''/proj'' example_tree)
     = {#''/proj/A.java'', ''/proj/sub/B.java'', ''/proj/sub/deep/C.java''#}"
  using scan_exactly_matching_files [of "''/proj''" example_tree "\<lambda>file. endswith file ''.java''"]
  by (simp add: posorder_traversal_def example_tree_def path_join_def startswith_def
      endswith_def Let_def)

text \<open>
  C6. The order of the result is that of the listings, spliced in place: what an
  entry contributes stands after the results of every earlier entry of its
  directory and before those of every later one; a subdirectory contributes the
  whole result of its own traversal, a matching file itself. Nothing is sorted.
\<close>

theorem scan_splices_in_listing_order:
  "posorder_traversal folder (earlier @ e # later) condition
     = posorder_traversal folder earlier condition
       @ entry_results folder condition e
       @ posorder_traversal folder later condition
   \<and> entry_results folder condition (Dir name sub)
     = posorder_traversal (path_join folder name) sub condition
   \<and> entry_results folder condition (File name)
     = (if condition (path_join folder name) then [path_join folder name] else [])"
  by (simp add: posorder_traversal_append posorder_traversal_Cons entry_results_def)

theorem scan_splices_in_listing_order_witness:
  "posorder_traversal ''/proj'' example_tree (\<lambda>file. True)
     = [''/proj/A.java''] @ [''/proj/sub/B.class'', ''/proj/sub/B.java'', ''/proj/sub/deep/C.java'']
       @ [''/proj/A.class'']"
proof -
  let ?sub = "[File ''B.class'', File ''B.java'', Dir ''deep'' [File ''C.java'']]"
  have a: "posorder_traversal ''/proj'' [File ''A.java''] (\<lambda>file. True) = [''/proj/A.java'']"
    by (simp add: posorder_traversal_def path_join_def startswith_def endswith_def Let_def)
  have b: "entry_results ''/proj'' (\<lambda>file. True) (Dir ''sub'' ?sub)
      = [''/proj/sub/B.class'', ''/proj/sub/B.java'', ''/proj/sub/deep/C.java'']"
    by (simp add: entry_results_def posorder_traversal_def path_join_def startswith_def
        endswith_def Let_def)
  have c: "posorder_traversal ''/proj'' [File ''A.class'', Dir ''empty'' []] (\<lambda>file. True)
      = [''/proj/A.class'']"
    by (simp add: posorder_traversal_def path_join_def startswith_def endswith_def Let_def)
  have e: "example_tree = [File ''A.java''] @ Dir ''sub'' ?sub # [File ''A.class'', Dir ''empty'' []]"
    by (simp add: example_tree_def)
  show ?thesis
    using scan_splices_in_listing_order
      [of "''/proj''" "[File ''A.java'']" "Dir ''sub'' ?sub"
          "[File ''A.class'', Dir ''empty'' []]" "\<lambda>file. True" "''sub''" ?sub]
    by (simp only: a b c e)
qed

section \<open>Claims about the options\<close>

lemma basename_no_slash: "CHR ''/'' \<notin> set (basename p)"
proof -
  have "\<forall>c \<in> set (takeWhile (\<lambda>c. c \<noteq> CHR ''/'') (rev p)). c \<noteq> CHR ''/''"
    using set_takeWhileD by fastforce
  then show ?thesis by (auto simp: basename_def)
qed

lemma normpath_samples:
  "normpath '''' = ''.''" "normpath ''/'' = ''/''" "normpath ''//'' = ''//''" "normpath ''///'' = ''/''"
  "normpath ''//a'' = ''//a''" "normpath ''///a'' = ''/a''" "normpath ''/a//b/./c/../d'' = ''/a/b/d''"
  "normpath ''a/../..'' = ''..''" "normpath ''/..'' = ''/''" "normpath ''/../a'' = ''/a''"
  "normpath ''../a'' = ''../a''" "normpath ''a/b/../../..'' = ''..''" "normpath ''./'' = ''.''"
  "normpath ''/home/u/link/..'' = ''/home/u''" "normpath ''/a/b/'' = ''/a/b''"
  by (simp_all add: normpath_def initial_slashes_def startswith_def Let_def numeral_2_eq_2)

lemma link_samples:
  "denotes link_fs [''home'', ''u''] ''link/..'' = Some [''srv'']"
  "denotes link_fs [''home'', ''u''] ''/home/u'' = Some [''home'', ''u'']"
  "denotes link_fs [''home'', ''u''] ''proj'' = Some [''home'', ''u'', ''proj'']"
  "denotes link_fs [''home'', ''u''] ''notes.txt'' = None"
  "denotes link_fs [''home'', ''u''] ''link'' = Some [''srv'', ''data'']"
  "posix_abspath ''/home/u'' ''link/..'' = ''/home/u''"
  "posix_abspath ''/home/u'' ''proj'' = ''/home/u/proj''"
  by (simp_all add: denotes_def link_fs_def startswith_def posix_abspath_def normpath_def
      initial_slashes_def path_join_def endswith_def Let_def numeral_2_eq_2)


lemma split_on_nonempty: "split_on c s \<noteq> []"
  by (induction s) (auto split: list.splits)

lemma split_on_append: "split_on c (a @ c # b) = split_on c a @ split_on c b"
proof (induction a)
  case Nil
  show ?case by simp
next
  case (Cons x a)
  obtain t ts where t: "split_on c a = t # ts"
    using split_on_nonempty [of c a] by (cases "split_on c a") auto
  show ?case using Cons t by simp
qed

lemma split_on_no_sep: "c \<notin> set s \<Longrightarrow> split_on c s = [s]"
  by (induction s) auto

lemma split_on_parts: "x \<in> set (split_on c s) \<Longrightarrow> c \<notin> set x"
proof (induction s arbitrary: x)
  case Nil
  then show ?case by simp
next
  case (Cons y s)
  obtain t ts where t: "split_on c s = t # ts"
    using split_on_nonempty [of c s] by (cases "split_on c s") auto
  show ?case
  proof (cases "y = c")
    case True
    then show ?thesis using Cons by auto
  next
    case False
    then have "x = y # t \<or> x \<in> set ts" using Cons.prems t by simp
    then show ?thesis using Cons.IH t False by auto
  qed
qed

lemma split_on_join:
  assumes "list_all (\<lambda>x. CHR ''/'' \<notin> set x) comps" and "comps \<noteq> []"
  shows "split_on CHR ''/'' (join_slash comps) = comps"
  using assms
proof (induction comps rule: join_slash.induct)
  case 1
  then show ?case by simp
next
  case (2 c)
  then show ?case by (simp add: split_on_no_sep)
next
  case (3 c d cs)
  have "split_on CHR ''/'' (c @ CHR ''/'' # join_slash (d # cs))
      = split_on CHR ''/'' c @ split_on CHR ''/'' (join_slash (d # cs))"
    by (rule split_on_append)
  then show ?case using 3 by (simp add: split_on_no_sep)
qed

lemma normpath_loop_plain:
  "''..'' \<notin> set comps \<Longrightarrow> normpath_loop rooted comps new = new @ filter proper comps"
  by (induction comps arbitrary: new) (auto simp: proper_def)

lemma walk_filter: "walk fs cur (filter proper comps) = walk fs cur comps"
  by (induction comps arbitrary: cur) (auto simp: proper_def split: option.splits fsnode.splits)

lemma walk_append:
  "walk fs cur (a @ b) = (case walk fs cur a of None \<Rightarrow> None | Some d \<Rightarrow> walk fs d b)"
  by (induction a arbitrary: cur) (auto split: option.splits fsnode.splits)

lemma walk_join:
  assumes "list_all (\<lambda>x. CHR ''/'' \<notin> set x) comps"
  shows "walk fs cur (split_on CHR ''/'' (join_slash comps)) = walk fs cur comps"
proof (cases "comps = []")
  case True
  then show ?thesis by simp
next
  case False
  then show ?thesis using split_on_join [OF assms] by simp
qed

lemma walk_slashes:
  "walk fs cur (split_on CHR ''/'' (replicate n CHR ''/'' @ s)) = walk fs cur (split_on CHR ''/'' s)"
  by (induction n) simp_all

lemma walk_normal:
  assumes "''..'' \<notin> set (split_on CHR ''/'' q)"
  shows "walk fs cur (split_on CHR ''/''
           (replicate n CHR ''/'' @ join_slash (normpath_loop rooted (split_on CHR ''/'' q) [])))
       = walk fs cur (split_on CHR ''/'' q)"
proof -
  let ?new = "filter proper (split_on CHR ''/'' q)"
  have n: "normpath_loop rooted (split_on CHR ''/'' q) [] = ?new"
    using normpath_loop_plain [OF assms] by simp
  have "list_all (\<lambda>x. CHR ''/'' \<notin> set x) ?new"
    using split_on_parts by (auto simp: list_all_iff)
  then have "walk fs cur (split_on CHR ''/'' (join_slash ?new)) = walk fs cur ?new"
    by (rule walk_join)
  then show ?thesis
    by (simp add: n walk_slashes walk_filter)
qed

lemma initial_slashes_absolute: "startswith q ''/'' \<Longrightarrow> initial_slashes q \<noteq> 0"
  by (simp add: initial_slashes_def)

lemma normpath_absolute:
  assumes "startswith q ''/''"
  shows "normpath q = replicate (initial_slashes q) CHR ''/''
           @ join_slash (normpath_loop True (split_on CHR ''/'' q) [])"
    and "startswith (normpath q) ''/''"
proof -
  have q: "q \<noteq> []" using assms by (auto simp: startswith_def)
  obtain k where k: "initial_slashes q = Suc k"
    using initial_slashes_absolute [OF assms] by (cases "initial_slashes q") auto
  show "normpath q = replicate (initial_slashes q) CHR ''/''
           @ join_slash (normpath_loop True (split_on CHR ''/'' q) [])"
    using q k by (simp add: normpath_def Let_def)
  then show "startswith (normpath q) ''/''"
    using k by (simp add: startswith_def)
qed

lemma denotes_normpath_absolute:
  assumes "startswith q ''/''" and "''..'' \<notin> set (split_on CHR ''/'' q)"
  shows "denotes fs cwdc (normpath q) = walk fs [] (split_on CHR ''/'' q)"
proof -
  have "normpath q \<noteq> []" "startswith (normpath q) ''/''"
    using normpath_absolute(2) [OF assms(1)] by (auto simp: startswith_def)
  then have "denotes fs cwdc (normpath q) = walk fs [] (split_on CHR ''/'' (normpath q))"
    by (simp add: denotes_def)
  also have "\<dots> = walk fs [] (split_on CHR ''/'' q)"
    unfolding normpath_absolute(1) [OF assms(1)] using walk_normal [OF assms(2)] by simp
  finally show ?thesis .
qed


lemma endswith_slash: "endswith s ''/'' \<Longrightarrow> s = butlast s @ ''/''"
  by (cases s rule: rev_cases) (simp_all add: endswith_def)

lemma cwd_walk:
  assumes "canonical_cwd fs cwd cwdc"
  shows "startswith cwd ''/''" and "''..'' \<notin> set (split_on CHR ''/'' cwd)"
    and "walk fs [] (split_on CHR ''/'' cwd) = Some cwdc"
proof -
  have c: "cwd = CHR ''/'' # join_slash cwdc"
    and n: "list_all (\<lambda>c. c \<noteq> [] \<and> c \<noteq> ''.'' \<and> c \<noteq> ''..'' \<and> CHR ''/'' \<notin> set c) cwdc"
    and w: "walk fs [] cwdc = Some cwdc"
    using assms by (simp_all add: canonical_cwd_def)
  have ns: "list_all (\<lambda>x. CHR ''/'' \<notin> set x) cwdc"
    using n by (simp add: list_all_iff)
  show "startswith cwd ''/''" using c by (simp add: startswith_def)
  show "''..'' \<notin> set (split_on CHR ''/'' cwd)"
  proof (cases "cwdc = []")
    case True
    then show ?thesis using c by simp
  next
    case False
    then have "split_on CHR ''/'' cwd = [] # cwdc"
      using c split_on_join [OF ns] by simp
    then show ?thesis using n by (auto simp: list_all_iff)
  qed
  have "walk fs [] (split_on CHR ''/'' cwd) = walk fs [] (split_on CHR ''/'' (join_slash cwdc))"
    using c by simp
  then show "walk fs [] (split_on CHR ''/'' cwd) = Some cwdc"
    using walk_join [OF ns, of fs "[]"] w by simp
qed

lemma split_path_join:
  assumes "\<not> startswith p ''/''" and "cwd \<noteq> []"
  shows "\<exists>pre. split_on CHR ''/'' (path_join cwd p) = pre @ split_on CHR ''/'' p
    \<and> filter proper pre = filter proper (split_on CHR ''/'' cwd)
    \<and> set pre \<subseteq> set (split_on CHR ''/'' cwd)"
proof (cases "endswith cwd ''/''")
  case True
  let ?d = "butlast cwd"
  have c: "cwd = ?d @ CHR ''/'' # []" using endswith_slash [OF True] by simp
  have j: "path_join cwd p = ?d @ CHR ''/'' # p"
    using assms True c by (simp add: path_join_def)
  have 1: "split_on CHR ''/'' (path_join cwd p) = split_on CHR ''/'' ?d @ split_on CHR ''/'' p"
    unfolding j by (rule split_on_append)
  have "split_on CHR ''/'' (?d @ CHR ''/'' # []) = split_on CHR ''/'' ?d @ split_on CHR ''/'' []"
    by (rule split_on_append)
  then have 2: "split_on CHR ''/'' cwd = split_on CHR ''/'' ?d @ [[]]"
    using c by simp
  show ?thesis
    using 1 2 by (intro exI [of _ "split_on CHR ''/'' ?d"]) (auto simp: proper_def)
next
  case False
  then have "path_join cwd p = cwd @ CHR ''/'' # p"
    using assms by (simp add: path_join_def)
  then have "split_on CHR ''/'' (path_join cwd p) = split_on CHR ''/'' cwd @ split_on CHR ''/'' p"
    by (simp add: split_on_append)
  then show ?thesis by (intro exI [of _ "split_on CHR ''/'' cwd"]) simp
qed

lemma path_join_absolute:
  assumes "startswith cwd ''/''" and "\<not> startswith p ''/''"
  shows "startswith (path_join cwd p) ''/''"
  using assms by (cases cwd) (auto simp: path_join_def startswith_def)

lemma abspath_absolute:
  assumes "canonical_cwd fs cwd cwdc"
  shows "startswith (posix_abspath cwd p) ''/''"
  using normpath_absolute(2) path_join_absolute [OF cwd_walk(1) [OF assms]]
  by (simp add: posix_abspath_def)

lemma abspath_denotes:
  assumes "canonical_cwd fs cwd cwdc" and "p \<noteq> []" and "''..'' \<notin> set (split_on CHR ''/'' p)"
  shows "denotes fs cwdc (posix_abspath cwd p) = denotes fs cwdc p"
proof (cases "startswith p ''/''")
  case True
  then show ?thesis
    using denotes_normpath_absolute [OF True assms(3)] assms(2)
    by (simp add: posix_abspath_def denotes_def)
next
  case False
  let ?q = "path_join cwd p"
  have cw: "startswith cwd ''/''" "''..'' \<notin> set (split_on CHR ''/'' cwd)"
    "walk fs [] (split_on CHR ''/'' cwd) = Some cwdc"
    using cwd_walk [OF assms(1)] by blast+
  have ne: "cwd \<noteq> []" using cw(1) by (auto simp: startswith_def)
  from split_path_join [OF False ne] obtain pre where
    1: "split_on CHR ''/'' ?q = pre @ split_on CHR ''/'' p"
    and 2: "filter proper pre = filter proper (split_on CHR ''/'' cwd)"
    and 3: "set pre \<subseteq> set (split_on CHR ''/'' cwd)"
    by blast
  have a: "startswith ?q ''/''" using path_join_absolute [OF cw(1) False] .
  have b: "''..'' \<notin> set (split_on CHR ''/'' ?q)"
    using 1 3 cw(2) assms(3) by auto
  have "walk fs [] pre = walk fs [] (filter proper pre)"
    by (simp add: walk_filter)
  also have "\<dots> = walk fs [] (split_on CHR ''/'' cwd)"
    unfolding 2 by (simp add: walk_filter)
  finally have p: "walk fs [] pre = Some cwdc" using cw(3) by simp
  have "denotes fs cwdc (posix_abspath cwd p) = walk fs [] (split_on CHR ''/'' ?q)"
    using denotes_normpath_absolute [OF a b] False by (simp add: posix_abspath_def)
  also have "\<dots> = walk fs cwdc (split_on CHR ''/'' p)"
    unfolding 1 by (simp add: walk_append p)
  also have "\<dots> = denotes fs cwdc p"
    using False assms(2) by (simp add: denotes_def)
  finally show ?thesis .
qed

lemma basename_split:
  "\<exists>d. p = d @ basename p \<and> (d = [] \<or> last d = CHR ''/'')"
proof -
  let ?d = "rev (dropWhile (\<lambda>c. c \<noteq> CHR ''/'') (rev p))"
  have "rev p = takeWhile (\<lambda>c. c \<noteq> CHR ''/'') (rev p) @ dropWhile (\<lambda>c. c \<noteq> CHR ''/'') (rev p)"
    by simp
  then have "rev (rev p) = ?d @ basename p"
    unfolding basename_def by (metis rev_append)
  then have 1: "p = ?d @ basename p" by simp
  have 2: "?d = [] \<or> last ?d = CHR ''/''"
  proof (cases "dropWhile (\<lambda>c. c \<noteq> CHR ''/'') (rev p)")
    case Nil
    then show ?thesis by simp
  next
    case (Cons x xs)
    then have "x = CHR ''/''" using hd_dropWhile [of "\<lambda>c. c \<noteq> CHR ''/''" "rev p"] by auto
    then show ?thesis using Cons by simp
  qed
  show ?thesis using 1 2 by blast
qed


text \<open>
  C8, as the claim states it, fails: the resolution is lexical, and does not keep the
  meaning of every input. In \<^verbatim>\<open>/home/u\<close>, where \<^verbatim>\<open>link\<close> leads to \<^verbatim>\<open>/srv/data\<close>, the
  input \<^verbatim>\<open>link/..\<close> names the directory \<^verbatim>\<open>/srv\<close>; validation returns \<^verbatim>\<open>/home/u\<close>,
  which names the home directory.
\<close>

theorem validate_folder_changes_meaning:
  "validate_folder link_system ''link/..'' link_machine = Normal ''/home/u'' link_machine
   \<and> denotes link_fs [''home'', ''u''] ''link/..'' = Some [''srv'']
   \<and> denotes link_fs [''home'', ''u''] ''/home/u'' = Some [''home'', ''u'']"
proof -
  have a: "os_abspath link_system ''link/..'' = ''/home/u''"
    by (simp add: link_system_def link_samples)
  have b: "os_exists link_system (world link_machine) ''/home/u''"
    "os_isdir link_system (world link_machine) ''/home/u''"
    by (simp_all add: link_system_def link_machine_def link_samples)
  have "validate_folder link_system ''link/..'' link_machine = Normal ''/home/u'' link_machine"
    by (simp add: validate_folder_def Let_def a b)
  then show ?thesis by (simp add: link_samples)
qed

text \<open>
  C8, amended. Validation resolves the path lexically, with \<^verbatim>\<open>os.path.abspath\<close>, to
  a path that starts with the separator. When the resolved path exists and is a
  directory, it returns the resolved path and leaves the machine as it was. For an
  input, relative or absolute, that is not empty and has no double dot among its
  components, the resolved path names the same directory as the input, and
  validation returns exactly when the input names a directory. Otherwise it does
  not return: the process exits with status 1 after one line on standard error that
  names the base name of the resolved path, which is what follows the last
  separator of that path, and not the path itself.
\<close>

theorem validate_folder_contract:
  assumes "posix_paths cwd cwdc env" and "canonical_cwd (world s) cwd cwdc"
  shows "os_abspath env p = posix_abspath cwd p
    \<and> startswith (posix_abspath cwd p) ''/''
    \<and> (os_exists env (world s) (posix_abspath cwd p) \<and> os_isdir env (world s) (posix_abspath cwd p)
        \<longrightarrow> validate_folder env p s = Normal (posix_abspath cwd p) s)
    \<and> (p \<noteq> [] \<and> ''..'' \<notin> set (split_on CHR ''/'' p)
        \<longrightarrow> denotes (world s) cwdc (posix_abspath cwd p) = denotes (world s) cwdc p
            \<and> ((\<exists>a. validate_folder env p s = Normal a s) \<longleftrightarrow> denotes (world s) cwdc p \<noteq> None))
    \<and> (\<not> (os_exists env (world s) (posix_abspath cwd p) \<and> os_isdir env (world s) (posix_abspath cwd p))
        \<longrightarrow> validate_folder env p s
              = Exit 1 (emit (Err (FolderDoesNotExist (basename (posix_abspath cwd p)))) s)
            \<and> (1 :: int) \<noteq> 0
            \<and> (\<exists>d. posix_abspath cwd p = d @ basename (posix_abspath cwd p)
                    \<and> d \<noteq> [] \<and> last d = CHR ''/'')
            \<and> CHR ''/'' \<notin> set (basename (posix_abspath cwd p))
            \<and> basename (posix_abspath cwd p) \<noteq> posix_abspath cwd p)"
proof -
  let ?a = "posix_abspath cwd p"
  have e: "os_abspath env = posix_abspath cwd"
    and i: "\<And>w q. os_isdir env w q \<longleftrightarrow> denotes w cwdc q \<noteq> None"
    and x: "\<And>w q. os_isdir env w q \<Longrightarrow> os_exists env w q"
    using assms(1) by (simp_all add: posix_paths_def)
  have abs: "startswith ?a ''/''"
    using abspath_absolute [OF assms(2)] .
  have v: "validate_folder env p s = Normal ?a s"
    if "os_exists env (world s) ?a \<and> os_isdir env (world s) ?a"
    using that by (simp add: validate_folder_def Let_def e)
  have n: "validate_folder env p s = Exit 1 (emit (Err (FolderDoesNotExist (basename ?a))) s)"
    if "\<not> (os_exists env (world s) ?a \<and> os_isdir env (world s) ?a)"
    using that by (auto simp: validate_folder_def Let_def e)
  have m: "denotes (world s) cwdc ?a = denotes (world s) cwdc p
      \<and> ((\<exists>a. validate_folder env p s = Normal a s) \<longleftrightarrow> denotes (world s) cwdc p \<noteq> None)"
    if h: "p \<noteq> [] \<and> ''..'' \<notin> set (split_on CHR ''/'' p)"
  proof -
    have d: "denotes (world s) cwdc ?a = denotes (world s) cwdc p"
      using abspath_denotes [OF assms(2)] h by blast
    have "(\<exists>a. validate_folder env p s = Normal a s) \<longleftrightarrow> os_isdir env (world s) ?a"
    proof (cases "os_exists env (world s) ?a \<and> os_isdir env (world s) ?a")
      case True
      then show ?thesis using v by simp
    next
      case False
      then have "\<not> os_isdir env (world s) ?a" using x by blast
      then show ?thesis using n [OF False] by simp
    qed
    then show ?thesis using d i by simp
  qed
  have ns: "CHR ''/'' \<notin> set (basename ?a)"
    by (rule basename_no_slash)
  have ne: "basename ?a \<noteq> ?a"
  proof
    assume "basename ?a = ?a"
    then have "CHR ''/'' \<notin> set ?a" using ns by simp
    then show False using abs by (cases ?a) (auto simp: startswith_def)
  qed
  obtain d where d: "?a = d @ basename ?a" "d = [] \<or> last d = CHR ''/''"
    using basename_split [of ?a] by blast
  have "d \<noteq> []" using d(1) ne by auto
  then have b: "\<exists>d. ?a = d @ basename ?a \<and> d \<noteq> [] \<and> last d = CHR ''/''"
    using d by blast
  show ?thesis using e abs v m n ns ne b by simp
qed

lemma link_system_posix: "posix_paths ''/home/u'' [''home'', ''u''] link_system"
  by (simp add: posix_paths_def link_system_def)

lemma link_cwd_canonical: "canonical_cwd (world link_machine) ''/home/u'' [''home'', ''u'']"
  by (simp add: canonical_cwd_def link_machine_def link_fs_def)

theorem validate_folder_contract_witness:
  "validate_folder link_system ''proj'' link_machine = Normal ''/home/u/proj'' link_machine
   \<and> denotes link_fs [''home'', ''u''] ''/home/u/proj'' = denotes link_fs [''home'', ''u''] ''proj''
   \<and> validate_folder link_system ''/home//u/./proj/'' link_machine
       = Normal ''/home/u/proj'' link_machine
   \<and> validate_folder link_system ''old/build'' link_machine
       = Exit 1 (emit (Err (FolderDoesNotExist ''build'')) link_machine)
   \<and> validate_folder link_system ''notes.txt'' link_machine
       = Exit 1 (emit (Err (FolderDoesNotExist ''notes.txt'')) link_machine)"
proof -
  note t = validate_folder_contract [OF link_system_posix link_cwd_canonical]
  have w: "world link_machine = link_fs"
    by (simp add: link_machine_def)
  have a: "posix_abspath ''/home/u'' ''proj'' = ''/home/u/proj''"
    "posix_abspath ''/home/u'' ''/home//u/./proj/'' = ''/home/u/proj''"
    "posix_abspath ''/home/u'' ''old/build'' = ''/home/u/old/build''"
    "posix_abspath ''/home/u'' ''notes.txt'' = ''/home/u/notes.txt''"
    by (simp_all add: posix_abspath_def normpath_def initial_slashes_def path_join_def
        startswith_def endswith_def Let_def numeral_2_eq_2)
  have d: "denotes link_fs [''home'', ''u''] ''/home/u/proj'' = Some [''home'', ''u'', ''proj'']"
    "denotes link_fs [''home'', ''u''] ''/home/u/old/build'' = None"
    "denotes link_fs [''home'', ''u''] ''/home/u/notes.txt'' = None"
    by (simp_all add: denotes_def link_fs_def startswith_def)
  have ok: "os_exists link_system (world link_machine) ''/home/u/proj''
      \<and> os_isdir link_system (world link_machine) ''/home/u/proj''"
    by (simp add: link_system_def w d)
  have ko: "\<not> (os_exists link_system (world link_machine) ''/home/u/old/build''
      \<and> os_isdir link_system (world link_machine) ''/home/u/old/build'')"
    "\<not> (os_exists link_system (world link_machine) ''/home/u/notes.txt''
      \<and> os_isdir link_system (world link_machine) ''/home/u/notes.txt'')"
    by (simp_all add: link_system_def w d)
  have b: "basename ''/home/u/old/build'' = ''build''" "basename ''/home/u/notes.txt'' = ''notes.txt''"
    by (simp_all add: basename_def)
  have p: "''proj'' \<noteq> [] \<and> ''..'' \<notin> set (split_on CHR ''/'' ''proj'')"
    by simp
  have 1: "validate_folder link_system ''proj'' link_machine = Normal ''/home/u/proj'' link_machine"
    using t [of "''proj''"] ok by (simp add: a)
  have 2: "denotes link_fs [''home'', ''u''] ''/home/u/proj'' = denotes link_fs [''home'', ''u''] ''proj''"
    using t [of "''proj''"] p by (simp add: a w)
  have 3: "validate_folder link_system ''/home//u/./proj/'' link_machine
       = Normal ''/home/u/proj'' link_machine"
    using t [of "''/home//u/./proj/''"] ok by (simp add: a)
  have 4: "validate_folder link_system ''old/build'' link_machine
       = Exit 1 (emit (Err (FolderDoesNotExist ''build'')) link_machine)"
    using t [of "''old/build''"] ko by (simp add: a b)
  have 5: "validate_folder link_system ''notes.txt'' link_machine
       = Exit 1 (emit (Err (FolderDoesNotExist ''notes.txt'')) link_machine)"
    using t [of "''notes.txt''"] ko by (simp add: a b)
  show ?thesis using 1 2 3 4 5 by blast
qed

section \<open>Claims about compiling and running\<close>

lemma runs_append [simp]: "runs (a @ b) = runs a @ runs b"
  by (simp add: runs_def)

lemma runs_Cons_Run [simp]: "runs (Run c # tr) = c # runs tr"
  by (simp add: runs_def)

lemma runs_Cons_Out [simp]: "runs (Out m # tr) = runs tr"
  by (simp add: runs_def)

lemma runs_Cons_Err [simp]: "runs (Err m # tr) = runs tr"
  by (simp add: runs_def)

lemma runs_Nil [simp]: "runs [] = []"
  by (simp add: runs_def)

lemma trace_emit [simp]: "trace (emit e s) = trace s @ [e]"
  by (simp add: emit_def)

lemma trace_emits [simp]: "trace (emits es s) = trace s @ es"
  by (simp add: emits_def)

lemma world_emit [simp]: "world (emit e s) = world s"
  by (simp add: emit_def)

lemma world_emits [simp]: "world (emits es s) = world s"
  by (simp add: emits_def)

lemma options_file_emit [simp]: "options_file (emit e s) = options_file s"
  by (simp add: emit_def)

lemma options_file_emits [simp]: "options_file (emits es s) = options_file s"
  by (simp add: emits_def)

lemma replace_dots_pointwise:
  "length (replace_dots m) = length m
   \<and> (\<forall>i < length m. replace_dots m ! i = (if m ! i = CHR ''.'' then CHR ''/'' else m ! i))"
  by (simp add: replace_dots_def)

lemma replace_dots_absolute:
  "startswith (replace_dots m @ ''.java'') ''/'' \<longleftrightarrow> startswith m ''.'' \<or> startswith m ''/''"
  by (cases m) (auto simp: startswith_def replace_dots_def)

lemma main_file_cases:
  "main_file opts
     = (if startswith (main_class_path opts) ''.'' \<or> startswith (main_class_path opts) ''/''
        then replace_dots (main_class_path opts) @ ''.java''
        else if src_folder opts = [] \<or> endswith (src_folder opts) ''/''
        then src_folder opts @ replace_dots (main_class_path opts) @ ''.java''
        else src_folder opts @ ''/'' @ replace_dots (main_class_path opts) @ ''.java'')"
  unfolding main_file_def path_join_def replace_dots_absolute by simp

text \<open>
  C9, as the claim states it, fails: the entry point is never validated, and for the
  entry point \<^verbatim>\<open>.Main\<close> the join drops the source folder. The file that is compiled
  is \<^verbatim>\<open>/Main.java\<close>, which is not under the source folder \<^verbatim>\<open>/home/u/proj\<close>.
\<close>

theorem main_file_outside_source_folder:
  "main_file (example_options\<lparr>main_class_path := ''.Main''\<rparr>) = ''/Main.java''
   \<and> \<not> startswith (main_file (example_options\<lparr>main_class_path := ''.Main''\<rparr>))
         (src_folder (example_options\<lparr>main_class_path := ''.Main''\<rparr>))
   \<and> runs (trace (state_of (compile_and_run_project example_system
          (example_options\<lparr>main_class_path := ''.Main''\<rparr>) (example_machine []))))
     = [[''javac'', ''-cp'', ''/home/u/proj'', ''-encoding'', ''UTF-8'', ''/Main.java''],
        [''java'', ''-cp'', ''/home/u/proj'', ''.Main'']]"
proof -
  let ?o = "example_options\<lparr>main_class_path := ''.Main''\<rparr>"
  have mf: "main_file ?o = ''/Main.java''"
    by (simp add: main_file_def example_options_def replace_dots_def path_join_def startswith_def)
  have sf: "src_folder ?o = ''/home/u/proj''"
    by (simp add: example_options_def)
  have a: "\<not> startswith (main_file ?o) (src_folder ?o)"
    unfolding mf sf by (simp add: startswith_def)
  have cc: "compile_command ?o = [''javac'', ''-cp'', ''/home/u/proj'', ''-encoding'', ''UTF-8'']"
    by (simp add: compile_command_def example_options_def)
  have rc: "run_command ?o = [''java'', ''-cp'', ''/home/u/proj'', ''.Main'']"
    by (simp add: run_command_def example_options_def)
  have ok: "returncode (fst (os_run example_system (compile_command ?o @ [main_file ?o])
      (world (example_machine [])))) = 0"
    by (simp add: mf cc example_system_def example_run_def)
  have r: "runs (trace (state_of (compile_and_run_project example_system ?o (example_machine []))))
     = [[''javac'', ''-cp'', ''/home/u/proj'', ''-encoding'', ''UTF-8'', ''/Main.java''],
        [''java'', ''-cp'', ''/home/u/proj'', ''.Main'']]"
    using ok
    by (simp add: compile_and_run_project_def compile_file_def then_do_def Let_def mf cc rc)
       (simp add: example_machine_def)
  show ?thesis using mf a r by blast
qed

text \<open>
  C9, amended. For every options record, compile-and-run replaces each dot of the
  entry point with the separator, every other character staying as it is, appends
  \<^verbatim>\<open>.java\<close>, and joins the result to the source folder with \<^verbatim>\<open>os.path.join\<close>: for
  an entry point that starts with neither a dot nor a separator the file is the
  source folder, a separator (unless the folder ends with one) and that relative
  path; for an entry point that starts with a dot or a separator the join drops the
  source folder and the file is that path alone. It runs the compiler on this file
  first, whatever the state of the build; only when the compiler returns 0 does it
  run \<^verbatim>\<open>java -cp\<close> with the configured class path and the entry point, in the file
  system the compiler left. When the compiler fails, the runtime is not run and
  \<^verbatim>\<open>CompilationError\<close> leaves the operation.
\<close>

theorem compile_and_run_order:
  "length (replace_dots (main_class_path opts)) = length (main_class_path opts)
   \<and> (\<forall>i < length (main_class_path opts).
        replace_dots (main_class_path opts) ! i
          = (if main_class_path opts ! i = CHR ''.'' then CHR ''/'' else main_class_path opts ! i))
   \<and> main_file opts
     = (if startswith (main_class_path opts) ''.'' \<or> startswith (main_class_path opts) ''/''
        then replace_dots (main_class_path opts) @ ''.java''
        else if src_folder opts = [] \<or> endswith (src_folder opts) ''/''
        then src_folder opts @ replace_dots (main_class_path opts) @ ''.java''
        else src_folder opts @ ''/'' @ replace_dots (main_class_path opts) @ ''.java'')
   \<and> (returncode (fst (os_run env (compile_command opts @ [main_file opts]) (world s))) = 0
      \<longrightarrow> (\<exists>s'. compile_and_run_project env opts s = Normal () s')
          \<and> runs (trace (state_of (compile_and_run_project env opts s)))
             = runs (trace s) @ [compile_command opts @ [main_file opts],
                                 [''java'', ''-cp'', class_path opts, main_class_path opts]]
          \<and> world (state_of (compile_and_run_project env opts s))
             = snd (os_run env [''java'', ''-cp'', class_path opts, main_class_path opts]
                     (snd (os_run env (compile_command opts @ [main_file opts]) (world s)))))
   \<and> (returncode (fst (os_run env (compile_command opts @ [main_file opts]) (world s))) \<noteq> 0
      \<longrightarrow> (\<exists>s'. compile_and_run_project env opts s = Raise CompilationError s')
          \<and> runs (trace (state_of (compile_and_run_project env opts s)))
             = runs (trace s) @ [compile_command opts @ [main_file opts]])"
proof (intro conjI impI)
  show "length (replace_dots (main_class_path opts)) = length (main_class_path opts)"
    and "\<forall>i < length (main_class_path opts).
        replace_dots (main_class_path opts) ! i
          = (if main_class_path opts ! i = CHR ''.'' then CHR ''/'' else main_class_path opts ! i)"
    using replace_dots_pointwise [of "main_class_path opts"] by blast+
next
  show "main_file opts
     = (if startswith (main_class_path opts) ''.'' \<or> startswith (main_class_path opts) ''/''
        then replace_dots (main_class_path opts) @ ''.java''
        else if src_folder opts = [] \<or> endswith (src_folder opts) ''/''
        then src_folder opts @ replace_dots (main_class_path opts) @ ''.java''
        else src_folder opts @ ''/'' @ replace_dots (main_class_path opts) @ ''.java'')"
    by (rule main_file_cases)
next
  assume ok: "returncode (fst (os_run env (compile_command opts @ [main_file opts]) (world s))) = 0"
  show "\<exists>s'. compile_and_run_project env opts s = Normal () s'"
    using ok by (simp add: compile_and_run_project_def compile_file_def then_do_def Let_def)
  show "runs (trace (state_of (compile_and_run_project env opts s)))
      = runs (trace s) @ [compile_command opts @ [main_file opts],
                          [''java'', ''-cp'', class_path opts, main_class_path opts]]"
    using ok
    by (simp add: compile_and_run_project_def compile_file_def then_do_def Let_def run_command_def)
  show "world (state_of (compile_and_run_project env opts s))
      = snd (os_run env [''java'', ''-cp'', class_path opts, main_class_path opts]
              (snd (os_run env (compile_command opts @ [main_file opts]) (world s))))"
    using ok
    by (simp add: compile_and_run_project_def compile_file_def then_do_def Let_def run_command_def)
next
  assume ko: "returncode (fst (os_run env (compile_command opts @ [main_file opts]) (world s))) \<noteq> 0"
  show "\<exists>s'. compile_and_run_project env opts s = Raise CompilationError s'"
    using ko by (simp add: compile_and_run_project_def compile_file_def then_do_def Let_def)
  show "runs (trace (state_of (compile_and_run_project env opts s)))
      = runs (trace s) @ [compile_command opts @ [main_file opts]]"
    using ko by (simp add: compile_and_run_project_def compile_file_def then_do_def Let_def)
qed

theorem compile_and_run_order_witness:
  "main_file example_options = ''/home/u/proj/pkg/Main.java''
   \<and> main_file (example_options\<lparr>main_class_path := ''a.b.C''\<rparr>) = ''/home/u/proj/a/b/C.java''
   \<and> replace_dots ''a.b.C'' ! 1 = CHR ''/'' \<and> replace_dots ''a.b.C'' ! 3 = CHR ''/''
   \<and> runs (trace (state_of (compile_and_run_project example_system example_options (example_machine []))))
     = [[''javac'', ''-cp'', ''/home/u/proj'', ''-encoding'', ''UTF-8'', ''/home/u/proj/pkg/Main.java''],
        [''java'', ''-cp'', ''/home/u/proj'', ''pkg.Main'']]
   \<and> runs (trace (state_of (compile_and_run_project example_system
          (example_options\<lparr>main_class_path := ''sub.B''\<rparr>) (example_machine []))))
     = [[''javac'', ''-cp'', ''/home/u/proj'', ''-encoding'', ''UTF-8'', ''/home/u/proj/sub/B.java'']]"
proof -
  let ?o2 = "example_options\<lparr>main_class_path := ''sub.B''\<rparr>"
  let ?o3 = "example_options\<lparr>main_class_path := ''a.b.C''\<rparr>"
  have sw: "\<not> startswith ''pkg.Main'' ''.''" "\<not> startswith ''pkg.Main'' ''/''"
    "\<not> startswith ''sub.B'' ''.''" "\<not> startswith ''sub.B'' ''/''"
    "\<not> startswith ''a.b.C'' ''.''" "\<not> startswith ''a.b.C'' ''/''"
    "\<not> endswith ''/home/u/proj'' ''/''"
    by (simp_all add: startswith_def endswith_def)
  have rd: "replace_dots ''pkg.Main'' = ''pkg/Main''" "replace_dots ''sub.B'' = ''sub/B''"
    by (simp_all add: replace_dots_def)
  have f: "src_folder example_options = ''/home/u/proj''" "main_class_path example_options = ''pkg.Main''"
    "class_path example_options = ''/home/u/proj''" "trace (example_machine []) = []"
    by (simp_all add: example_options_def example_machine_def)
  have mf: "main_file example_options = ''/home/u/proj/pkg/Main.java''"
    using compile_and_run_order [of example_options example_system "example_machine []"]
    by (simp add: f sw rd)
  have mf2: "main_file ?o2 = ''/home/u/proj/sub/B.java''"
    using compile_and_run_order [of ?o2 example_system "example_machine []"]
    by (simp add: f sw rd)
  have d3: "replace_dots ''a.b.C'' ! 1 = CHR ''/''" "replace_dots ''a.b.C'' ! 3 = CHR ''/''"
    "replace_dots ''a.b.C'' ! 0 = CHR ''a''" "replace_dots ''a.b.C'' ! 2 = CHR ''b''"
    "replace_dots ''a.b.C'' ! 4 = CHR ''C''" "length (replace_dots ''a.b.C'') = 5"
    using compile_and_run_order [of ?o3 example_system "example_machine []"]
    by simp_all
  have "replace_dots ''a.b.C'' = [replace_dots ''a.b.C'' ! 0, replace_dots ''a.b.C'' ! 1,
      replace_dots ''a.b.C'' ! 2, replace_dots ''a.b.C'' ! 3, replace_dots ''a.b.C'' ! 4]"
    using d3(6) by (intro nth_equalityI) (auto simp: less_Suc_eq numeral_eq_Suc)
  then have rd3: "replace_dots ''a.b.C'' = ''a/b/C''"
    by (simp only: d3)
  have mf3: "main_file ?o3 = ''/home/u/proj/a/b/C.java''"
    using compile_and_run_order [of ?o3 example_system "example_machine []"]
    by (simp add: f sw rd3)
  have cc: "compile_command example_options
      = [''javac'', ''-cp'', ''/home/u/proj'', ''-encoding'', ''UTF-8'']"
    "compile_command ?o2 = [''javac'', ''-cp'', ''/home/u/proj'', ''-encoding'', ''UTF-8'']"
    by (simp_all add: compile_command_def example_options_def)
  have ok: "returncode (fst (os_run example_system
      (compile_command example_options @ [main_file example_options]) (world (example_machine [])))) = 0"
    by (simp add: mf cc example_system_def example_run_def)
  have ko: "returncode (fst (os_run example_system
      (compile_command ?o2 @ [main_file ?o2]) (world (example_machine [])))) \<noteq> 0"
    by (simp add: mf2 cc example_system_def example_run_def)
  have r1: "runs (trace (state_of (compile_and_run_project example_system example_options (example_machine []))))
     = [[''javac'', ''-cp'', ''/home/u/proj'', ''-encoding'', ''UTF-8'', ''/home/u/proj/pkg/Main.java''],
        [''java'', ''-cp'', ''/home/u/proj'', ''pkg.Main'']]"
    using compile_and_run_order [of example_options example_system "example_machine []"] ok
    by (simp add: mf cc f)
  have r2: "runs (trace (state_of (compile_and_run_project example_system ?o2 (example_machine []))))
     = [[''javac'', ''-cp'', ''/home/u/proj'', ''-encoding'', ''UTF-8'', ''/home/u/proj/sub/B.java'']]"
    using compile_and_run_order [of ?o2 example_system "example_machine []"] ko
    by (simp add: mf2 cc f)
  show ?thesis using mf mf3 d3 r1 r2 by simp
qed

section \<open>Claims about batches\<close>

lemma removals_append [simp]: "removals (a @ b) = removals a @ removals b"
  by (simp add: removals_def)

lemma removals_Cons_Remove [simp]: "removals (Remove f # tr) = f # removals tr"
  by (simp add: removals_def)

lemma removals_Cons_Out [simp]: "removals (Out m # tr) = removals tr"
  by (simp add: removals_def)

lemma removals_Cons_Err [simp]: "removals (Err m # tr) = removals tr"
  by (simp add: removals_def)

lemma removals_Cons_Run [simp]: "removals (Run c # tr) = removals tr"
  by (simp add: removals_def)

lemma removals_Cons_Prompt [simp]: "removals (Prompt c # tr) = removals tr"
  by (simp add: removals_def)

lemma removals_Nil [simp]: "removals [] = []"
  by (simp add: removals_def)

lemma runs_Cons_Remove [simp]: "runs (Remove f # tr) = runs tr"
  by (simp add: runs_def)

lemma runs_Cons_Prompt [simp]: "runs (Prompt f # tr) = runs tr"
  by (simp add: runs_def)

lemma runs_Out_map [simp]: "runs (map (\<lambda>x. Out (g x)) xs) = []"
  by (induction xs) simp_all

lemma removals_Out_map [simp]: "removals (map (\<lambda>x. Out (g x)) xs) = []"
  by (induction xs) simp_all

lemma compile_file_ok:
  assumes "returncode (fst (os_run env (compile_command opts @ [f]) (world s))) = 0"
  shows "\<exists>s'. compile_file env f opts s = Normal () s'
    \<and> runs (trace s') = runs (trace s) @ [compile_command opts @ [f]]
    \<and> removals (trace s') = removals (trace s)
    \<and> world s' = snd (os_run env (compile_command opts @ [f]) (world s))"
  using assms by (simp add: compile_file_def Let_def)

lemma compile_file_fails:
  assumes "returncode (fst (os_run env (compile_command opts @ [f]) (world s))) \<noteq> 0"
  shows "\<exists>s'. compile_file env f opts s = Raise CompilationError s'
    \<and> runs (trace s') = runs (trace s) @ [compile_command opts @ [f]]
    \<and> removals (trace s') = removals (trace s)
    \<and> world s' = snd (os_run env (compile_command opts @ [f]) (world s))
    \<and> Err (Diagnostics (stderr (fst (os_run env (compile_command opts @ [f]) (world s))))) \<in> set (trace s')"
  using assms by (simp add: compile_file_def Let_def)

lemma compile_loop_fails:
  assumes "all_compile env opts before (world s)"
    and "returncode (fst (os_run env (compile_command opts @ [f])
           (world_after env opts before (world s)))) \<noteq> 0"
  shows "\<exists>s'. compile_loop env opts (before @ f # after) s = Raise CompilationError s'
    \<and> runs (trace s') = runs (trace s) @ map (\<lambda>g. compile_command opts @ [g]) (before @ [f])
    \<and> removals (trace s') = removals (trace s)
    \<and> world s' = snd (os_run env (compile_command opts @ [f]) (world_after env opts before (world s)))
    \<and> Err (Diagnostics (stderr (fst (os_run env (compile_command opts @ [f])
          (world_after env opts before (world s)))))) \<in> set (trace s')"
  using assms
proof (induction before arbitrary: s)
  case Nil
  let ?s = "emit (Out (Compiling f)) s"
  have "returncode (fst (os_run env (compile_command opts @ [f]) (world ?s))) \<noteq> 0"
    using Nil by simp
  from compile_file_fails [OF this] show ?case by auto
next
  case (Cons g before)
  let ?s = "emit (Out (Compiling g)) s"
  have "returncode (fst (os_run env (compile_command opts @ [g]) (world ?s))) = 0"
    using Cons.prems by simp
  from compile_file_ok [OF this] obtain s1 where
    1: "compile_file env g opts ?s = Normal () s1"
    and 2: "runs (trace s1) = runs (trace ?s) @ [compile_command opts @ [g]]"
    and 3: "removals (trace s1) = removals (trace ?s)"
    and 4: "world s1 = snd (os_run env (compile_command opts @ [g]) (world ?s))"
    by blast
  have a: "all_compile env opts before (world s1)"
    using Cons.prems 4 by simp
  have b: "returncode (fst (os_run env (compile_command opts @ [f])
           (world_after env opts before (world s1)))) \<noteq> 0"
    using Cons.prems 4 by simp
  from Cons.IH [OF a b] obtain s' where
    5: "compile_loop env opts (before @ f # after) s1 = Raise CompilationError s'"
    and 6: "runs (trace s') = runs (trace s1) @ map (\<lambda>g. compile_command opts @ [g]) (before @ [f])"
    and 7: "removals (trace s') = removals (trace s1)"
    and 8: "world s' = snd (os_run env (compile_command opts @ [f]) (world_after env opts before (world s1)))"
    and 9: "Err (Diagnostics (stderr (fst (os_run env (compile_command opts @ [f])
          (world_after env opts before (world s1)))))) \<in> set (trace s')"
    by blast
  have "compile_loop env opts ((g # before) @ f # after) s = Raise CompilationError s'"
    using 1 5 by simp
  moreover have "runs (trace s') = runs (trace s) @ map (\<lambda>g. compile_command opts @ [g]) ((g # before) @ [f])"
    using 2 6 by simp
  moreover have "removals (trace s') = removals (trace s)"
    using 3 7 by simp
  moreover have "world s' = snd (os_run env (compile_command opts @ [f])
      (world_after env opts (g # before) (world s)))"
    using 8 4 by simp
  moreover have "Err (Diagnostics (stderr (fst (os_run env (compile_command opts @ [f])
          (world_after env opts (g # before) (world s)))))) \<in> set (trace s')"
    using 9 4 by simp
  ultimately show ?case by blast
qed

lemma compile_loop_ok:
  assumes "all_compile env opts files (world s)"
  shows "\<exists>s'. compile_loop env opts files s = Normal () s'
    \<and> runs (trace s') = runs (trace s) @ map (\<lambda>g. compile_command opts @ [g]) files
    \<and> removals (trace s') = removals (trace s)
    \<and> world s' = world_after env opts files (world s)"
  using assms
proof (induction files arbitrary: s)
  case Nil
  show ?case by simp
next
  case (Cons g files)
  let ?s = "emit (Out (Compiling g)) s"
  have "returncode (fst (os_run env (compile_command opts @ [g]) (world ?s))) = 0"
    using Cons.prems by simp
  from compile_file_ok [OF this] obtain s1 where
    1: "compile_file env g opts ?s = Normal () s1"
    and 2: "runs (trace s1) = runs (trace ?s) @ [compile_command opts @ [g]]"
    and 3: "removals (trace s1) = removals (trace ?s)"
    and 4: "world s1 = snd (os_run env (compile_command opts @ [g]) (world ?s))"
    by blast
  have a: "all_compile env opts files (world s1)"
    using Cons.prems 4 by simp
  from Cons.IH [OF a] obtain s' where
    5: "compile_loop env opts files s1 = Normal () s'"
    and 6: "runs (trace s') = runs (trace s1) @ map (\<lambda>g. compile_command opts @ [g]) files"
    and 7: "removals (trace s') = removals (trace s1)"
    and 8: "world s' = world_after env opts files (world s1)"
    by blast
  have "compile_loop env opts (g # files) s = Normal () s'"
    using 1 5 by simp
  moreover have "runs (trace s') = runs (trace s) @ map (\<lambda>g. compile_command opts @ [g]) (g # files)"
    using 2 6 by simp
  moreover have "removals (trace s') = removals (trace s)"
    using 3 7 by simp
  moreover have "world s' = world_after env opts (g # files) (world s)"
    using 8 4 by simp
  ultimately show ?case by blast
qed

lemma compile_batch_stops:
  assumes "all_compile env opts before (world s)"
    and "returncode (fst (os_run env (compile_command opts @ [f])
           (world_after env opts before (world s)))) \<noteq> 0"
    and "world s0 = world s" and "runs (trace s0) = runs (trace s)"
    and "removals (trace s0) = removals (trace s)"
  shows "stops_at_first_failure env opts before f s0 (compile_batch env opts (before @ f # after) s)"
proof -
  from compile_loop_fails [OF assms(1,2), of after] obtain s' where
    "compile_loop env opts (before @ f # after) s = Raise CompilationError s'"
    and "runs (trace s') = runs (trace s) @ map (\<lambda>g. compile_command opts @ [g]) (before @ [f])"
    and "removals (trace s') = removals (trace s)"
    and "world s' = snd (os_run env (compile_command opts @ [f]) (world_after env opts before (world s)))"
    and "Err (Diagnostics (stderr (fst (os_run env (compile_command opts @ [f])
          (world_after env opts before (world s)))))) \<in> set (trace s')"
    by blast
  then show ?thesis
    using assms(3,4,5)
    by (simp add: stops_at_first_failure_def compile_batch_def Let_def)
qed


lemma runs_Numbered_map [simp]: "runs (map (\<lambda>(i, file). Out (h i file)) xs) = []"
  by (induction xs) (simp_all split: prod.splits)

lemma removals_Numbered_map [simp]: "removals (map (\<lambda>(i, file). Out (h i file)) xs) = []"
  by (induction xs) (simp_all split: prod.splits)

text \<open>
  C4. Take a list of files to compile in which the compiler, run on the files in list
  order, returns 0 on the files \<open>before\<close> and fails on the next file \<open>f\<close>. The batch
  (the shared loop, compile-all when the scan gives this list, compile-selected when
  the selection gives it) runs the compiler on \<open>before\<close> and on \<open>f\<close>, in this order,
  and on no file after \<open>f\<close>; it puts the diagnostics of \<open>f\<close> on standard error and
  ends with the line that not all files could be compiled; it removes nothing, and
  leaves the file system as the runs of the compiler left it.
\<close>

theorem batch_stops_at_first_failure:
  assumes "all_compile env opts before (world s)"
    and "returncode (fst (os_run env (compile_command opts @ [f])
           (world_after env opts before (world s)))) \<noteq> 0"
  shows "stops_at_first_failure env opts before f s
           (compile_batch env opts (before @ f # after) s)
    \<and> (java_files env opts s = before @ f # after
        \<longrightarrow> stops_at_first_failure env opts before f s (compile_all_files env opts s))
    \<and> (stdin s = line # rest
        \<and> filter_indices (length (java_files env opts s)) (map py_strip (split_on CHR '','' line))
            = Inr selected
        \<and> map (selected_file (java_files env opts s)) selected = before @ f # after
        \<longrightarrow> stops_at_first_failure env opts before f s (compile_specific_files env opts s))"
proof (intro conjI impI)
  show "stops_at_first_failure env opts before f s
           (compile_batch env opts (before @ f # after) s)"
    using compile_batch_stops [OF assms] by simp
next
  assume j: "java_files env opts s = before @ f # after"
  let ?s1 = "emits (Out FilesToCompile # map (\<lambda>file. Out (Listed file)) (before @ f # after)) s"
  have "stops_at_first_failure env opts before f s
           (compile_batch env opts (before @ f # after) ?s1)"
    using assms by (intro compile_batch_stops) simp_all
  then show "stops_at_first_failure env opts before f s (compile_all_files env opts s)"
    using j by (simp add: compile_all_files_def Let_def)
next
  assume h: "stdin s = line # rest
        \<and> filter_indices (length (java_files env opts s)) (map py_strip (split_on CHR '','' line))
            = Inr selected
        \<and> map (selected_file (java_files env opts s)) selected = before @ f # after"
  let ?s1 = "emits (Out FilesAvailable #
                 map (\<lambda>(i, file). Out (Numbered (i + 1) (removeprefix file (src_folder opts @ ''/''))))
                   (enumerate 0 (java_files env opts s))) s"
  let ?p = "CHR 0x0A # ''Choose the files to compile (separated by commas): ''"
  let ?s2 = "emit (Prompt ?p) (?s1\<lparr>stdin := rest\<rparr>)"
  have i: "input_line ?p ?s1 = Normal line ?s2"
    using h by (simp add: input_line_def)
  have n: "selected \<noteq> []"
    using h by auto
  have "stops_at_first_failure env opts before f s
           (compile_batch env opts (before @ f # after) ?s2)"
    using assms by (intro compile_batch_stops) simp_all
  then show "stops_at_first_failure env opts before f s (compile_specific_files env opts s)"
    using h n i by (simp add: compile_specific_files_def Let_def then_do_def)
qed


lemma example_java_files:
  "java_files example_system example_options (example_machine inputs)
     = [''/home/u/proj/A.java'', ''/home/u/proj/sub/B.java'', ''/home/u/proj/sub/deep/C.java'']"
  by (simp add: java_files_def example_system_def example_options_def example_machine_def
      example_tree_def posorder_traversal_def path_join_def startswith_def endswith_def Let_def)

lemma example_compile_command:
  "compile_command example_options = [''javac'', ''-cp'', ''/home/u/proj'', ''-encoding'', ''UTF-8'']"
  by (simp add: compile_command_def example_options_def)

lemma example_selection:
  "filter_indices 3 (map py_strip (split_on CHR '','' ''2, 3'')) = Inr [''2'', ''3'']"
  by (simp add: valid_index_def py_isdigit_def py_int_def is_digit_char_def is_decimal_char_def
      decimal_value_def digit_value_def py_strip_def py_isspace_def Let_def)

theorem batch_stops_at_first_failure_witness:
  "stops_at_first_failure example_system example_options [''/home/u/proj/A.java'']
     ''/home/u/proj/sub/B.java'' (example_machine [])
     (compile_all_files example_system example_options (example_machine []))
   \<and> runs (trace (state_of (compile_all_files example_system example_options (example_machine []))))
     = [[''javac'', ''-cp'', ''/home/u/proj'', ''-encoding'', ''UTF-8'', ''/home/u/proj/A.java''],
        [''javac'', ''-cp'', ''/home/u/proj'', ''-encoding'', ''UTF-8'', ''/home/u/proj/sub/B.java'']]
   \<and> stops_at_first_failure example_system example_options [] ''/home/u/proj/sub/B.java''
     (example_machine [''2, 3''])
     (compile_specific_files example_system example_options (example_machine [''2, 3'']))"
proof -
  let ?A = "''/home/u/proj/A.java''" and ?B = "''/home/u/proj/sub/B.java''"
  let ?C = "''/home/u/proj/sub/deep/C.java''"
  have a: "all_compile example_system example_options [?A] (world (example_machine inputs))" for inputs
    by (simp add: example_compile_command example_system_def example_run_def)
  have b: "returncode (fst (os_run example_system (compile_command example_options @ [?B])
      (world_after example_system example_options [?A] (world (example_machine inputs))))) \<noteq> 0" for inputs
    by (simp add: example_compile_command example_system_def example_run_def)
  have a0: "all_compile example_system example_options [] (world (example_machine inputs))" for inputs
    by simp
  have b0: "returncode (fst (os_run example_system (compile_command example_options @ [?B])
      (world_after example_system example_options [] (world (example_machine inputs))))) \<noteq> 0" for inputs
    by (simp add: example_compile_command example_system_def example_run_def)
  have j: "java_files example_system example_options (example_machine inputs) = [?A] @ ?B # [?C]" for inputs
    by (simp add: example_java_files)
  have 1: "stops_at_first_failure example_system example_options [?A] ?B (example_machine [])
     (compile_all_files example_system example_options (example_machine []))"
    using batch_stops_at_first_failure [OF a b, of "[]" "[?C]"] j by blast
  have sel: "map (selected_file (java_files example_system example_options (example_machine [''2, 3''])))
      [''2'', ''3''] = [] @ ?B # [?C]"
    by (simp add: example_java_files selected_file_def decimal_value_def digit_value_def)
  have st: "stdin (example_machine [''2, 3'']) = ''2, 3'' # []"
    by (simp add: example_machine_def)
  have fi: "filter_indices (length (java_files example_system example_options (example_machine [''2, 3''])))
      (map py_strip (split_on CHR '','' ''2, 3'')) = Inr [''2'', ''3'']"
  proof -
    have "length (java_files example_system example_options (example_machine [''2, 3''])) = 3"
      by (simp add: example_java_files)
    then show ?thesis by (simp only: example_selection)
  qed
  have 2: "stops_at_first_failure example_system example_options [] ?B (example_machine [''2, 3''])
     (compile_specific_files example_system example_options (example_machine [''2, 3'']))"
    using batch_stops_at_first_failure [OF a0 b0, of "[''2, 3'']" "[?C]" "''2, 3''" "[]" "[''2'', ''3'']"]
      st fi sel by blast
  have 3: "runs (trace (state_of (compile_all_files example_system example_options (example_machine []))))
     = [[''javac'', ''-cp'', ''/home/u/proj'', ''-encoding'', ''UTF-8'', ?A],
        [''javac'', ''-cp'', ''/home/u/proj'', ''-encoding'', ''UTF-8'', ?B]]"
    using 1 by (simp add: stops_at_first_failure_def Let_def example_compile_command example_machine_def)
  show ?thesis using 1 2 3 by blast
qed

section \<open>Claims about cleaning\<close>

lemma remove_loop_trace:
  "trace (remove_loop env files s)
     = trace s @ concat (map (\<lambda>f. [Remove f, Out (Deleted f)]) files)"
  by (induction files arbitrary: s) simp_all

lemma remove_loop_world:
  "world (remove_loop env files s) = fold (os_remove env) files (world s)"
  by (induction files arbitrary: s) simp_all

lemma removals_deletions:
  "removals (concat (map (\<lambda>f. [Remove f, Out (Deleted f)]) files)) = files"
  by (induction files) simp_all

lemma no_count_in_deletions:
  "\<not> reports_count n (concat (map (\<lambda>f. [Remove f, Out (Deleted f)]) files))"
  by (induction files) (simp_all add: reports_count_def event_numbers_def message_numbers_def)

lemma reports_count_append:
  "reports_count n (a @ b) \<longleftrightarrow> reports_count n a \<or> reports_count n b"
  by (simp add: reports_count_def)

lemma reports_count_Cons:
  "reports_count n (e # tr) \<longleftrightarrow> n \<in> set (event_numbers e) \<or> reports_count n tr"
  by (simp add: reports_count_def)

lemma reports_count_Nil: "\<not> reports_count n []"
  by (simp add: reports_count_def)

lemma example_class_files:
  "class_files example_system example_options (example_machine inputs)
     = [''/home/u/proj/sub/B.class'', ''/home/u/proj/A.class'']"
  by (simp add: class_files_def example_system_def example_options_def example_machine_def
      example_tree_def posorder_traversal_def path_join_def startswith_def endswith_def Let_def)

text \<open>
  C3, as the claim states it, fails: on a tree with two \<^verbatim>\<open>.class\<close> files the clean
  operation removes the two files, and no line of its output shows the count 2.
\<close>

theorem clear_build_reports_no_count:
  "removals (trace (state_of (clear_build example_system example_options (example_machine []))))
     = [''/home/u/proj/sub/B.class'', ''/home/u/proj/A.class'']
   \<and> \<not> reports_count 2
         (trace (state_of (clear_build example_system example_options (example_machine []))))"
proof -
  have t: "trace (state_of (clear_build example_system example_options (example_machine [])))
     = [Out CleaningBuild, Out Blank,
        Remove ''/home/u/proj/sub/B.class'', Out (Deleted ''/home/u/proj/sub/B.class''),
        Remove ''/home/u/proj/A.class'', Out (Deleted ''/home/u/proj/A.class''),
        Out BuildCleaned]"
    by (simp add: clear_build_def Let_def example_class_files remove_loop_trace)
       (simp add: example_machine_def)
  show ?thesis
    unfolding t by (simp add: reports_count_def event_numbers_def message_numbers_def)
qed

text \<open>
  C3, amended. For every source tree, the clean operation removes exactly the files
  of the tree whose path ends with \<^verbatim>\<open>.class\<close>, each once and in scan order, and
  reports each removal right after it. It reports no count: after the removals it
  prints the line of line 221 and returns, and no line it prints shows a number.
\<close>

theorem clear_build_removes_class_files:
  "clear_build env opts s = Normal () (state_of (clear_build env opts s))
   \<and> trace (state_of (clear_build env opts s))
     = trace s @ [Out CleaningBuild, Out Blank]
       @ concat (map (\<lambda>f. [Remove f, Out (Deleted f)]) (class_files env opts s))
       @ [Out BuildCleaned]
   \<and> removals (trace (state_of (clear_build env opts s)))
     = removals (trace s) @ class_files env opts s
   \<and> mset (class_files env opts s)
     = filter_mset (\<lambda>p. endswith p ''.class'')
         (all_files (src_folder opts) (os_tree env (world s) (src_folder opts)))
   \<and> set (class_files env opts s)
     = {p. file_at (src_folder opts) (os_tree env (world s) (src_folder opts)) p
           \<and> endswith p ''.class''}
   \<and> world (state_of (clear_build env opts s))
     = fold (os_remove env) (class_files env opts s) (world s)
   \<and> (\<forall>n. \<not> reports_count n (drop (length (trace s)) (trace (state_of (clear_build env opts s)))))"
proof -
  have t: "trace (state_of (clear_build env opts s))
     = trace s @ [Out CleaningBuild, Out Blank]
       @ concat (map (\<lambda>f. [Remove f, Out (Deleted f)]) (class_files env opts s))
       @ [Out BuildCleaned]"
    by (simp add: clear_build_def Let_def remove_loop_trace)
  have r: "removals (trace (state_of (clear_build env opts s)))
     = removals (trace s) @ class_files env opts s"
    unfolding t by (simp add: removals_deletions)
  have n: "\<not> reports_count n (drop (length (trace s)) (trace (state_of (clear_build env opts s))))" for n
    unfolding t
    by (simp add: reports_count_Cons reports_count_Nil reports_count_append
        no_count_in_deletions event_numbers_def message_numbers_def)
  have w: "world (state_of (clear_build env opts s))
     = fold (os_remove env) (class_files env opts s) (world s)"
    by (simp add: clear_build_def Let_def remove_loop_world)
  have m: "mset (class_files env opts s)
     = filter_mset (\<lambda>p. endswith p ''.class'')
         (all_files (src_folder opts) (os_tree env (world s) (src_folder opts)))"
    by (simp add: class_files_def mset_posorder_traversal)
  have e: "set (class_files env opts s)
     = {p. file_at (src_folder opts) (os_tree env (world s) (src_folder opts)) p
           \<and> endswith p ''.class''}"
    by (simp add: class_files_def set_posorder_traversal)
  have c: "clear_build env opts s = Normal () (state_of (clear_build env opts s))"
    by (simp add: clear_build_def Let_def)
  show ?thesis using c t r m e w n by blast
qed

theorem clear_build_removes_class_files_witness:
  "trace (state_of (clear_build example_system example_options (example_machine [])))
     = [Out CleaningBuild, Out Blank,
        Remove ''/home/u/proj/sub/B.class'', Out (Deleted ''/home/u/proj/sub/B.class''),
        Remove ''/home/u/proj/A.class'', Out (Deleted ''/home/u/proj/A.class''),
        Out BuildCleaned]
   \<and> world (state_of (clear_build example_system example_options (example_machine [])))
     = [''/home/u/proj/sub/B.class'', ''/home/u/proj/A.class'']"
proof -
  have f: "os_remove example_system = (\<lambda>p w. w @ [p])" "world (example_machine []) = []"
    "trace (example_machine []) = []"
    by (simp_all add: example_system_def example_machine_def)
  show ?thesis
    using clear_build_removes_class_files [of example_system example_options "example_machine []"]
    by (simp add: example_class_files f)
qed

section \<open>Claims about the persisted options\<close>

lemma validate_folder_valid:
  "valid_folder env (world s) p \<Longrightarrow> validate_folder env p s = Normal p s"
  by (simp add: valid_folder_def validate_folder_def)

lemma validate_folder_result:
  assumes "\<And>p. os_abspath env (os_abspath env p) = os_abspath env p"
    and "validate_folder env a s = Normal p s'"
  shows "valid_folder env (world s') p"
  using assms by (auto simp: validate_folder_def valid_folder_def Let_def split: if_splits)

lemma new_options_valid:
  assumes "\<And>p. os_abspath env (os_abspath env p) = os_abspath env p"
    and "new_options env a0 a1 a2 s = Normal opts s'"
  shows "valid_folder env (world s') (src_folder opts) \<and> valid_folder env (world s') (class_path opts)"
proof -
  from assms(2) obtain o1 s1 where
    1: "set_src_folder env a0 default_options s = Normal o1 s1"
    and 2: "set_class_path env a2 (o1\<lparr>main_class_path := a1\<rparr>) s1 = Normal opts s'"
    by (auto simp: new_options_def then_do_Normal)
  from 1 obtain p where 3: "validate_folder env a0 s = Normal p s1" and 4: "o1 = default_options\<lparr>src_folder := p\<rparr>"
    by (auto simp: set_src_folder_def then_do_Normal)
  from 2 obtain q where 5: "validate_folder env a2 s1 = Normal q s'"
    and 6: "opts = o1\<lparr>main_class_path := a1, class_path := q\<rparr>"
    by (auto simp: set_class_path_def then_do_Normal)
  have "s' = s1" using validate_folder_stdin [OF 5] .
  then show ?thesis
    using validate_folder_result [OF assms(1) 3] validate_folder_result [OF assms(1) 5] 4 6
    by simp
qed

lemma options_dict_lookup:
  "map_of (options_dict opts) ''src_folder'' = Some (JString (src_folder opts))"
  "map_of (options_dict opts) ''main_class_path'' = Some (JString (main_class_path opts))"
  "map_of (options_dict opts) ''class_path'' = Some (JString (class_path opts))"
  "map_of (options_dict opts) ''verbose'' = Some (JBool (verbose opts))"
  "map_of (options_dict opts) ''encoding'' = Some (JString (encoding opts))"
  "map_of (options_dict opts) ''compiler'' = Some (JString (compiler opts))"
  by (simp_all add: options_dict_def)

text \<open>
  C7. Take an options record whose two folder fields are resolved paths of existing
  directories, as every record that the constructor and the setters build. Writing
  it to the options file and loading that file gives the record back, field for
  field, and the file holds one JSON object with exactly the six keys
  \<^verbatim>\<open>src_folder\<close>, \<^verbatim>\<open>main_class_path\<close>, \<^verbatim>\<open>class_path\<close>, \<^verbatim>\<open>verbose\<close>, \<^verbatim>\<open>encoding\<close>
  and \<^verbatim>\<open>compiler\<close>.
\<close>

theorem options_round_trip:
  assumes "valid_folder env (world s) (src_folder opts)"
    and "valid_folder env (world s) (class_path opts)"
  shows "load_compilation_options_file env (create_compilation_options_file opts s)
           = Normal opts (create_compilation_options_file opts s)
    \<and> options_file (create_compilation_options_file opts s) = Some (options_dict opts)
    \<and> map fst (options_dict opts)
        = [''src_folder'', ''main_class_path'', ''class_path'', ''verbose'', ''encoding'', ''compiler'']
    \<and> options_dict opts
        = [(''src_folder'', JString (src_folder opts)),
           (''main_class_path'', JString (main_class_path opts)),
           (''class_path'', JString (class_path opts)),
           (''verbose'', JBool (verbose opts)),
           (''encoding'', JString (encoding opts)),
           (''compiler'', JString (compiler opts))]"
proof -
  let ?s = "create_compilation_options_file opts s"
  have w: "world ?s = world s"
    by (simp add: create_compilation_options_file_def)
  have f: "options_file ?s = Some (options_dict opts)"
    by (simp add: create_compilation_options_file_def)
  have v1: "validate_folder env (src_folder opts) ?s = Normal (src_folder opts) ?s"
    using assms(1) w by (intro validate_folder_valid) simp
  have v2: "validate_folder env (class_path opts) ?s = Normal (class_path opts) ?s"
    using assms(2) w by (intro validate_folder_valid) simp
  have r: "default_options\<lparr>src_folder := src_folder opts, main_class_path := main_class_path opts,
      class_path := class_path opts, verbose := verbose opts, encoding := encoding opts,
      compiler := compiler opts\<rparr> = opts"
    by (cases opts) (simp add: default_options_def)
  have "load_compilation_options_file env ?s = Normal opts ?s"
    using r
    by (simp add: load_compilation_options_file_def f get_string_def get_bool_def
        options_dict_lookup then_do_def set_src_folder_def set_class_path_def v1 v2
        set_main_class_path_def set_verbose_def set_encoding_def set_compiler_def)
  then show ?thesis using f by (simp add: options_dict_def)
qed

theorem options_round_trip_witness:
  "valid_folder example_system (world (example_machine [])) (src_folder example_options)
   \<and> valid_folder example_system (world (example_machine [])) (class_path example_options)
   \<and> load_compilation_options_file example_system
        (create_compilation_options_file example_options (example_machine []))
      = Normal example_options (create_compilation_options_file example_options (example_machine []))"
proof -
  have a: "valid_folder example_system (world (example_machine [])) (src_folder example_options)"
    by (simp add: valid_folder_def example_system_def example_options_def startswith_def)
  have b: "valid_folder example_system (world (example_machine [])) (class_path example_options)"
    by (simp add: valid_folder_def example_system_def example_options_def startswith_def)
  show ?thesis
    using options_round_trip [OF a b] a b by blast
qed

section \<open>Claims about the settings submenu\<close>

lemma writes_append [simp]: "writes (a @ b) = writes a @ writes b"
  by (simp add: writes_def)

lemma writes_Nil [simp]: "writes [] = []"
  by (simp add: writes_def)

lemma writes_Cons_Write [simp]: "writes (Write d # tr) = d # writes tr"
  by (simp add: writes_def)

lemma writes_Cons_Out [simp]: "writes (Out m # tr) = writes tr"
  by (simp add: writes_def)

lemma writes_Cons_Err [simp]: "writes (Err m # tr) = writes tr"
  by (simp add: writes_def)

lemma writes_Cons_Prompt [simp]: "writes (Prompt p # tr) = writes tr"
  by (simp add: writes_def)

lemma writes_Cons_System [simp]: "writes (System c # tr) = writes tr"
  by (simp add: writes_def)

lemma file_untouched_refl [simp]: "file_untouched s s"
  by (simp add: file_untouched_def)

lemma file_untouched_trans:
  "file_untouched s s1 \<Longrightarrow> file_untouched s1 s2 \<Longrightarrow> file_untouched s s2"
  by (simp add: file_untouched_def)

lemma then_do_untouched:
  assumes "file_untouched s (state_of r)"
    and "\<And>a s1. r = Normal a s1 \<Longrightarrow> file_untouched s1 (state_of (f a s1))"
  shows "file_untouched s (state_of (then_do r f))"
proof (cases r)
  case (Normal a s1)
  then show ?thesis
    using assms(1) assms(2) [OF Normal] by (auto simp: then_do_def intro: file_untouched_trans)
next
  case (Raise e s1)
  then show ?thesis using assms(1) by (simp add: then_do_def)
next
  case (Exit n s1)
  then show ?thesis using assms(1) by (simp add: then_do_def)
qed

lemma input_line_untouched: "file_untouched s (state_of (input_line prompt s))"
  by (simp add: input_line_def file_untouched_def split: list.splits)

lemma input_line_untouched_emits:
  "file_untouched s (state_of (input_line prompt (emits [Out a, Out b] s)))"
  by (simp add: input_line_def file_untouched_def split: list.splits)

lemma validate_folder_untouched: "file_untouched s (state_of (validate_folder env p s))"
  by (simp add: validate_folder_def file_untouched_def Let_def)

lemma set_src_folder_untouched: "file_untouched s (state_of (set_src_folder env p opts s))"
  unfolding set_src_folder_def
  by (intro then_do_untouched validate_folder_untouched) simp

lemma set_class_path_untouched: "file_untouched s (state_of (set_class_path env p opts s))"
  unfolding set_class_path_def
  by (intro then_do_untouched validate_folder_untouched) simp

lemma read_untouched:
  assumes "\<And>l s2. file_untouched s2 (state_of (g l s2))"
  shows "file_untouched s (state_of (then_do (input_line prompt s) g))"
  using assms by (intro then_do_untouched input_line_untouched)

lemma src_folder_untouched:
  assumes "\<And>a s2. file_untouched s2 (state_of (g a s2))"
  shows "file_untouched s (state_of (then_do (set_src_folder env p opts s) g))"
  using assms by (intro then_do_untouched set_src_folder_untouched)

lemma class_path_untouched:
  assumes "\<And>a s2. file_untouched s2 (state_of (g a s2))"
  shows "file_untouched s (state_of (then_do (set_class_path env p opts s) g))"
  using assms by (intro then_do_untouched set_class_path_untouched)

lemma invalid_choice_untouched:
  "file_untouched s (emits [Err InvalidChoice, System clear_command] s)"
  by (simp add: file_untouched_def)

lemma setup_iteration_untouched: "file_untouched s (state_of (setup_iteration env opts s))"
  unfolding setup_iteration_def Let_def
  by (rule then_do_untouched [OF input_line_untouched_emits])
     (auto intro!: read_untouched src_folder_untouched class_path_untouched
        invalid_choice_untouched)

lemma setup_loop_untouched: "file_untouched s (state_of (setup_loop env opts s))"
proof (induction env opts s rule: setup_loop.induct)
  case (1 env opts s)
  have i: "file_untouched s (state_of (setup_iteration env opts s))"
    by (rule setup_iteration_untouched)
  show ?case
  proof (cases "setup_iteration env opts s")
    case (Normal r s1)
    show ?thesis
    proof (cases "fst r = Continue")
      case True
      have "file_untouched s1 (state_of (setup_loop env (snd r) s1))"
        using "1.IH" [OF Normal True] .
      then show ?thesis
        using i Normal True
        by (auto simp: setup_loop.simps [of env opts s] intro: file_untouched_trans)
    next
      case False
      then show ?thesis using i Normal by (simp add: setup_loop.simps [of env opts s])
    qed
  next
    case (Raise e s1)
    then show ?thesis using i by (simp add: setup_loop.simps [of env opts s])
  next
    case (Exit n s1)
    then show ?thesis using i by (simp add: setup_loop.simps [of env opts s])
  qed
qed


lemma py_strip_plain:
  "py_strip ''0'' = ''0''" "py_strip ''1'' = ''1''" "py_strip ''2'' = ''2''" "py_strip ''3'' = ''3''"
  "py_strip ''4'' = ''4''" "py_strip ''5'' = ''5''" "py_strip ''6'' = ''6''" "py_strip ''y'' = ''y''"
  by (simp_all add: py_strip_def py_isspace_def)

lemma settings_verbose_step:
  assumes "stdin s = ''4'' # ''y'' # rest"
  shows "setup_iteration env opts s
           = Normal (Continue, set_verbose True opts) (state_of (setup_iteration env opts s))
    \<and> stdin (state_of (setup_iteration env opts s)) = rest"
  using assms
  by (simp add: setup_iteration_def input_line_def then_do_def py_strip_plain Let_def
      py_lower_def py_lower_char_def)

lemma settings_return_step:
  assumes "stdin s = ''0'' # rest"
  shows "setup_iteration env opts s = Normal (Break, opts) (state_of (setup_iteration env opts s))
    \<and> stdin (state_of (setup_iteration env opts s)) = rest"
  using assms
  by (simp add: setup_iteration_def input_line_def then_do_def py_strip_plain Let_def)

text \<open>
  C2, as the claim states it, fails: after the mutation of \<^verbatim>\<open>verbose\<close> and before the
  next prompt of the submenu, the record in memory has \<^verbatim>\<open>verbose\<close> set and the
  options file still holds the record as it was.
\<close>

theorem settings_mutation_not_persisted:
  "value_of (setup_iteration example_system example_options (example_machine [''4'', ''y'']))
     = Some (Continue, example_options\<lparr>verbose := True\<rparr>)
   \<and> options_file (state_of (setup_iteration example_system example_options
         (example_machine [''4'', ''y''])))
     = Some (options_dict example_options)
   \<and> options_dict (example_options\<lparr>verbose := True\<rparr>) \<noteq> options_dict example_options"
proof -
  let ?r = "setup_iteration example_system example_options (example_machine [''4'', ''y''])"
  have st: "stdin (example_machine [''4'', ''y'']) = ''4'' # ''y'' # []"
    by (simp add: example_machine_def)
  have "?r = Normal (Continue, set_verbose True example_options) (state_of ?r)"
    using settings_verbose_step [OF st] by blast
  then have a: "value_of ?r = Some (Continue, example_options\<lparr>verbose := True\<rparr>)"
    by (metis set_verbose_def value_of.simps(1))
  have "file_untouched (example_machine [''4'', ''y'']) (state_of ?r)"
    by (rule setup_iteration_untouched)
  then have b: "options_file (state_of ?r) = Some (options_dict example_options)"
    by (simp add: file_untouched_def example_machine_def)
  have c: "options_dict (example_options\<lparr>verbose := True\<rparr>) \<noteq> options_dict example_options"
    by (simp add: options_dict_def example_options_def)
  show ?thesis using a b c by blast
qed

text \<open>
  C2, amended. In every session of the settings submenu the mutations change the
  record in memory only: no turn of the submenu writes the options file, and the
  loop leaves it as it was. When the user selects return, the whole record is
  serialized to the file, once. A session that ends in another way (the exit of a
  failed folder validation, the end of the input) writes nothing.
\<close>

theorem settings_persisted_on_return:
  "file_untouched s (state_of (setup_iteration env opts s))
   \<and> file_untouched s (state_of (setup_loop env opts s))
   \<and> (setup_compilation_options env opts s = Normal opts' s'
      \<longrightarrow> options_file s' = Some (options_dict opts')
          \<and> writes (trace s') = writes (trace s) @ [options_dict opts'])
   \<and> (value_of (setup_compilation_options env opts s) = None
      \<longrightarrow> file_untouched s (state_of (setup_compilation_options env opts s)))"
proof (intro conjI impI)
  show "file_untouched s (state_of (setup_iteration env opts s))"
    by (rule setup_iteration_untouched)
  show l: "file_untouched s (state_of (setup_loop env opts s))"
    by (rule setup_loop_untouched)
  {
    assume "setup_compilation_options env opts s = Normal opts' s'"
    then obtain s1 where 1: "setup_loop env opts s = Normal opts' s1"
      and 2: "s' = emit (Out OptionsUpdated) (create_compilation_options_file opts' s1)"
      by (auto simp: setup_compilation_options_def then_do_Normal)
    have 3: "writes (trace s1) = writes (trace s)"
      using l 1 by (simp add: file_untouched_def)
    show "options_file s' = Some (options_dict opts')"
      using 2 by (simp add: create_compilation_options_file_def)
    show "writes (trace s') = writes (trace s) @ [options_dict opts']"
      using 2 3 by (simp add: create_compilation_options_file_def)
  }
  {
    assume n: "value_of (setup_compilation_options env opts s) = None"
    show "file_untouched s (state_of (setup_compilation_options env opts s))"
    proof (cases "setup_loop env opts s")
      case (Normal a s1)
      then show ?thesis using n by (simp add: setup_compilation_options_def then_do_def)
    next
      case (Raise e s1)
      then show ?thesis using l by (simp add: setup_compilation_options_def then_do_def)
    next
      case (Exit k s1)
      then show ?thesis using l by (simp add: setup_compilation_options_def then_do_def)
    qed
  }
qed

theorem settings_persisted_on_return_witness:
  "value_of (setup_compilation_options example_system example_options
       (example_machine [''4'', ''y'', ''0'']))
     = Some (example_options\<lparr>verbose := True\<rparr>)
   \<and> options_file (state_of (setup_compilation_options example_system example_options
         (example_machine [''4'', ''y'', ''0''])))
     = Some (options_dict (example_options\<lparr>verbose := True\<rparr>))
   \<and> writes (trace (state_of (setup_compilation_options example_system example_options
         (example_machine [''4'', ''y'', ''0'']))))
     = [options_dict (example_options\<lparr>verbose := True\<rparr>)]"
proof -
  let ?m = "example_machine [''4'', ''y'', ''0'']"
  let ?o1 = "example_options\<lparr>verbose := True\<rparr>"
  let ?i1 = "setup_iteration example_system example_options ?m"
  let ?i2 = "setup_iteration example_system ?o1 (state_of ?i1)"
  let ?r = "setup_compilation_options example_system example_options ?m"
  have st: "stdin ?m = ''4'' # ''y'' # [''0'']"
    by (simp add: example_machine_def)
  have 1: "?i1 = Normal (Continue, ?o1) (state_of ?i1)" and 2: "stdin (state_of ?i1) = ''0'' # []"
    using settings_verbose_step [OF st, of example_system example_options]
    by (simp_all add: set_verbose_def)
  have 3: "?i2 = Normal (Break, ?o1) (state_of ?i2)"
    using settings_return_step [OF 2] by blast
  have 4: "setup_loop example_system ?o1 (state_of ?i1) = Normal ?o1 (state_of ?i2)"
    by (subst setup_loop.simps, subst 3) simp
  have 5: "setup_loop example_system example_options ?m = Normal ?o1 (state_of ?i2)"
    by (subst setup_loop.simps, subst 1) (simp add: 4)
  have 6: "?r = Normal ?o1 (state_of ?r)"
    by (simp add: setup_compilation_options_def then_do_def 5)
  have 7: "writes (trace ?m) = []"
    by (simp add: example_machine_def)
  show ?thesis
    using settings_persisted_on_return [of ?m example_system example_options ?o1 "state_of ?r"] 6 7
    by (metis append_Nil value_of.simps(1))
qed

section \<open>Claims about the selection of files\<close>

lemma valid_index_plain:
  "plain_token t \<Longrightarrow> valid_index n t = Inr (in_range n t)"
  by (auto simp: plain_token_def valid_index_def in_range_def py_int_def py_isdigit_def)

lemma filter_indices_plain:
  "list_all plain_token tokens \<Longrightarrow> filter_indices n tokens = Inr (filter (in_range n) tokens)"
  by (induction tokens) (simp_all add: valid_index_plain)

lemma superscript_two:
  "py_strip [CHR 0xB2] = [CHR 0xB2]" "py_isdigit [CHR 0xB2]" "py_int [CHR 0xB2] = Inl ValueError"
  "split_on CHR '','' [CHR 0xB2] = [[CHR 0xB2]]"
  by (simp_all add: py_strip_def py_isspace_def py_isdigit_def is_digit_char_def py_int_def
      is_decimal_char_def)

lemma superscript_two_filter: "filter_indices n (map py_strip (split_on CHR '','' [CHR 0xB2])) = Inl ValueError"
  by (simp add: superscript_two valid_index_def)

lemma compile_specific_files_superscript:
  assumes "stdin s = [CHR 0xB2] # rest"
  shows "raised (compile_specific_files env opts s) = Some ValueError
    \<and> stdin (state_of (compile_specific_files env opts s)) = rest
    \<and> runs (trace (state_of (compile_specific_files env opts s))) = runs (trace s)
    \<and> (Err NoFilesSelected \<in> set (trace (state_of (compile_specific_files env opts s)))
        \<longleftrightarrow> Err NoFilesSelected \<in> set (trace s))"
  using assms
  by (auto simp: compile_specific_files_def Let_def then_do_def input_line_def
      superscript_two valid_index_def)


lemma compile_batch_ok:
  assumes "all_compile env opts files (world s)"
  shows "compile_batch env opts files s = Normal () (state_of (compile_batch env opts files s))
    \<and> runs (trace (state_of (compile_batch env opts files s)))
       = runs (trace s) @ map (\<lambda>g. compile_command opts @ [g]) files
    \<and> last (trace (state_of (compile_batch env opts files s))) = Out (TotalCompiled (length files))"
proof -
  from compile_loop_ok [OF assms] obtain s' where
    "compile_loop env opts files s = Normal () s'"
    and "runs (trace s') = runs (trace s) @ map (\<lambda>g. compile_command opts @ [g]) files"
    by blast
  then show ?thesis by (simp add: compile_batch_def)
qed

text \<open>
  The selection, for an input line all of whose tokens are plain: the tokens that
  pass the filter are kept in the order of the line, duplicates included; with
  none left the operation reports that no files were selected and runs nothing;
  otherwise the compiler runs on the file of each kept token in turn, and the total
  reported is the number of kept tokens.
\<close>

lemma compile_specific_files_plain:
  assumes "stdin s = line # rest"
    and "list_all plain_token (map py_strip (split_on CHR '','' line))"
  shows "(filter (in_range (length (java_files env opts s))) (map py_strip (split_on CHR '','' line)) = []
      \<longrightarrow> compile_specific_files env opts s
            = Normal () (state_of (compile_specific_files env opts s))
          \<and> last (trace (state_of (compile_specific_files env opts s))) = Err NoFilesSelected
          \<and> runs (trace (state_of (compile_specific_files env opts s))) = runs (trace s))
    \<and> (filter (in_range (length (java_files env opts s))) (map py_strip (split_on CHR '','' line)) \<noteq> []
        \<and> all_compile env opts
            (map (selected_file (java_files env opts s))
              (filter (in_range (length (java_files env opts s)))
                (map py_strip (split_on CHR '','' line)))) (world s)
      \<longrightarrow> compile_specific_files env opts s
            = Normal () (state_of (compile_specific_files env opts s))
          \<and> runs (trace (state_of (compile_specific_files env opts s)))
            = runs (trace s) @ map (\<lambda>g. compile_command opts @ [g])
                (map (selected_file (java_files env opts s))
                  (filter (in_range (length (java_files env opts s)))
                    (map py_strip (split_on CHR '','' line))))
          \<and> last (trace (state_of (compile_specific_files env opts s)))
            = Out (TotalCompiled (length (filter (in_range (length (java_files env opts s)))
                (map py_strip (split_on CHR '','' line))))))"
proof -
  let ?files = "java_files env opts s"
  let ?sel = "filter (in_range (length ?files)) (map py_strip (split_on CHR '','' line))"
  let ?s1 = "emits (Out FilesAvailable #
                 map (\<lambda>(i, file). Out (Numbered (i + 1) (removeprefix file (src_folder opts @ ''/''))))
                   (enumerate 0 ?files)) s"
  let ?p = "CHR 0x0A # ''Choose the files to compile (separated by commas): ''"
  let ?s2 = "emit (Prompt ?p) (?s1\<lparr>stdin := rest\<rparr>)"
  have i: "input_line ?p ?s1 = Normal line ?s2"
    using assms(1) by (simp add: input_line_def)
  have f: "filter_indices (length ?files) (map py_strip (split_on CHR '','' line)) = Inr ?sel"
    using filter_indices_plain [OF assms(2)] .
  have "compile_specific_files env opts s
      = (if sel = [] then Normal () (emit (Err NoFilesSelected) ?s2)
         else compile_batch env opts (map (selected_file ?files) sel) ?s2)"
    if "filter_indices (length ?files) (map py_strip (split_on CHR '','' line)) = Inr sel" for sel
    using i that by (simp add: compile_specific_files_def Let_def then_do_def)
  from this [OF f] have c: "compile_specific_files env opts s
      = (if ?sel = [] then Normal () (emit (Err NoFilesSelected) ?s2)
         else compile_batch env opts (map (selected_file ?files) ?sel) ?s2)" .
  show ?thesis
  proof (intro conjI impI)
    assume e: "?sel = []"
    show "compile_specific_files env opts s = Normal () (state_of (compile_specific_files env opts s))"
      using c e by simp
    show "last (trace (state_of (compile_specific_files env opts s))) = Err NoFilesSelected"
      using c e by simp
    show "runs (trace (state_of (compile_specific_files env opts s))) = runs (trace s)"
      using c e by simp
  next
    assume n: "?sel \<noteq> [] \<and> all_compile env opts (map (selected_file ?files) ?sel) (world s)"
    then have "all_compile env opts (map (selected_file ?files) ?sel) (world ?s2)"
      by simp
    from compile_batch_ok [OF this] n c
    show "compile_specific_files env opts s = Normal () (state_of (compile_specific_files env opts s))"
      and "runs (trace (state_of (compile_specific_files env opts s)))
            = runs (trace s) @ map (\<lambda>g. compile_command opts @ [g]) (map (selected_file ?files) ?sel)"
      and "last (trace (state_of (compile_specific_files env opts s)))
            = Out (TotalCompiled (length ?sel))"
      by simp_all
  qed
qed

lemma menu_select_superscript:
  assumes "stdin s = ''2'' # [CHR 0xB2] # rest"
  shows "menu_iteration env opts s = Raise ValueError (state_of (menu_iteration env opts s))"
proof -
  let ?s0 = "emit (Out (MenuShown (src_folder opts) (class_path opts) (main_class_path opts))) s"
  let ?s1 = "emit (Prompt []) (?s0\<lparr>stdin := [CHR 0xB2] # rest\<rparr>)"
  have m: "show_menu opts s = Normal ''2'' ?s1"
    using assms by (simp add: show_menu_def input_line_def then_do_def py_strip_plain)
  have "stdin (emit (System clear_command) ?s1) = [CHR 0xB2] # rest"
    by simp
  from compile_specific_files_superscript [OF this, of env opts]
  obtain s2 where "compile_specific_files env opts (emit (System clear_command) ?s1) = Raise ValueError s2"
    by (cases "compile_specific_files env opts (emit (System clear_command) ?s1)") auto
  then show ?thesis
    using m by (simp add: menu_iteration_def then_do_def)
qed

text \<open>
  C10, at the selection that is the one character superscript two (U+00B2): \<^verbatim>\<open>isdigit\<close>
  accepts the token, \<^verbatim>\<open>int\<close> raises \<^verbatim>\<open>ValueError\<close> inside the filter of line 184,
  and the exception leaves \<^verbatim>\<open>compile_specific_files\<close> and the program loop. The
  token is not discarded, the line that no files were selected is not printed,
  and the program does not return to the menu.
\<close>

theorem selection_superscript_raises:
  "raised (compile_specific_files example_system example_options (example_machine [[CHR 0xB2]]))
     = Some ValueError
   \<and> Err NoFilesSelected
       \<notin> set (trace (state_of (compile_specific_files example_system example_options
                 (example_machine [[CHR 0xB2]]))))
   \<and> raised (main_loop example_system example_options (example_machine [''2'', [CHR 0xB2], ''0'']))
     = Some ValueError"
proof -
  have st: "stdin (example_machine [[CHR 0xB2]]) = [CHR 0xB2] # []"
    "trace (example_machine [[CHR 0xB2]]) = []"
    by (simp_all add: example_machine_def)
  have a: "raised (compile_specific_files example_system example_options (example_machine [[CHR 0xB2]]))
     = Some ValueError"
    using compile_specific_files_superscript [OF st(1)] by blast
  have b: "Err NoFilesSelected
       \<notin> set (trace (state_of (compile_specific_files example_system example_options
                 (example_machine [[CHR 0xB2]]))))"
    using compile_specific_files_superscript [OF st(1), of example_system example_options] st(2)
    by simp
  have st2: "stdin (example_machine [''2'', [CHR 0xB2], ''0'']) = ''2'' # [CHR 0xB2] # [''0'']"
    by (simp add: example_machine_def)
  have c: "raised (main_loop example_system example_options (example_machine [''2'', [CHR 0xB2], ''0'']))
     = Some ValueError"
    by (subst main_loop.simps, subst menu_select_superscript [OF st2]) simp
  show ?thesis using a b c by blast
qed

section \<open>Claims about the program loop\<close>

lemma compile_file_cases:
  "(\<exists>s'. compile_file env f opts s = Normal () s') \<or>
   (\<exists>s'. compile_file env f opts s = Raise CompilationError s')"
  by (simp add: compile_file_def Let_def)

lemma compile_loop_cases:
  "(\<exists>s'. compile_loop env opts files s = Normal () s') \<or>
   (\<exists>s'. compile_loop env opts files s = Raise CompilationError s')"
proof (induction files arbitrary: s)
  case Nil
  show ?case by simp
next
  case (Cons f files)
  from compile_file_cases [of env f opts "emit (Out (Compiling f)) s"] show ?case
  proof
    assume "\<exists>s'. compile_file env f opts (emit (Out (Compiling f)) s) = Normal () s'"
    then obtain s1 where "compile_file env f opts (emit (Out (Compiling f)) s) = Normal () s1"
      by blast
    then show ?thesis using Cons.IH [of s1] by simp
  next
    assume "\<exists>s'. compile_file env f opts (emit (Out (Compiling f)) s) = Raise CompilationError s'"
    then show ?thesis by auto
  qed
qed

lemma compile_batch_returns: "\<exists>s'. compile_batch env opts files s = Normal () s'"
  using compile_loop_cases [of env opts files s] by (auto simp: compile_batch_def)

lemma compile_all_files_returns: "\<exists>s'. compile_all_files env opts s = Normal () s'"
  by (simp add: compile_all_files_def Let_def compile_batch_returns)

lemma compile_specific_files_cases:
  "raised (compile_specific_files env opts s) \<noteq> Some CompilationError
   \<and> exit_status (compile_specific_files env opts s) = None"
proof -
  let ?s1 = "emits (Out FilesAvailable #
                 map (\<lambda>(i, file). Out (Numbered (i + 1) (removeprefix file (src_folder opts @ ''/''))))
                   (enumerate 0 (java_files env opts s))) s"
  let ?p = "CHR 0x0A # ''Choose the files to compile (separated by commas): ''"
  show ?thesis
  proof (cases "input_line ?p ?s1")
    case (Normal line s2)
    show ?thesis
    proof (cases "filter_indices (length (java_files env opts s)) (map py_strip (split_on CHR '','' line))")
      case (Inl e)
      have "e = ValueError"
      proof -
        have "filter_indices n ts = Inl x \<Longrightarrow> x = ValueError" for n ts x
          by (induction ts)
             (auto simp: valid_index_def py_int_def split: if_splits sum.splits)
        then show ?thesis using Inl by blast
      qed
      then show ?thesis
        using Normal Inl by (simp add: compile_specific_files_def Let_def then_do_def)
    next
      case (Inr sel)
      obtain s3 where "compile_batch env opts (map (selected_file (java_files env opts s)) sel) s2
          = Normal () s3"
        using compile_batch_returns by blast
      then show ?thesis
        using Normal Inr by (simp add: compile_specific_files_def Let_def then_do_def)
    qed
  next
    case (Raise e s2)
    then have "e = EOFError"
      by (auto simp: input_line_def split: list.splits)
    then show ?thesis
      using Raise by (simp add: compile_specific_files_def Let_def then_do_def)
  next
    case (Exit n s2)
    then show ?thesis by (auto simp: input_line_def split: list.splits)
  qed
qed

lemma show_menu_step:
  assumes "stdin s = c # rest"
  shows "\<exists>s1. show_menu opts s = Normal (py_strip c) s1 \<and> stdin s1 = rest \<and> world s1 = world s"
  using assms by (simp add: show_menu_def input_line_def then_do_def)

lemma press_enter_step:
  assumes "stdin s = l # rest"
  shows "\<exists>s'. press_enter opts s = Normal opts s' \<and> stdin s' = rest"
  using assms by (simp add: press_enter_def input_line_def then_do_def)

lemma menu_compile_all_returns:
  assumes "stdin s = ''1'' # l # rest"
  shows "\<exists>s'. menu_iteration env opts s = Normal opts s' \<and> stdin s' = rest"
proof -
  obtain s1 where m: "show_menu opts s = Normal ''1'' s1" and i: "stdin s1 = l # rest"
    using show_menu_step [OF assms, of opts] by (auto simp: py_strip_plain)
  obtain s2 where c: "compile_all_files env opts (emit (System clear_command) s1) = Normal () s2"
    using compile_all_files_returns by blast
  have "stdin s2 = l # rest"
    using compile_all_files_stdin [of env opts "emit (System clear_command) s1"] c i by simp
  from press_enter_step [OF this, of opts] obtain s' where
    "press_enter opts s2 = Normal opts s'" "stdin s' = rest"
    by blast
  then show ?thesis
    using m c by (simp add: menu_iteration_def then_do_def)
qed

lemma compile_and_run_failure_reported:
  assumes "returncode (fst (os_run env (compile_command opts @ [main_file opts]) (world s))) = 0"
    and "returncode (fst (os_run env (run_command opts)
           (snd (os_run env (compile_command opts @ [main_file opts]) (world s))))) \<noteq> 0"
  shows "compile_and_run_project env opts s
           = Normal () (state_of (compile_and_run_project env opts s))
    \<and> Err CouldNotRun \<in> set (trace (state_of (compile_and_run_project env opts s)))
    \<and> Err (Diagnostics (stderr (fst (os_run env (run_command opts)
           (snd (os_run env (compile_command opts @ [main_file opts]) (world s)))))))
        \<in> set (trace (state_of (compile_and_run_project env opts s)))"
  using assms
  by (simp add: compile_and_run_project_def compile_file_def then_do_def Let_def)

lemma compile_and_run_returns:
  assumes "returncode (fst (os_run env (compile_command opts @ [main_file opts]) (world s))) = 0"
  shows "\<exists>s'. compile_and_run_project env opts s = Normal () s'"
  using assms
  by (auto simp: compile_and_run_project_def compile_file_def then_do_def Let_def)

lemma menu_run_failure_returns:
  assumes "stdin s = ''4'' # l # rest"
    and "returncode (fst (os_run env (compile_command opts @ [main_file opts]) (world s))) = 0"
  shows "\<exists>s'. menu_iteration env opts s = Normal opts s' \<and> stdin s' = rest"
proof -
  obtain s1 where m: "show_menu opts s = Normal ''4'' s1" and i: "stdin s1 = l # rest"
    and w: "world s1 = world s"
    using show_menu_step [OF assms(1), of opts] by (auto simp: py_strip_plain)
  let ?c = "emit (System clear_command) s1"
  have "returncode (fst (os_run env (compile_command opts @ [main_file opts]) (world ?c))) = 0"
    using assms(2) w by simp
  from compile_and_run_returns [OF this]
  obtain s2 where c: "compile_and_run_project env opts ?c = Normal () s2"
    by blast
  have "stdin s2 = l # rest"
    using compile_and_run_project_stdin [of env opts ?c] c i by simp
  from press_enter_step [OF this, of opts] obtain s' where
    "press_enter opts s2 = Normal opts s'" "stdin s' = rest"
    by blast
  then show ?thesis
    using m c by (simp add: menu_iteration_def then_do_def)
qed

lemma settings_invalid_folder_exits:
  assumes "stdin s = ''1'' # p # rest"
    and "\<not> (os_exists env (world s) (os_abspath env (py_strip p))
            \<and> os_isdir env (world s) (os_abspath env (py_strip p)))"
  shows "exit_status (setup_compilation_options env opts s) = Some 1"
proof -
  have "exit_status (setup_iteration env opts s) = Some 1"
    using assms
    by (auto simp: setup_iteration_def input_line_def then_do_def py_strip_plain Let_def
        set_src_folder_def validate_folder_def)
  then obtain s1 where "setup_iteration env opts s = Exit 1 s1"
    by (cases "setup_iteration env opts s") auto
  then have "setup_loop env opts s = Exit 1 s1"
    by (simp add: setup_loop.simps [of env opts s])
  then show ?thesis by (simp add: setup_compilation_options_def then_do_def)
qed

lemma menu_settings_invalid_folder_exits:
  assumes "stdin s = ''5'' # ''1'' # p # rest"
    and "\<not> (os_exists env (world s) (os_abspath env (py_strip p))
            \<and> os_isdir env (world s) (os_abspath env (py_strip p)))"
  shows "exit_status (menu_iteration env opts s) = Some 1
    \<and> exit_status (main_loop env opts s) = Some 1"
proof -
  obtain s1 where m: "show_menu opts s = Normal ''5'' s1" and i: "stdin s1 = ''1'' # p # rest"
    and w: "world s1 = world s"
    using show_menu_step [OF assms(1), of opts] by (auto simp: py_strip_plain)
  let ?c = "emit (System clear_command) s1"
  have "exit_status (setup_compilation_options env opts ?c) = Some 1"
    using assms(2) i w by (intro settings_invalid_folder_exits) simp_all
  then obtain s2 where "setup_compilation_options env opts ?c = Exit 1 s2"
    by (cases "setup_compilation_options env opts ?c") auto
  then have e: "menu_iteration env opts s = Exit 1 s2"
    using m by (simp add: menu_iteration_def then_do_def)
  then have "main_loop env opts s = Exit 1 s2"
    by (simp add: main_loop.simps [of env opts s])
  then show ?thesis using e by simp
qed


lemma menu_exit_step:
  assumes "stdin s = ''0'' # rest"
  shows "exit_status (menu_iteration env opts s) = Some 0"
proof -
  obtain s1 where "show_menu opts s = Normal ''0'' s1"
    using show_menu_step [OF assms, of opts] by (auto simp: py_strip_plain)
  then show ?thesis by (simp add: menu_iteration_def then_do_def)
qed

lemma main_loop_step:
  assumes "menu_iteration env opts s = Normal opts' s'"
  shows "main_loop env opts s = main_loop env opts' s'"
  using assms by (simp add: main_loop.simps [of env opts s])

lemma main_loop_exit:
  assumes "exit_status (menu_iteration env opts s) = Some n"
  shows "exit_status (main_loop env opts s) = Some n"
  using assms
  by (cases "menu_iteration env opts s") (simp_all add: main_loop.simps [of env opts s])

lemma main_loop_raise:
  assumes "raised (menu_iteration env opts s) = Some e"
  shows "raised (main_loop env opts s) = Some e"
  using assms
  by (cases "menu_iteration env opts s") (simp_all add: main_loop.simps [of env opts s])

lemma menu_run_compile_failure_raises:
  assumes "stdin s = ''4'' # rest"
    and "returncode (fst (os_run env (compile_command opts @ [main_file opts]) (world s))) \<noteq> 0"
  shows "raised (menu_iteration env opts s) = Some CompilationError"
proof -
  obtain s1 where m: "show_menu opts s = Normal ''4'' s1" and w: "world s1 = world s"
    using show_menu_step [OF assms(1), of opts] by (auto simp: py_strip_plain)
  let ?c = "emit (System clear_command) s1"
  have "returncode (fst (os_run env (compile_command opts @ [main_file opts]) (world ?c))) \<noteq> 0"
    using assms(2) w by simp
  then have "raised (compile_and_run_project env opts ?c) = Some CompilationError"
    by (simp add: compile_and_run_project_def compile_file_def then_do_def Let_def)
  then obtain s2 where "compile_and_run_project env opts ?c = Raise CompilationError s2"
    by (cases "compile_and_run_project env opts ?c") auto
  then show ?thesis
    using m by (simp add: menu_iteration_def then_do_def)
qed

text \<open>
  The compile-and-run action has no \<^verbatim>\<open>try\<close> around \<^verbatim>\<open>_compile_file\<close> (line 234), unlike
  the two batch operations: when the entry point does not compile, the exception
  leaves the program loop.
\<close>

lemma compile_and_run_compile_failure_ends_program:
  "raised (main_loop example_system (example_options\<lparr>main_class_path := ''sub.B''\<rparr>)
     (example_machine [''4'', [], ''0''])) = Some CompilationError"
proof -
  let ?o = "example_options\<lparr>main_class_path := ''sub.B''\<rparr>"
  have st: "stdin (example_machine [''4'', [], ''0'']) = ''4'' # [[], ''0'']"
    by (simp add: example_machine_def)
  have mf: "main_file ?o = ''/home/u/proj/sub/B.java''"
    by (simp add: main_file_def example_options_def replace_dots_def path_join_def
        startswith_def endswith_def)
  have cc: "compile_command ?o = [''javac'', ''-cp'', ''/home/u/proj'', ''-encoding'', ''UTF-8'']"
    by (simp add: compile_command_def example_options_def)
  have "returncode (fst (os_run example_system (compile_command ?o @ [main_file ?o])
      (world (example_machine [''4'', [], ''0''])))) \<noteq> 0"
    by (simp add: mf cc example_system_def example_run_def)
  from menu_run_compile_failure_raises [OF st this] show ?thesis
    by (rule main_loop_raise)
qed

lemma press_enter_turn:
  assumes "stdin s = l # rest"
  shows "\<exists>s'. press_enter opts s = Normal opts s' \<and> stdin s' = rest
    \<and> set (trace s) \<subseteq> set (trace s')"
  using assms by (auto simp: press_enter_def input_line_def then_do_def)

lemma show_menu_turn:
  assumes "stdin s = c # rest"
  shows "\<exists>s1. show_menu opts s = Normal (py_strip c) s1 \<and> stdin s1 = rest
    \<and> world s1 = world s \<and> options_file s1 = options_file s"
  using assms by (simp add: show_menu_def input_line_def then_do_def)

lemma java_files_world: "world s1 = world s \<Longrightarrow> java_files env opts s1 = java_files env opts s"
  by (simp add: java_files_def)

lemma stops_reported:
  assumes "stops_at_first_failure env opts before f s0 r"
  shows "\<exists>s2. r = Normal () s2 \<and> Err CouldNotCompileAll \<in> set (trace s2)
    \<and> Err (Diagnostics (stderr (fst (os_run env (compile_command opts @ [f])
          (world_after env opts before (world s0)))))) \<in> set (trace s2)"
proof -
  let ?d = "Err (Diagnostics (stderr (fst (os_run env (compile_command opts @ [f])
          (world_after env opts before (world s0))))))"
  have 1: "r = Normal () (state_of r)" and 2: "?d \<in> set (trace (state_of r))"
    and 3: "last (trace (state_of r)) = Err CouldNotCompileAll"
    using assms by (simp_all add: stops_at_first_failure_def Let_def)
  have "trace (state_of r) \<noteq> []" using 2 by auto
  then have "Err CouldNotCompileAll \<in> set (trace (state_of r))"
    using 3 last_in_set by metis
  then show ?thesis using 1 2 by blast
qed

lemma compile_all_files_stops:
  assumes "all_compile env opts before (world s)"
    and "returncode (fst (os_run env (compile_command opts @ [f])
           (world_after env opts before (world s)))) \<noteq> 0"
    and "java_files env opts s = before @ f # after"
  shows "stops_at_first_failure env opts before f s (compile_all_files env opts s)"
proof -
  let ?s1 = "emits (Out FilesToCompile # map (\<lambda>file. Out (Listed file)) (before @ f # after)) s"
  have "stops_at_first_failure env opts before f s
           (compile_batch env opts (before @ f # after) ?s1)"
    using assms(1,2) by (intro compile_batch_stops) simp_all
  then show ?thesis
    using assms(3) by (simp add: compile_all_files_def Let_def)
qed

lemma compile_specific_files_selected:
  assumes "stdin s = line # rest"
    and "filter_indices (length (java_files env opts s)) (map py_strip (split_on CHR '','' line))
           = Inr selected"
  shows "\<exists>s2. world s2 = world s \<and> stdin s2 = rest
    \<and> runs (trace s2) = runs (trace s) \<and> removals (trace s2) = removals (trace s)
    \<and> compile_specific_files env opts s
        = (if selected = [] then Normal () (emit (Err NoFilesSelected) s2)
           else compile_batch env opts (map (selected_file (java_files env opts s)) selected) s2)"
proof -
  let ?s1 = "emits (Out FilesAvailable #
                 map (\<lambda>(i, file). Out (Numbered (i + 1) (removeprefix file (src_folder opts @ ''/''))))
                   (enumerate 0 (java_files env opts s))) s"
  let ?p = "CHR 0x0A # ''Choose the files to compile (separated by commas): ''"
  let ?s2 = "emit (Prompt ?p) (?s1\<lparr>stdin := rest\<rparr>)"
  have i: "input_line ?p ?s1 = Normal line ?s2"
    using assms(1) by (simp add: input_line_def)
  have "compile_specific_files env opts s
        = (if selected = [] then Normal () (emit (Err NoFilesSelected) ?s2)
           else compile_batch env opts (map (selected_file (java_files env opts s)) selected) ?s2)"
    using i assms(2) by (simp add: compile_specific_files_def Let_def then_do_def)
  moreover have "world ?s2 = world s" "stdin ?s2 = rest" "runs (trace ?s2) = runs (trace s)"
    "removals (trace ?s2) = removals (trace s)"
    by simp_all
  ultimately show ?thesis by blast
qed

lemma compile_specific_files_returns:
  assumes "stdin s = line # rest"
    and "filter_indices (length (java_files env opts s)) (map py_strip (split_on CHR '','' line))
           = Inr selected"
  shows "\<exists>s'. compile_specific_files env opts s = Normal () s' \<and> stdin s' = rest"
proof -
  from compile_specific_files_selected [OF assms] obtain s2 where
    w: "stdin s2 = rest"
    and c: "compile_specific_files env opts s
        = (if selected = [] then Normal () (emit (Err NoFilesSelected) s2)
           else compile_batch env opts (map (selected_file (java_files env opts s)) selected) s2)"
    by blast
  show ?thesis
  proof (cases "selected = []")
    case True
    then show ?thesis using c w by simp
  next
    case False
    obtain s3 where b: "compile_batch env opts
        (map (selected_file (java_files env opts s)) selected) s2 = Normal () s3"
      using compile_batch_returns by blast
    have "stdin s3 = rest"
      using compile_batch_stdin
        [of env opts "map (selected_file (java_files env opts s)) selected" s2] b w
      by simp
    then show ?thesis using c b False by simp
  qed
qed

lemma compile_specific_files_stops:
  assumes "stdin s = line # rest"
    and "filter_indices (length (java_files env opts s)) (map py_strip (split_on CHR '','' line))
           = Inr selected"
    and "map (selected_file (java_files env opts s)) selected = before @ f # after"
    and "all_compile env opts before (world s)"
    and "returncode (fst (os_run env (compile_command opts @ [f])
           (world_after env opts before (world s)))) \<noteq> 0"
  shows "stops_at_first_failure env opts before f s (compile_specific_files env opts s)"
proof -
  from compile_specific_files_selected [OF assms(1,2)] obtain s2 where
    w: "world s2 = world s" "runs (trace s2) = runs (trace s)"
      "removals (trace s2) = removals (trace s)"
    and c: "compile_specific_files env opts s
        = (if selected = [] then Normal () (emit (Err NoFilesSelected) s2)
           else compile_batch env opts (map (selected_file (java_files env opts s)) selected) s2)"
    by blast
  have n: "selected \<noteq> []" using assms(3) by auto
  have "stops_at_first_failure env opts before f s
           (compile_batch env opts (before @ f # after) s2)"
    using assms(4,5) w by (intro compile_batch_stops) simp_all
  then show ?thesis using c n assms(3) by simp
qed

lemma stops_at_first_failure_cong:
  assumes "stops_at_first_failure env opts before f s0 r" and "world s = world s0"
    and "runs (trace s) = runs (trace s0)" and "removals (trace s) = removals (trace s0)"
  shows "stops_at_first_failure env opts before f s r"
  using assms by (simp add: stops_at_first_failure_def Let_def)

lemma menu_compile_all_reports:
  assumes "stdin s = ''1'' # l # rest"
    and "all_compile env opts before (world s)"
    and "returncode (fst (os_run env (compile_command opts @ [f])
           (world_after env opts before (world s)))) \<noteq> 0"
    and "java_files env opts s = before @ f # after"
  shows "\<exists>s'. menu_iteration env opts s = Normal opts s' \<and> stdin s' = rest
    \<and> Err CouldNotCompileAll \<in> set (trace s')
    \<and> Err (Diagnostics (stderr (fst (os_run env (compile_command opts @ [f])
          (world_after env opts before (world s)))))) \<in> set (trace s')"
proof -
  obtain s1 where m: "show_menu opts s = Normal ''1'' s1" and i: "stdin s1 = l # rest"
    and w: "world s1 = world s"
    using show_menu_turn [OF assms(1), of opts] by (auto simp: py_strip_plain)
  let ?c = "emit (System clear_command) s1"
  have wc: "world ?c = world s" using w by simp
  have j: "java_files env opts ?c = before @ f # after"
    using java_files_world [OF wc] assms(4) by simp
  have "stops_at_first_failure env opts before f ?c (compile_all_files env opts ?c)"
    using assms(2,3) wc j by (intro compile_all_files_stops) simp_all
  from stops_reported [OF this] obtain s2 where
    c: "compile_all_files env opts ?c = Normal () s2"
    and r: "Err CouldNotCompileAll \<in> set (trace s2)"
      "Err (Diagnostics (stderr (fst (os_run env (compile_command opts @ [f])
          (world_after env opts before (world ?c)))))) \<in> set (trace s2)"
    by blast
  have "stdin s2 = l # rest"
    using compile_all_files_stdin [of env opts ?c] c i by simp
  from press_enter_turn [OF this, of opts] obtain s' where
    "press_enter opts s2 = Normal opts s'" "stdin s' = rest" "set (trace s2) \<subseteq> set (trace s')"
    by blast
  then show ?thesis
    using m c r wc by (auto simp: menu_iteration_def then_do_def)
qed

lemma menu_select_returns:
  assumes "stdin s = ''2'' # line # l # rest"
    and "filter_indices (length (java_files env opts s)) (map py_strip (split_on CHR '','' line))
           = Inr selected"
  shows "\<exists>s'. menu_iteration env opts s = Normal opts s' \<and> stdin s' = rest"
proof -
  obtain s1 where m: "show_menu opts s = Normal ''2'' s1" and i: "stdin s1 = line # l # rest"
    and w: "world s1 = world s"
    using show_menu_turn [OF assms(1), of opts] by (auto simp: py_strip_plain)
  let ?c = "emit (System clear_command) s1"
  have wc: "world ?c = world s" using w by simp
  have ic: "stdin ?c = line # l # rest" using i by simp
  have fc: "filter_indices (length (java_files env opts ?c)) (map py_strip (split_on CHR '','' line))
           = Inr selected"
    using assms(2) java_files_world [OF wc] by simp
  from compile_specific_files_returns [OF ic fc] obtain s2 where
    c: "compile_specific_files env opts ?c = Normal () s2" and "stdin s2 = l # rest"
    by blast
  from press_enter_turn [OF this(2), of opts] obtain s' where
    "press_enter opts s2 = Normal opts s'" "stdin s' = rest"
    by blast
  then show ?thesis
    using m c by (auto simp: menu_iteration_def then_do_def)
qed

lemma menu_select_reports:
  assumes "stdin s = ''2'' # line # l # rest"
    and "filter_indices (length (java_files env opts s)) (map py_strip (split_on CHR '','' line))
           = Inr selected"
    and "map (selected_file (java_files env opts s)) selected = before @ f # after"
    and "all_compile env opts before (world s)"
    and "returncode (fst (os_run env (compile_command opts @ [f])
           (world_after env opts before (world s)))) \<noteq> 0"
  shows "\<exists>s'. menu_iteration env opts s = Normal opts s' \<and> stdin s' = rest
    \<and> Err CouldNotCompileAll \<in> set (trace s')
    \<and> Err (Diagnostics (stderr (fst (os_run env (compile_command opts @ [f])
          (world_after env opts before (world s)))))) \<in> set (trace s')"
proof -
  obtain s1 where m: "show_menu opts s = Normal ''2'' s1" and i: "stdin s1 = line # l # rest"
    and w: "world s1 = world s"
    using show_menu_turn [OF assms(1), of opts] by (auto simp: py_strip_plain)
  let ?c = "emit (System clear_command) s1"
  have wc: "world ?c = world s" using w by simp
  have ic: "stdin ?c = line # l # rest" using i by simp
  have jc: "java_files env opts ?c = java_files env opts s"
    using java_files_world [OF wc] .
  have "stops_at_first_failure env opts before f ?c (compile_specific_files env opts ?c)"
    using assms(2,3,4,5) ic
    by (intro compile_specific_files_stops [where line = line and rest = "l # rest"
          and selected = selected and after = after]) (simp_all add: jc w)
  from stops_reported [OF this] obtain s2 where
    c: "compile_specific_files env opts ?c = Normal () s2"
    and r: "Err CouldNotCompileAll \<in> set (trace s2)"
      "Err (Diagnostics (stderr (fst (os_run env (compile_command opts @ [f])
          (world_after env opts before (world ?c)))))) \<in> set (trace s2)"
    by blast
  have fc: "filter_indices (length (java_files env opts ?c)) (map py_strip (split_on CHR '','' line))
           = Inr selected"
    using assms(2) jc by simp
  from compile_specific_files_returns [OF ic fc] c have "stdin s2 = l # rest"
    by auto
  from press_enter_turn [OF this, of opts] obtain s' where
    "press_enter opts s2 = Normal opts s'" "stdin s' = rest" "set (trace s2) \<subseteq> set (trace s')"
    by blast
  then show ?thesis
    using m c r wc by (auto simp: menu_iteration_def then_do_def)
qed


lemma menu_run_failure_reports:
  assumes "stdin s = ''4'' # l # rest"
    and "returncode (fst (os_run env (compile_command opts @ [main_file opts]) (world s))) = 0"
    and "returncode (fst (os_run env (run_command opts)
           (snd (os_run env (compile_command opts @ [main_file opts]) (world s))))) \<noteq> 0"
  shows "\<exists>s'. menu_iteration env opts s = Normal opts s' \<and> stdin s' = rest
    \<and> Err CouldNotRun \<in> set (trace s')
    \<and> Err (Diagnostics (stderr (fst (os_run env (run_command opts)
           (snd (os_run env (compile_command opts @ [main_file opts]) (world s)))))))
        \<in> set (trace s')"
proof -
  obtain s1 where m: "show_menu opts s = Normal ''4'' s1" and i: "stdin s1 = l # rest"
    and w: "world s1 = world s"
    using show_menu_turn [OF assms(1), of opts] by (auto simp: py_strip_plain)
  let ?c = "emit (System clear_command) s1"
  have a: "returncode (fst (os_run env (compile_command opts @ [main_file opts]) (world ?c))) = 0"
    using assms(2) w by simp
  have b: "returncode (fst (os_run env (run_command opts)
           (snd (os_run env (compile_command opts @ [main_file opts]) (world ?c))))) \<noteq> 0"
    using assms(3) w by simp
  from compile_and_run_failure_reported [OF a b] obtain s2 where
    c: "compile_and_run_project env opts ?c = Normal () s2"
    and r: "Err CouldNotRun \<in> set (trace s2)"
      "Err (Diagnostics (stderr (fst (os_run env (run_command opts)
           (snd (os_run env (compile_command opts @ [main_file opts]) (world ?c)))))))
        \<in> set (trace s2)"
    by metis
  have "stdin s2 = l # rest"
    using compile_and_run_project_stdin [of env opts ?c] c i by simp
  from press_enter_turn [OF this, of opts] obtain s' where
    "press_enter opts s2 = Normal opts s'" "stdin s' = rest" "set (trace s2) \<subseteq> set (trace s')"
    by blast
  then show ?thesis
    using m c r w by (auto simp: menu_iteration_def then_do_def)
qed

lemma settings_invalid_exits:
  assumes "stdin s = c # p # rest" and "c = ''1'' \<or> c = ''3''"
    and "\<not> (os_exists env (world s) (os_abspath env (py_strip p))
            \<and> os_isdir env (world s) (os_abspath env (py_strip p)))"
  shows "\<exists>s'. setup_compilation_options env opts s = Exit 1 s'
    \<and> Err (FolderDoesNotExist (basename (os_abspath env (py_strip p)))) \<in> set (trace s')
    \<and> options_file s' = options_file s"
proof -
  have "\<exists>s'. setup_iteration env opts s = Exit 1 s'
    \<and> Err (FolderDoesNotExist (basename (os_abspath env (py_strip p)))) \<in> set (trace s')
    \<and> options_file s' = options_file s"
    using assms
    by (auto simp: setup_iteration_def input_line_def then_do_def py_strip_plain Let_def
        set_src_folder_def set_class_path_def validate_folder_def)
  then obtain s1 where 1: "setup_iteration env opts s = Exit 1 s1"
    and 2: "Err (FolderDoesNotExist (basename (os_abspath env (py_strip p)))) \<in> set (trace s1)"
    and 3: "options_file s1 = options_file s"
    by blast
  have "setup_loop env opts s = Exit 1 s1"
    using 1 by (simp add: setup_loop.simps [of env opts s])
  then have "setup_compilation_options env opts s = Exit 1 s1"
    by (simp add: setup_compilation_options_def then_do_def)
  then show ?thesis using 2 3 by blast
qed

lemma menu_settings_invalid_exits:
  assumes "stdin s = ''5'' # c # p # rest" and "c = ''1'' \<or> c = ''3''"
    and "\<not> (os_exists env (world s) (os_abspath env (py_strip p))
            \<and> os_isdir env (world s) (os_abspath env (py_strip p)))"
  shows "\<exists>s'. menu_iteration env opts s = Exit 1 s' \<and> main_loop env opts s = Exit 1 s'
    \<and> Err (FolderDoesNotExist (basename (os_abspath env (py_strip p)))) \<in> set (trace s')
    \<and> options_file s' = options_file s"
proof -
  obtain s1 where m: "show_menu opts s = Normal ''5'' s1" and i: "stdin s1 = c # p # rest"
    and w: "world s1 = world s" and o: "options_file s1 = options_file s"
    using show_menu_turn [OF assms(1), of opts] by (auto simp: py_strip_plain)
  let ?c = "emit (System clear_command) s1"
  have ic: "stdin ?c = c # p # rest" using i by simp
  have n: "\<not> (os_exists env (world ?c) (os_abspath env (py_strip p))
            \<and> os_isdir env (world ?c) (os_abspath env (py_strip p)))"
    using assms(3) w by simp
  from settings_invalid_exits [OF ic assms(2) n, of opts] obtain s2 where
    e: "setup_compilation_options env opts ?c = Exit 1 s2"
    and r: "Err (FolderDoesNotExist (basename (os_abspath env (py_strip p)))) \<in> set (trace s2)"
    and f: "options_file s2 = options_file ?c"
    by blast
  have 1: "menu_iteration env opts s = Exit 1 s2"
    using m e by (simp add: menu_iteration_def then_do_def)
  then have 2: "main_loop env opts s = Exit 1 s2"
    by (simp add: main_loop.simps [of env opts s])
  show ?thesis using 1 2 r f o by auto
qed

text \<open>
  C1, as the claim states it, fails: in the settings submenu, a new source folder that
  is not an existing directory ends the program with status 1, from inside the
  program loop.
\<close>

theorem menu_loop_exits_from_settings:
  "exit_status (main_loop example_system example_options
     (example_machine [''5'', ''1'', ''old/build''])) = Some 1"
proof -
  have st: "stdin (example_machine [''5'', ''1'', ''old/build'']) = ''5'' # ''1'' # ''old/build'' # []"
    by (simp add: example_machine_def)
  have sp: "py_strip ''old/build'' = ''old/build''"
    by (simp add: py_strip_def py_isspace_def)
  have "\<not> (os_exists example_system (world (example_machine [''5'', ''1'', ''old/build'']))
            (os_abspath example_system (py_strip ''old/build''))
          \<and> os_isdir example_system (world (example_machine [''5'', ''1'', ''old/build'']))
            (os_abspath example_system (py_strip ''old/build'')))"
    by (simp add: sp example_system_def startswith_def)
  from menu_settings_invalid_folder_exits [OF st this] show ?thesis by blast
qed

text \<open>
  C1, amended. Once the program loop has started, a turn that chose compile-all, or
  compile-selected with a selection that the filter accepts, returns to the menu
  with the options as they were, whatever the compiler does; when a file fails to
  compile, the turn has put the diagnostics of that file and the line that not all
  files could be compiled on standard error. Compile-all always returns to its
  caller; compile-selected lets no \<^verbatim>\<open>CompilationError\<close> out and never exits. A turn
  that chose compile-and-run returns to the menu when the entry point compiles;
  when the runtime then fails, the turn has reported the failure with the
  diagnostics of the runtime. The exit with status 1 of the folder validation ends
  the program from the settings submenu too: for a new source folder and for a new
  class path that is not an existing directory, the turn and the loop exit with
  status 1, after the line that names the base name of the resolved path, and
  leave the options file as it was.
\<close>

theorem menu_loop_recovers:
  "(stdin s = ''1'' # l # rest
      \<longrightarrow> (\<exists>s'. menu_iteration env opts s = Normal opts s' \<and> stdin s' = rest))
   \<and> (stdin s = ''1'' # l # rest
      \<and> all_compile env opts before (world s)
      \<and> returncode (fst (os_run env (compile_command opts @ [f])
           (world_after env opts before (world s)))) \<noteq> 0
      \<and> java_files env opts s = before @ f # after
      \<longrightarrow> (\<exists>s'. menu_iteration env opts s = Normal opts s' \<and> stdin s' = rest
            \<and> Err CouldNotCompileAll \<in> set (trace s')
            \<and> Err (Diagnostics (stderr (fst (os_run env (compile_command opts @ [f])
                 (world_after env opts before (world s)))))) \<in> set (trace s')))
   \<and> (stdin s = ''2'' # line # l # rest
      \<and> filter_indices (length (java_files env opts s)) (map py_strip (split_on CHR '','' line))
          = Inr selected
      \<longrightarrow> (\<exists>s'. menu_iteration env opts s = Normal opts s' \<and> stdin s' = rest))
   \<and> (stdin s = ''2'' # line # l # rest
      \<and> filter_indices (length (java_files env opts s)) (map py_strip (split_on CHR '','' line))
          = Inr selected
      \<and> map (selected_file (java_files env opts s)) selected = before @ f # after
      \<and> all_compile env opts before (world s)
      \<and> returncode (fst (os_run env (compile_command opts @ [f])
           (world_after env opts before (world s)))) \<noteq> 0
      \<longrightarrow> (\<exists>s'. menu_iteration env opts s = Normal opts s' \<and> stdin s' = rest
            \<and> Err CouldNotCompileAll \<in> set (trace s')
            \<and> Err (Diagnostics (stderr (fst (os_run env (compile_command opts @ [f])
                 (world_after env opts before (world s)))))) \<in> set (trace s')))
   \<and> (\<exists>s'. compile_all_files env opts s = Normal () s')
   \<and> (all_compile env opts before (world s)
      \<and> returncode (fst (os_run env (compile_command opts @ [f])
           (world_after env opts before (world s)))) \<noteq> 0
      \<and> java_files env opts s = before @ f # after
      \<longrightarrow> last (trace (state_of (compile_all_files env opts s))) = Err CouldNotCompileAll)
   \<and> raised (compile_specific_files env opts s) \<noteq> Some CompilationError
   \<and> exit_status (compile_specific_files env opts s) = None
   \<and> (stdin s = ''4'' # l # rest
      \<and> returncode (fst (os_run env (compile_command opts @ [main_file opts]) (world s))) = 0
      \<longrightarrow> (\<exists>s'. menu_iteration env opts s = Normal opts s' \<and> stdin s' = rest))
   \<and> (stdin s = ''4'' # l # rest
      \<and> returncode (fst (os_run env (compile_command opts @ [main_file opts]) (world s))) = 0
      \<and> returncode (fst (os_run env (run_command opts)
           (snd (os_run env (compile_command opts @ [main_file opts]) (world s))))) \<noteq> 0
      \<longrightarrow> (\<exists>s'. menu_iteration env opts s = Normal opts s' \<and> stdin s' = rest
            \<and> Err CouldNotRun \<in> set (trace s')
            \<and> Err (Diagnostics (stderr (fst (os_run env (run_command opts)
                 (snd (os_run env (compile_command opts @ [main_file opts]) (world s)))))))
                \<in> set (trace s')))
   \<and> (returncode (fst (os_run env (compile_command opts @ [main_file opts]) (world s))) = 0
      \<and> returncode (fst (os_run env (run_command opts)
           (snd (os_run env (compile_command opts @ [main_file opts]) (world s))))) \<noteq> 0
      \<longrightarrow> compile_and_run_project env opts s
            = Normal () (state_of (compile_and_run_project env opts s))
          \<and> Err CouldNotRun \<in> set (trace (state_of (compile_and_run_project env opts s)))
          \<and> Err (Diagnostics (stderr (fst (os_run env (run_command opts)
               (snd (os_run env (compile_command opts @ [main_file opts]) (world s)))))))
              \<in> set (trace (state_of (compile_and_run_project env opts s))))
   \<and> (stdin s = ''5'' # c # p # rest \<and> (c = ''1'' \<or> c = ''3'')
      \<and> \<not> (os_exists env (world s) (os_abspath env (py_strip p))
            \<and> os_isdir env (world s) (os_abspath env (py_strip p)))
      \<longrightarrow> (\<exists>s'. menu_iteration env opts s = Exit 1 s' \<and> main_loop env opts s = Exit 1 s'
            \<and> Err (FolderDoesNotExist (basename (os_abspath env (py_strip p)))) \<in> set (trace s')
            \<and> options_file s' = options_file s))"
proof (intro conjI impI)
  show "\<exists>s'. compile_all_files env opts s = Normal () s'"
    by (rule compile_all_files_returns)
  show "raised (compile_specific_files env opts s) \<noteq> Some CompilationError"
    and "exit_status (compile_specific_files env opts s) = None"
    using compile_specific_files_cases [of env opts s] by simp_all
  show "\<exists>s'. menu_iteration env opts s = Normal opts s' \<and> stdin s' = rest"
    if "stdin s = ''1'' # l # rest"
    using menu_compile_all_returns [OF that] .
  show "\<exists>s'. menu_iteration env opts s = Normal opts s' \<and> stdin s' = rest"
    if "stdin s = ''4'' # l # rest
      \<and> returncode (fst (os_run env (compile_command opts @ [main_file opts]) (world s))) = 0"
    using menu_run_failure_returns [of s l rest env opts] that by blast
  show "\<exists>s'. menu_iteration env opts s = Normal opts s' \<and> stdin s' = rest"
    if "stdin s = ''2'' # line # l # rest
      \<and> filter_indices (length (java_files env opts s)) (map py_strip (split_on CHR '','' line))
          = Inr selected"
    using menu_select_returns [of s line l rest env opts selected] that by blast
  show "\<exists>s'. menu_iteration env opts s = Normal opts s' \<and> stdin s' = rest
            \<and> Err CouldNotCompileAll \<in> set (trace s')
            \<and> Err (Diagnostics (stderr (fst (os_run env (compile_command opts @ [f])
                 (world_after env opts before (world s)))))) \<in> set (trace s')"
    if "stdin s = ''1'' # l # rest
      \<and> all_compile env opts before (world s)
      \<and> returncode (fst (os_run env (compile_command opts @ [f])
           (world_after env opts before (world s)))) \<noteq> 0
      \<and> java_files env opts s = before @ f # after"
    using menu_compile_all_reports [of s l rest env opts before f after] that by blast
  show "\<exists>s'. menu_iteration env opts s = Normal opts s' \<and> stdin s' = rest
            \<and> Err CouldNotCompileAll \<in> set (trace s')
            \<and> Err (Diagnostics (stderr (fst (os_run env (compile_command opts @ [f])
                 (world_after env opts before (world s)))))) \<in> set (trace s')"
    if "stdin s = ''2'' # line # l # rest
      \<and> filter_indices (length (java_files env opts s)) (map py_strip (split_on CHR '','' line))
          = Inr selected
      \<and> map (selected_file (java_files env opts s)) selected = before @ f # after
      \<and> all_compile env opts before (world s)
      \<and> returncode (fst (os_run env (compile_command opts @ [f])
           (world_after env opts before (world s)))) \<noteq> 0"
    using menu_select_reports [of s line l rest env opts selected before f after] that by blast
  show "\<exists>s'. menu_iteration env opts s = Normal opts s' \<and> stdin s' = rest
            \<and> Err CouldNotRun \<in> set (trace s')
            \<and> Err (Diagnostics (stderr (fst (os_run env (run_command opts)
                 (snd (os_run env (compile_command opts @ [main_file opts]) (world s)))))))
                \<in> set (trace s')"
    if "stdin s = ''4'' # l # rest
      \<and> returncode (fst (os_run env (compile_command opts @ [main_file opts]) (world s))) = 0
      \<and> returncode (fst (os_run env (run_command opts)
           (snd (os_run env (compile_command opts @ [main_file opts]) (world s))))) \<noteq> 0"
    using menu_run_failure_reports [of s l rest env opts] that by blast
  show "\<exists>s'. menu_iteration env opts s = Exit 1 s' \<and> main_loop env opts s = Exit 1 s'
            \<and> Err (FolderDoesNotExist (basename (os_abspath env (py_strip p)))) \<in> set (trace s')
            \<and> options_file s' = options_file s"
    if "stdin s = ''5'' # c # p # rest \<and> (c = ''1'' \<or> c = ''3'')
      \<and> \<not> (os_exists env (world s) (os_abspath env (py_strip p))
            \<and> os_isdir env (world s) (os_abspath env (py_strip p)))"
    using menu_settings_invalid_exits [of s c p rest env opts] that by blast
  {
    assume h: "all_compile env opts before (world s)
      \<and> returncode (fst (os_run env (compile_command opts @ [f])
           (world_after env opts before (world s)))) \<noteq> 0
      \<and> java_files env opts s = before @ f # after"
    then have "stops_at_first_failure env opts before f s (compile_all_files env opts s)"
      by (intro compile_all_files_stops) simp_all
    then show "last (trace (state_of (compile_all_files env opts s))) = Err CouldNotCompileAll"
      by (simp add: stops_at_first_failure_def Let_def)
  }
  {
    assume h: "returncode (fst (os_run env (compile_command opts @ [main_file opts]) (world s))) = 0
      \<and> returncode (fst (os_run env (run_command opts)
           (snd (os_run env (compile_command opts @ [main_file opts]) (world s))))) \<noteq> 0"
    then have a: "returncode (fst (os_run env (compile_command opts @ [main_file opts]) (world s))) = 0"
      and b: "returncode (fst (os_run env (run_command opts)
           (snd (os_run env (compile_command opts @ [main_file opts]) (world s))))) \<noteq> 0"
      by simp_all
    from compile_and_run_failure_reported [OF a b]
    show "compile_and_run_project env opts s
            = Normal () (state_of (compile_and_run_project env opts s))"
      and "Err CouldNotRun \<in> set (trace (state_of (compile_and_run_project env opts s)))"
      and "Err (Diagnostics (stderr (fst (os_run env (run_command opts)
               (snd (os_run env (compile_command opts @ [main_file opts]) (world s)))))))
              \<in> set (trace (state_of (compile_and_run_project env opts s)))"
      by blast+
  }
qed


theorem menu_loop_recovers_witness:
  "exit_status (main_loop example_system example_options (example_machine [''1'', [], ''0''])) = Some 0
   \<and> Err CouldNotCompileAll
     \<in> set (trace (state_of (menu_iteration example_system example_options
              (example_machine [''1'', []]))))
   \<and> Err (Diagnostics ''B.java:1: error'')
     \<in> set (trace (state_of (menu_iteration example_system example_options
              (example_machine [''1'', []]))))
   \<and> exit_status (main_loop example_system example_options
        (example_machine [''2'', ''2, 3'', [], ''0''])) = Some 0
   \<and> Err CouldNotCompileAll
     \<in> set (trace (state_of (menu_iteration example_system example_options
              (example_machine [''2'', ''2, 3'', []]))))
   \<and> last (trace (state_of (compile_all_files example_system example_options (example_machine []))))
     = Err CouldNotCompileAll
   \<and> exit_status (main_loop example_system (example_options\<lparr>main_class_path := ''pkg.Broken''\<rparr>)
        (example_machine [''4'', [], ''0''])) = Some 0
   \<and> Err CouldNotRun
     \<in> set (trace (state_of (menu_iteration example_system
              (example_options\<lparr>main_class_path := ''pkg.Broken''\<rparr>) (example_machine [''4'', []]))))
   \<and> Err CouldNotRun
     \<in> set (trace (state_of (compile_and_run_project example_system
              (example_options\<lparr>main_class_path := ''pkg.Broken''\<rparr>) (example_machine []))))
   \<and> exit_status (main_loop example_system example_options
        (example_machine [''5'', ''1'', ''old/build''])) = Some 1
   \<and> exit_status (main_loop example_system example_options
        (example_machine [''5'', ''3'', ''old/build''])) = Some 1
   \<and> Err (FolderDoesNotExist ''build'')
     \<in> set (trace (state_of (main_loop example_system example_options
              (example_machine [''5'', ''3'', ''old/build'']))))"
proof -
  let ?A = "''/home/u/proj/A.java''" and ?B = "''/home/u/proj/sub/B.java''"
  let ?C = "''/home/u/proj/sub/deep/C.java''"
  let ?o = "example_options\<lparr>main_class_path := ''pkg.Broken''\<rparr>"
  have st: "stdin (example_machine inputs) = inputs" "world (example_machine inputs) = []" for inputs
    by (simp_all add: example_machine_def)
  have a: "all_compile example_system example_options [?A] (world (example_machine inputs))" for inputs
    by (simp add: example_compile_command example_system_def example_run_def)
  have b: "returncode (fst (os_run example_system (compile_command example_options @ [?B])
      (world_after example_system example_options [?A] (world (example_machine inputs))))) \<noteq> 0" for inputs
    by (simp add: example_compile_command example_system_def example_run_def)
  have d: "stderr (fst (os_run example_system (compile_command example_options @ [?B])
      (world_after example_system example_options [?A] (world (example_machine inputs)))))
      = ''B.java:1: error''" for inputs
    by (simp add: example_compile_command example_system_def example_run_def)
  have a0: "all_compile example_system example_options [] (world (example_machine inputs))" for inputs
    by simp
  have b0: "returncode (fst (os_run example_system (compile_command example_options @ [?B])
      (world_after example_system example_options [] (world (example_machine inputs))))) \<noteq> 0" for inputs
    by (simp add: example_compile_command example_system_def example_run_def)
  have j: "java_files example_system example_options (example_machine inputs) = [?A] @ ?B # [?C]" for inputs
    by (simp add: example_java_files)
  have fi: "filter_indices (length (java_files example_system example_options (example_machine inputs)))
      (map py_strip (split_on CHR '','' ''2, 3'')) = Inr [''2'', ''3'']" for inputs
  proof -
    have "length (java_files example_system example_options (example_machine inputs)) = 3"
      by (simp add: example_java_files)
    then show ?thesis by (simp only: example_selection)
  qed
  have sel: "map (selected_file (java_files example_system example_options (example_machine inputs)))
      [''2'', ''3''] = [] @ ?B # [?C]" for inputs
    by (simp add: example_java_files selected_file_def decimal_value_def digit_value_def)
  have 1: "exit_status (main_loop example_system example_options (example_machine [''1'', [], ''0''])) = Some 0"
  proof -
    have "stdin (example_machine [''1'', [], ''0'']) = ''1'' # [] # [''0'']"
      by (simp add: st)
    with menu_loop_recovers [where env = example_system and opts = example_options
        and s = "example_machine [''1'', [], ''0'']" and l = "[]" and rest = "[''0'']", THEN conjunct1]
    obtain s' where x: "menu_iteration example_system example_options (example_machine [''1'', [], ''0''])
        = Normal example_options s'" and y: "stdin s' = ''0'' # []"
      by blast
    have "exit_status (main_loop example_system example_options s') = Some 0"
      using menu_exit_step [OF y] by (rule main_loop_exit)
    then show ?thesis using main_loop_step [OF x] by simp
  qed
  have 2: "Err CouldNotCompileAll
      \<in> set (trace (state_of (menu_iteration example_system example_options (example_machine [''1'', []]))))
    \<and> Err (Diagnostics ''B.java:1: error'')
      \<in> set (trace (state_of (menu_iteration example_system example_options (example_machine [''1'', []]))))"
  proof -
    have "stdin (example_machine [''1'', []]) = ''1'' # [] # []"
      by (simp add: st)
    with menu_loop_recovers [where env = example_system and opts = example_options
        and s = "example_machine [''1'', []]" and l = "[]" and rest = "[]"
        and before = "[?A]" and f = ?B and after = "[?C]", THEN conjunct2, THEN conjunct1] a b j
    obtain s' where "menu_iteration example_system example_options (example_machine [''1'', []])
        = Normal example_options s'" "Err CouldNotCompileAll \<in> set (trace s')"
      "Err (Diagnostics (stderr (fst (os_run example_system (compile_command example_options @ [?B])
        (world_after example_system example_options [?A] (world (example_machine [''1'', []]))))))) \<in> set (trace s')"
      by blast
    then show ?thesis using d [of "[''1'', []]"] by simp
  qed
  have 3: "exit_status (main_loop example_system example_options
        (example_machine [''2'', ''2, 3'', [], ''0''])) = Some 0"
  proof -
    have "stdin (example_machine [''2'', ''2, 3'', [], ''0'']) = ''2'' # ''2, 3'' # [] # [''0'']"
      by (simp add: st)
    with menu_loop_recovers [where env = example_system and opts = example_options
        and s = "example_machine [''2'', ''2, 3'', [], ''0'']" and line = "''2, 3''" and l = "[]"
        and rest = "[''0'']" and selected = "[''2'', ''3'']", THEN conjunct2, THEN conjunct2, THEN conjunct1] fi
    obtain s' where x: "menu_iteration example_system example_options
        (example_machine [''2'', ''2, 3'', [], ''0'']) = Normal example_options s'"
      and y: "stdin s' = ''0'' # []"
      by blast
    have "exit_status (main_loop example_system example_options s') = Some 0"
      using menu_exit_step [OF y] by (rule main_loop_exit)
    then show ?thesis using main_loop_step [OF x] by simp
  qed
  have 4: "Err CouldNotCompileAll
      \<in> set (trace (state_of (menu_iteration example_system example_options
               (example_machine [''2'', ''2, 3'', []]))))"
  proof -
    have "stdin (example_machine [''2'', ''2, 3'', []]) = ''2'' # ''2, 3'' # [] # []"
      by (simp add: st)
    with menu_loop_recovers [where env = example_system and opts = example_options
        and s = "example_machine [''2'', ''2, 3'', []]" and line = "''2, 3''" and l = "[]"
        and rest = "[]" and selected = "[''2'', ''3'']"
        and before = "[]" and f = ?B and after = "[?C]", THEN conjunct2, THEN conjunct2, THEN conjunct2, THEN conjunct1] fi sel a0 b0
    obtain s' where "menu_iteration example_system example_options
        (example_machine [''2'', ''2, 3'', []]) = Normal example_options s'"
      "Err CouldNotCompileAll \<in> set (trace s')"
      by blast
    then show ?thesis by simp
  qed
  have 5: "last (trace (state_of (compile_all_files example_system example_options (example_machine []))))
     = Err CouldNotCompileAll"
    using menu_loop_recovers [where env = example_system and opts = example_options
        and s = "example_machine []" and before = "[?A]" and f = ?B and after = "[?C]", THEN conjunct2, THEN conjunct2, THEN conjunct2, THEN conjunct2, THEN conjunct2, THEN conjunct1] a b j
    by blast
  have mf: "main_file ?o = ''/home/u/proj/pkg/Broken.java''"
    by (simp add: main_file_def example_options_def replace_dots_def path_join_def
        startswith_def endswith_def)
  have cc: "compile_command ?o = [''javac'', ''-cp'', ''/home/u/proj'', ''-encoding'', ''UTF-8'']"
    by (simp add: compile_command_def example_options_def)
  have rc: "run_command ?o = [''java'', ''-cp'', ''/home/u/proj'', ''pkg.Broken'']"
    by (simp add: run_command_def example_options_def)
  have ok: "returncode (fst (os_run example_system (compile_command ?o @ [main_file ?o])
      (world (example_machine inputs)))) = 0" for inputs
    by (simp add: mf cc example_system_def example_run_def)
  have ko: "returncode (fst (os_run example_system (run_command ?o)
      (snd (os_run example_system (compile_command ?o @ [main_file ?o])
        (world (example_machine inputs)))))) \<noteq> 0" for inputs
    by (simp add: rc example_system_def example_run_def)
  have 6: "exit_status (main_loop example_system ?o (example_machine [''4'', [], ''0''])) = Some 0"
  proof -
    have "stdin (example_machine [''4'', [], ''0'']) = ''4'' # [] # [''0'']"
      by (simp add: st)
    with menu_loop_recovers [where env = example_system and opts = ?o
        and s = "example_machine [''4'', [], ''0'']" and l = "[]" and rest = "[''0'']", THEN conjunct2, THEN conjunct2, THEN conjunct2, THEN conjunct2, THEN conjunct2, THEN conjunct2, THEN conjunct2, THEN conjunct2, THEN conjunct1] ok
    obtain s' where x: "menu_iteration example_system ?o (example_machine [''4'', [], ''0''])
        = Normal ?o s'" and y: "stdin s' = ''0'' # []"
      by blast
    have "exit_status (main_loop example_system ?o s') = Some 0"
      using menu_exit_step [OF y] by (rule main_loop_exit)
    then show ?thesis using main_loop_step [OF x] by simp
  qed
  have 7: "Err CouldNotRun
      \<in> set (trace (state_of (menu_iteration example_system ?o (example_machine [''4'', []]))))"
  proof -
    have "stdin (example_machine [''4'', []]) = ''4'' # [] # []"
      by (simp add: st)
    with menu_loop_recovers [where env = example_system and opts = ?o
        and s = "example_machine [''4'', []]" and l = "[]" and rest = "[]", THEN conjunct2, THEN conjunct2, THEN conjunct2, THEN conjunct2, THEN conjunct2, THEN conjunct2, THEN conjunct2, THEN conjunct2, THEN conjunct2, THEN conjunct1] ok ko
    obtain s' where "menu_iteration example_system ?o (example_machine [''4'', []]) = Normal ?o s'"
      "Err CouldNotRun \<in> set (trace s')"
      by blast
    then show ?thesis by simp
  qed
  have 8: "Err CouldNotRun
     \<in> set (trace (state_of (compile_and_run_project example_system ?o (example_machine []))))"
    using menu_loop_recovers [where env = example_system and opts = ?o and s = "example_machine []", THEN conjunct2, THEN conjunct2, THEN conjunct2, THEN conjunct2, THEN conjunct2, THEN conjunct2, THEN conjunct2, THEN conjunct2, THEN conjunct2, THEN conjunct2, THEN conjunct1]
      ok ko
    by blast
  have sp: "py_strip ''old/build'' = ''old/build''"
    by (simp add: py_strip_def py_isspace_def)
  have n: "\<not> (os_exists example_system (world (example_machine inputs))
            (os_abspath example_system (py_strip ''old/build''))
          \<and> os_isdir example_system (world (example_machine inputs))
            (os_abspath example_system (py_strip ''old/build'')))" for inputs
    by (simp add: sp example_system_def startswith_def)
  have bn: "basename (os_abspath example_system (py_strip ''old/build'')) = ''build''"
    by (simp add: sp example_system_def startswith_def basename_def)
  have 9: "exit_status (main_loop example_system example_options
        (example_machine [''5'', ''1'', ''old/build''])) = Some 1"
  proof -
    have "stdin (example_machine [''5'', ''1'', ''old/build'']) = ''5'' # ''1'' # ''old/build'' # []"
      by (simp add: st)
    with menu_loop_recovers [where env = example_system and opts = example_options
        and s = "example_machine [''5'', ''1'', ''old/build'']" and c = "''1''"
        and p = "''old/build''" and rest = "[]", THEN conjunct2, THEN conjunct2, THEN conjunct2, THEN conjunct2, THEN conjunct2, THEN conjunct2, THEN conjunct2, THEN conjunct2, THEN conjunct2, THEN conjunct2, THEN conjunct2] n
    obtain s' where "main_loop example_system example_options
        (example_machine [''5'', ''1'', ''old/build'']) = Exit 1 s'"
      by blast
    then show ?thesis by simp
  qed
  have 10: "exit_status (main_loop example_system example_options
        (example_machine [''5'', ''3'', ''old/build''])) = Some 1
    \<and> Err (FolderDoesNotExist ''build'')
      \<in> set (trace (state_of (main_loop example_system example_options
               (example_machine [''5'', ''3'', ''old/build'']))))"
  proof -
    have "stdin (example_machine [''5'', ''3'', ''old/build'']) = ''5'' # ''3'' # ''old/build'' # []"
      by (simp add: st)
    with menu_loop_recovers [where env = example_system and opts = example_options
        and s = "example_machine [''5'', ''3'', ''old/build'']" and c = "''3''"
        and p = "''old/build''" and rest = "[]", THEN conjunct2, THEN conjunct2, THEN conjunct2, THEN conjunct2, THEN conjunct2, THEN conjunct2, THEN conjunct2, THEN conjunct2, THEN conjunct2, THEN conjunct2, THEN conjunct2] n
    obtain s' where "main_loop example_system example_options
        (example_machine [''5'', ''3'', ''old/build'']) = Exit 1 s'"
      "Err (FolderDoesNotExist (basename (os_abspath example_system (py_strip ''old/build''))))
        \<in> set (trace s')"
      by blast
    then show ?thesis by (simp add: bn)
  qed
  show ?thesis using 1 2 3 4 5 6 7 8 9 10 by blast
qed

end
